theory Spec2Isabelle
  imports Complex_Main
begin

section \<open>JavaScript strings\<close>

text \<open>
  A JavaScript string is a sequence of UTF-16 code units. A code unit is modelled as an
  integer (from 0 to 65535 in every string of the program), and \<open>str\<close> gives the string
  that a literal of the source denotes. What the code reads from the page and may find
  missing (an element, an attribute, a match) is an \<open>option\<close>.
\<close>

type_synonym jsstring = "int list"

definition str :: "string \<Rightarrow> jsstring" where
  "str s = map of_char s"

subsection \<open>White space\<close>

text \<open>
  \<^verbatim>\<open>trim\<close> and the class \<^verbatim>\<open>\s\<close> of a regular expression know the same characters, the
  WhiteSpace and LineTerminator of ECMAScript: tab, line feed, vertical tab, form feed,
  carriage return, space, no-break space, the other space separators (category Zs), the
  line and the paragraph separator, and the byte order mark.
\<close>

definition whiteSpace :: "int list" where
  "whiteSpace =
     [0x09, 0x0A, 0x0B, 0x0C, 0x0D, 0x20, 0xA0, 0x1680,
      0x2000, 0x2001, 0x2002, 0x2003, 0x2004, 0x2005, 0x2006, 0x2007, 0x2008, 0x2009, 0x200A,
      0x2028, 0x2029, 0x202F, 0x205F, 0x3000, 0xFEFF]"

definition isSpace :: "int \<Rightarrow> bool" where
  "isSpace c \<longleftrightarrow> c \<in> set whiteSpace"

definition trim :: "jsstring \<Rightarrow> jsstring" where
  "trim s = rev (dropWhile isSpace (rev (dropWhile isSpace s)))"

subsection \<open>toLowerCase\<close>

text \<open>
  \<^verbatim>\<open>toLowerCase\<close> works on code points: a high surrogate followed by a low surrogate is
  one code point above U+FFFF, every other code unit is a code point of its own; the
  result is turned back into code units.
\<close>

definition isHighSurrogate :: "int \<Rightarrow> bool" where
  "isHighSurrogate u \<longleftrightarrow> 0xD800 \<le> u \<and> u \<le> 0xDBFF"

definition isLowSurrogate :: "int \<Rightarrow> bool" where
  "isLowSurrogate u \<longleftrightarrow> 0xDC00 \<le> u \<and> u \<le> 0xDFFF"

definition pairCodePoint :: "int \<Rightarrow> int \<Rightarrow> int" where
  "pairCodePoint hi lo = 0x10000 + (hi - 0xD800) * 0x400 + (lo - 0xDC00)"

fun codePoints :: "jsstring \<Rightarrow> int list" where
  "codePoints (u # v # us) =
     (if isHighSurrogate u \<and> isLowSurrogate v then pairCodePoint u v # codePoints us
      else u # codePoints (v # us))"
| "codePoints us = us"

definition codeUnits :: "int \<Rightarrow> jsstring" where
  "codeUnits cp =
     (if cp < 0x10000 then [cp]
      else [0xD800 + (cp - 0x10000) div 0x400, 0xDC00 + (cp - 0x10000) mod 0x400])"

text \<open>
  The lowercase mappings of the Unicode Character Database (version 14.0), in ascending
  order. A row \<open>(first, last, step, target)\<close> maps \<open>first\<close> to \<open>target\<close>, \<open>first + step\<close>
  to \<open>target + step\<close>, and so on up to \<open>last\<close>; a code point that no row maps is its own
  lower case.
\<close>

definition lowerRows :: "(int \<times> int \<times> int \<times> int) list" where
  "lowerRows =
    [
     (0x41, 0x5A, 1, 0x61), (0xC0, 0xD6, 1, 0xE0), (0xD8, 0xDE, 1, 0xF8),
     (0x100, 0x12E, 2, 0x101), (0x132, 0x136, 2, 0x133), (0x139, 0x147, 2, 0x13A),
     (0x14A, 0x176, 2, 0x14B), (0x178, 0x178, 1, 0xFF), (0x179, 0x17D, 2, 0x17A),
     (0x181, 0x181, 1, 0x253), (0x182, 0x184, 2, 0x183), (0x186, 0x186, 1, 0x254),
     (0x187, 0x187, 1, 0x188), (0x189, 0x18A, 1, 0x256), (0x18B, 0x18B, 1, 0x18C),
     (0x18E, 0x18E, 1, 0x1DD), (0x18F, 0x18F, 1, 0x259), (0x190, 0x190, 1, 0x25B),
     (0x191, 0x191, 1, 0x192), (0x193, 0x193, 1, 0x260), (0x194, 0x194, 1, 0x263),
     (0x196, 0x196, 1, 0x269), (0x197, 0x197, 1, 0x268), (0x198, 0x198, 1, 0x199),
     (0x19C, 0x19C, 1, 0x26F), (0x19D, 0x19D, 1, 0x272), (0x19F, 0x19F, 1, 0x275),
     (0x1A0, 0x1A4, 2, 0x1A1), (0x1A6, 0x1A6, 1, 0x280), (0x1A7, 0x1A7, 1, 0x1A8),
     (0x1A9, 0x1A9, 1, 0x283), (0x1AC, 0x1AC, 1, 0x1AD), (0x1AE, 0x1AE, 1, 0x288),
     (0x1AF, 0x1AF, 1, 0x1B0), (0x1B1, 0x1B2, 1, 0x28A), (0x1B3, 0x1B5, 2, 0x1B4),
     (0x1B7, 0x1B7, 1, 0x292), (0x1B8, 0x1B8, 1, 0x1B9), (0x1BC, 0x1BC, 1, 0x1BD),
     (0x1C4, 0x1C4, 1, 0x1C6), (0x1C5, 0x1C5, 1, 0x1C6), (0x1C7, 0x1C7, 1, 0x1C9),
     (0x1C8, 0x1C8, 1, 0x1C9), (0x1CA, 0x1CA, 1, 0x1CC), (0x1CB, 0x1DB, 2, 0x1CC),
     (0x1DE, 0x1EE, 2, 0x1DF), (0x1F1, 0x1F1, 1, 0x1F3), (0x1F2, 0x1F4, 2, 0x1F3),
     (0x1F6, 0x1F6, 1, 0x195), (0x1F7, 0x1F7, 1, 0x1BF), (0x1F8, 0x21E, 2, 0x1F9),
     (0x220, 0x220, 1, 0x19E), (0x222, 0x232, 2, 0x223), (0x23A, 0x23A, 1, 0x2C65),
     (0x23B, 0x23B, 1, 0x23C), (0x23D, 0x23D, 1, 0x19A), (0x23E, 0x23E, 1, 0x2C66),
     (0x241, 0x241, 1, 0x242), (0x243, 0x243, 1, 0x180), (0x244, 0x244, 1, 0x289),
     (0x245, 0x245, 1, 0x28C), (0x246, 0x24E, 2, 0x247), (0x370, 0x372, 2, 0x371),
     (0x376, 0x376, 1, 0x377), (0x37F, 0x37F, 1, 0x3F3), (0x386, 0x386, 1, 0x3AC),
     (0x388, 0x38A, 1, 0x3AD), (0x38C, 0x38C, 1, 0x3CC), (0x38E, 0x38F, 1, 0x3CD),
     (0x391, 0x3A1, 1, 0x3B1), (0x3A3, 0x3AB, 1, 0x3C3), (0x3CF, 0x3CF, 1, 0x3D7),
     (0x3D8, 0x3EE, 2, 0x3D9), (0x3F4, 0x3F4, 1, 0x3B8), (0x3F7, 0x3F7, 1, 0x3F8),
     (0x3F9, 0x3F9, 1, 0x3F2), (0x3FA, 0x3FA, 1, 0x3FB), (0x3FD, 0x3FF, 1, 0x37B),
     (0x400, 0x40F, 1, 0x450), (0x410, 0x42F, 1, 0x430), (0x460, 0x480, 2, 0x461),
     (0x48A, 0x4BE, 2, 0x48B), (0x4C0, 0x4C0, 1, 0x4CF), (0x4C1, 0x4CD, 2, 0x4C2),
     (0x4D0, 0x52E, 2, 0x4D1), (0x531, 0x556, 1, 0x561), (0x10A0, 0x10C5, 1, 0x2D00),
     (0x10C7, 0x10C7, 1, 0x2D27), (0x10CD, 0x10CD, 1, 0x2D2D), (0x13A0, 0x13EF, 1, 0xAB70),
     (0x13F0, 0x13F5, 1, 0x13F8), (0x1C90, 0x1CBA, 1, 0x10D0), (0x1CBD, 0x1CBF, 1, 0x10FD),
     (0x1E00, 0x1E94, 2, 0x1E01), (0x1E9E, 0x1E9E, 1, 0xDF), (0x1EA0, 0x1EFE, 2, 0x1EA1),
     (0x1F08, 0x1F0F, 1, 0x1F00), (0x1F18, 0x1F1D, 1, 0x1F10), (0x1F28, 0x1F2F, 1, 0x1F20),
     (0x1F38, 0x1F3F, 1, 0x1F30), (0x1F48, 0x1F4D, 1, 0x1F40), (0x1F59, 0x1F5F, 2, 0x1F51),
     (0x1F68, 0x1F6F, 1, 0x1F60), (0x1F88, 0x1F8F, 1, 0x1F80), (0x1F98, 0x1F9F, 1, 0x1F90),
     (0x1FA8, 0x1FAF, 1, 0x1FA0), (0x1FB8, 0x1FB9, 1, 0x1FB0), (0x1FBA, 0x1FBB, 1, 0x1F70),
     (0x1FBC, 0x1FBC, 1, 0x1FB3), (0x1FC8, 0x1FCB, 1, 0x1F72), (0x1FCC, 0x1FCC, 1, 0x1FC3),
     (0x1FD8, 0x1FD9, 1, 0x1FD0), (0x1FDA, 0x1FDB, 1, 0x1F76), (0x1FE8, 0x1FE9, 1, 0x1FE0),
     (0x1FEA, 0x1FEB, 1, 0x1F7A), (0x1FEC, 0x1FEC, 1, 0x1FE5), (0x1FF8, 0x1FF9, 1, 0x1F78),
     (0x1FFA, 0x1FFB, 1, 0x1F7C), (0x1FFC, 0x1FFC, 1, 0x1FF3), (0x2126, 0x2126, 1, 0x3C9),
     (0x212A, 0x212A, 1, 0x6B), (0x212B, 0x212B, 1, 0xE5), (0x2132, 0x2132, 1, 0x214E),
     (0x2160, 0x216F, 1, 0x2170), (0x2183, 0x2183, 1, 0x2184), (0x24B6, 0x24CF, 1, 0x24D0),
     (0x2C00, 0x2C2F, 1, 0x2C30), (0x2C60, 0x2C60, 1, 0x2C61), (0x2C62, 0x2C62, 1, 0x26B),
     (0x2C63, 0x2C63, 1, 0x1D7D), (0x2C64, 0x2C64, 1, 0x27D), (0x2C67, 0x2C6B, 2, 0x2C68),
     (0x2C6D, 0x2C6D, 1, 0x251), (0x2C6E, 0x2C6E, 1, 0x271), (0x2C6F, 0x2C6F, 1, 0x250),
     (0x2C70, 0x2C70, 1, 0x252), (0x2C72, 0x2C72, 1, 0x2C73), (0x2C75, 0x2C75, 1, 0x2C76),
     (0x2C7E, 0x2C7F, 1, 0x23F), (0x2C80, 0x2CE2, 2, 0x2C81), (0x2CEB, 0x2CED, 2, 0x2CEC),
     (0x2CF2, 0x2CF2, 1, 0x2CF3), (0xA640, 0xA66C, 2, 0xA641), (0xA680, 0xA69A, 2, 0xA681),
     (0xA722, 0xA72E, 2, 0xA723), (0xA732, 0xA76E, 2, 0xA733), (0xA779, 0xA77B, 2, 0xA77A),
     (0xA77D, 0xA77D, 1, 0x1D79), (0xA77E, 0xA786, 2, 0xA77F), (0xA78B, 0xA78B, 1, 0xA78C),
     (0xA78D, 0xA78D, 1, 0x265), (0xA790, 0xA792, 2, 0xA791), (0xA796, 0xA7A8, 2, 0xA797),
     (0xA7AA, 0xA7AA, 1, 0x266), (0xA7AB, 0xA7AB, 1, 0x25C), (0xA7AC, 0xA7AC, 1, 0x261),
     (0xA7AD, 0xA7AD, 1, 0x26C), (0xA7AE, 0xA7AE, 1, 0x26A), (0xA7B0, 0xA7B0, 1, 0x29E),
     (0xA7B1, 0xA7B1, 1, 0x287), (0xA7B2, 0xA7B2, 1, 0x29D), (0xA7B3, 0xA7B3, 1, 0xAB53),
     (0xA7B4, 0xA7C2, 2, 0xA7B5), (0xA7C4, 0xA7C4, 1, 0xA794), (0xA7C5, 0xA7C5, 1, 0x282),
     (0xA7C6, 0xA7C6, 1, 0x1D8E), (0xA7C7, 0xA7C9, 2, 0xA7C8), (0xA7D0, 0xA7D0, 1, 0xA7D1),
     (0xA7D6, 0xA7D8, 2, 0xA7D7), (0xA7F5, 0xA7F5, 1, 0xA7F6), (0xFF21, 0xFF3A, 1, 0xFF41),
     (0x10400, 0x10427, 1, 0x10428), (0x104B0, 0x104D3, 1, 0x104D8), (0x10570, 0x1057A, 1, 0x10597),
     (0x1057C, 0x1058A, 1, 0x105A3), (0x1058C, 0x10592, 1, 0x105B3), (0x10594, 0x10595, 1, 0x105BB),
     (0x10C80, 0x10CB2, 1, 0x10CC0), (0x118A0, 0x118BF, 1, 0x118C0), (0x16E40, 0x16E5F, 1, 0x16E60),
     (0x1E900, 0x1E921, 1, 0x1E922)]"

fun lookupLower :: "(int \<times> int \<times> int \<times> int) list \<Rightarrow> int \<Rightarrow> int" where
  "lookupLower [] c = c"
| "lookupLower ((lo, hi, step, target) # rows) c =
     (if c < lo then c
      else if c \<le> hi \<and> (c - lo) mod step = 0 then target + (c - lo)
      else lookupLower rows c)"

definition simpleLower :: "int \<Rightarrow> int" where
  "simpleLower c = lookupLower lowerRows c"

text \<open>The code points with the property Cased, as ranges in ascending order.\<close>

definition casedRanges :: "(int \<times> int) list" where
  "casedRanges =
    [
     (0x41, 0x5A), (0x61, 0x7A), (0xAA, 0xAA), (0xB5, 0xB5), (0xBA, 0xBA),
     (0xC0, 0xD6), (0xD8, 0xF6), (0xF8, 0x1BA), (0x1BC, 0x1BF), (0x1C4, 0x293),
     (0x295, 0x2B8), (0x2C0, 0x2C1), (0x2E0, 0x2E4), (0x345, 0x345), (0x370, 0x373),
     (0x376, 0x377), (0x37A, 0x37D), (0x37F, 0x37F), (0x386, 0x386), (0x388, 0x38A),
     (0x38C, 0x38C), (0x38E, 0x3A1), (0x3A3, 0x3F5), (0x3F7, 0x481), (0x48A, 0x52F),
     (0x531, 0x556), (0x560, 0x588), (0x10A0, 0x10C5), (0x10C7, 0x10C7), (0x10CD, 0x10CD),
     (0x10D0, 0x10FA), (0x10FD, 0x10FF), (0x13A0, 0x13F5), (0x13F8, 0x13FD), (0x1C80, 0x1C88),
     (0x1C90, 0x1CBA), (0x1CBD, 0x1CBF), (0x1D00, 0x1DBF), (0x1E00, 0x1F15), (0x1F18, 0x1F1D),
     (0x1F20, 0x1F45), (0x1F48, 0x1F4D), (0x1F50, 0x1F57), (0x1F59, 0x1F59), (0x1F5B, 0x1F5B),
     (0x1F5D, 0x1F5D), (0x1F5F, 0x1F7D), (0x1F80, 0x1FB4), (0x1FB6, 0x1FBC), (0x1FBE, 0x1FBE),
     (0x1FC2, 0x1FC4), (0x1FC6, 0x1FCC), (0x1FD0, 0x1FD3), (0x1FD6, 0x1FDB), (0x1FE0, 0x1FEC),
     (0x1FF2, 0x1FF4), (0x1FF6, 0x1FFC), (0x2071, 0x2071), (0x207F, 0x207F), (0x2090, 0x209C),
     (0x2102, 0x2102), (0x2107, 0x2107), (0x210A, 0x2113), (0x2115, 0x2115), (0x2119, 0x211D),
     (0x2124, 0x2124), (0x2126, 0x2126), (0x2128, 0x2128), (0x212A, 0x212D), (0x212F, 0x2134),
     (0x2139, 0x2139), (0x213C, 0x213F), (0x2145, 0x2149), (0x214E, 0x214E), (0x2160, 0x217F),
     (0x2183, 0x2184), (0x24B6, 0x24E9), (0x2C00, 0x2CE4), (0x2CEB, 0x2CEE), (0x2CF2, 0x2CF3),
     (0x2D00, 0x2D25), (0x2D27, 0x2D27), (0x2D2D, 0x2D2D), (0xA640, 0xA66D), (0xA680, 0xA69D),
     (0xA722, 0xA787), (0xA78B, 0xA78E), (0xA790, 0xA7CA), (0xA7D0, 0xA7D1), (0xA7D3, 0xA7D3),
     (0xA7D5, 0xA7D9), (0xA7F5, 0xA7F6), (0xA7F8, 0xA7FA), (0xAB30, 0xAB5A), (0xAB5C, 0xAB68),
     (0xAB70, 0xABBF), (0xFB00, 0xFB06), (0xFB13, 0xFB17), (0xFF21, 0xFF3A), (0xFF41, 0xFF5A),
     (0x10400, 0x1044F), (0x104B0, 0x104D3), (0x104D8, 0x104FB), (0x10570, 0x1057A), (0x1057C, 0x1058A),
     (0x1058C, 0x10592), (0x10594, 0x10595), (0x10597, 0x105A1), (0x105A3, 0x105B1), (0x105B3, 0x105B9),
     (0x105BB, 0x105BC), (0x10780, 0x10780), (0x10783, 0x10785), (0x10787, 0x107B0), (0x107B2, 0x107BA),
     (0x10C80, 0x10CB2), (0x10CC0, 0x10CF2), (0x118A0, 0x118DF), (0x16E40, 0x16E7F), (0x1D400, 0x1D454),
     (0x1D456, 0x1D49C), (0x1D49E, 0x1D49F), (0x1D4A2, 0x1D4A2), (0x1D4A5, 0x1D4A6), (0x1D4A9, 0x1D4AC),
     (0x1D4AE, 0x1D4B9), (0x1D4BB, 0x1D4BB), (0x1D4BD, 0x1D4C3), (0x1D4C5, 0x1D505), (0x1D507, 0x1D50A),
     (0x1D50D, 0x1D514), (0x1D516, 0x1D51C), (0x1D51E, 0x1D539), (0x1D53B, 0x1D53E), (0x1D540, 0x1D544),
     (0x1D546, 0x1D546), (0x1D54A, 0x1D550), (0x1D552, 0x1D6A5), (0x1D6A8, 0x1D6C0), (0x1D6C2, 0x1D6DA),
     (0x1D6DC, 0x1D6FA), (0x1D6FC, 0x1D714), (0x1D716, 0x1D734), (0x1D736, 0x1D74E), (0x1D750, 0x1D76E),
     (0x1D770, 0x1D788), (0x1D78A, 0x1D7A8), (0x1D7AA, 0x1D7C2), (0x1D7C4, 0x1D7CB), (0x1DF00, 0x1DF09),
     (0x1DF0B, 0x1DF1E), (0x1E900, 0x1E943), (0x1F130, 0x1F149), (0x1F150, 0x1F169), (0x1F170, 0x1F189)]"

text \<open>The code points with the property Case_Ignorable.\<close>

definition caseIgnorableRanges :: "(int \<times> int) list" where
  "caseIgnorableRanges =
    [
     (0x27, 0x27), (0x2E, 0x2E), (0x3A, 0x3A), (0x5E, 0x5E), (0x60, 0x60),
     (0xA8, 0xA8), (0xAD, 0xAD), (0xAF, 0xAF), (0xB4, 0xB4), (0xB7, 0xB8),
     (0x2B0, 0x36F), (0x374, 0x375), (0x37A, 0x37A), (0x384, 0x385), (0x387, 0x387),
     (0x483, 0x489), (0x559, 0x559), (0x55F, 0x55F), (0x591, 0x5BD), (0x5BF, 0x5BF),
     (0x5C1, 0x5C2), (0x5C4, 0x5C5), (0x5C7, 0x5C7), (0x5F4, 0x5F4), (0x600, 0x605),
     (0x610, 0x61A), (0x61C, 0x61C), (0x640, 0x640), (0x64B, 0x65F), (0x670, 0x670),
     (0x6D6, 0x6DD), (0x6DF, 0x6E8), (0x6EA, 0x6ED), (0x70F, 0x70F), (0x711, 0x711),
     (0x730, 0x74A), (0x7A6, 0x7B0), (0x7EB, 0x7F5), (0x7FA, 0x7FA), (0x7FD, 0x7FD),
     (0x816, 0x82D), (0x859, 0x85B), (0x888, 0x888), (0x890, 0x891), (0x898, 0x89F),
     (0x8C9, 0x902), (0x93A, 0x93A), (0x93C, 0x93C), (0x941, 0x948), (0x94D, 0x94D),
     (0x951, 0x957), (0x962, 0x963), (0x971, 0x971), (0x981, 0x981), (0x9BC, 0x9BC),
     (0x9C1, 0x9C4), (0x9CD, 0x9CD), (0x9E2, 0x9E3), (0x9FE, 0x9FE), (0xA01, 0xA02),
     (0xA3C, 0xA3C), (0xA41, 0xA42), (0xA47, 0xA48), (0xA4B, 0xA4D), (0xA51, 0xA51),
     (0xA70, 0xA71), (0xA75, 0xA75), (0xA81, 0xA82), (0xABC, 0xABC), (0xAC1, 0xAC5),
     (0xAC7, 0xAC8), (0xACD, 0xACD), (0xAE2, 0xAE3), (0xAFA, 0xAFF), (0xB01, 0xB01),
     (0xB3C, 0xB3C), (0xB3F, 0xB3F), (0xB41, 0xB44), (0xB4D, 0xB4D), (0xB55, 0xB56),
     (0xB62, 0xB63), (0xB82, 0xB82), (0xBC0, 0xBC0), (0xBCD, 0xBCD), (0xC00, 0xC00),
     (0xC04, 0xC04), (0xC3C, 0xC3C), (0xC3E, 0xC40), (0xC46, 0xC48), (0xC4A, 0xC4D),
     (0xC55, 0xC56), (0xC62, 0xC63), (0xC81, 0xC81), (0xCBC, 0xCBC), (0xCBF, 0xCBF),
     (0xCC6, 0xCC6), (0xCCC, 0xCCD), (0xCE2, 0xCE3), (0xD00, 0xD01), (0xD3B, 0xD3C),
     (0xD41, 0xD44), (0xD4D, 0xD4D), (0xD62, 0xD63), (0xD81, 0xD81), (0xDCA, 0xDCA),
     (0xDD2, 0xDD4), (0xDD6, 0xDD6), (0xE31, 0xE31), (0xE34, 0xE3A), (0xE46, 0xE4E),
     (0xEB1, 0xEB1), (0xEB4, 0xEBC), (0xEC6, 0xEC6), (0xEC8, 0xECD), (0xF18, 0xF19),
     (0xF35, 0xF35), (0xF37, 0xF37), (0xF39, 0xF39), (0xF71, 0xF7E), (0xF80, 0xF84),
     (0xF86, 0xF87), (0xF8D, 0xF97), (0xF99, 0xFBC), (0xFC6, 0xFC6), (0x102D, 0x1030),
     (0x1032, 0x1037), (0x1039, 0x103A), (0x103D, 0x103E), (0x1058, 0x1059), (0x105E, 0x1060),
     (0x1071, 0x1074), (0x1082, 0x1082), (0x1085, 0x1086), (0x108D, 0x108D), (0x109D, 0x109D),
     (0x10FC, 0x10FC), (0x135D, 0x135F), (0x1712, 0x1714), (0x1732, 0x1733), (0x1752, 0x1753),
     (0x1772, 0x1773), (0x17B4, 0x17B5), (0x17B7, 0x17BD), (0x17C6, 0x17C6), (0x17C9, 0x17D3),
     (0x17D7, 0x17D7), (0x17DD, 0x17DD), (0x180B, 0x180F), (0x1843, 0x1843), (0x1885, 0x1886),
     (0x18A9, 0x18A9), (0x1920, 0x1922), (0x1927, 0x1928), (0x1932, 0x1932), (0x1939, 0x193B),
     (0x1A17, 0x1A18), (0x1A1B, 0x1A1B), (0x1A56, 0x1A56), (0x1A58, 0x1A5E), (0x1A60, 0x1A60),
     (0x1A62, 0x1A62), (0x1A65, 0x1A6C), (0x1A73, 0x1A7C), (0x1A7F, 0x1A7F), (0x1AA7, 0x1AA7),
     (0x1AB0, 0x1ACE), (0x1B00, 0x1B03), (0x1B34, 0x1B34), (0x1B36, 0x1B3A), (0x1B3C, 0x1B3C),
     (0x1B42, 0x1B42), (0x1B6B, 0x1B73), (0x1B80, 0x1B81), (0x1BA2, 0x1BA5), (0x1BA8, 0x1BA9),
     (0x1BAB, 0x1BAD), (0x1BE6, 0x1BE6), (0x1BE8, 0x1BE9), (0x1BED, 0x1BED), (0x1BEF, 0x1BF1),
     (0x1C2C, 0x1C33), (0x1C36, 0x1C37), (0x1C78, 0x1C7D), (0x1CD0, 0x1CD2), (0x1CD4, 0x1CE0),
     (0x1CE2, 0x1CE8), (0x1CED, 0x1CED), (0x1CF4, 0x1CF4), (0x1CF8, 0x1CF9), (0x1D2C, 0x1D6A),
     (0x1D78, 0x1D78), (0x1D9B, 0x1DFF), (0x1FBD, 0x1FBD), (0x1FBF, 0x1FC1), (0x1FCD, 0x1FCF),
     (0x1FDD, 0x1FDF), (0x1FED, 0x1FEF), (0x1FFD, 0x1FFE), (0x200B, 0x200F), (0x2018, 0x2019),
     (0x2024, 0x2024), (0x2027, 0x2027), (0x202A, 0x202E), (0x2060, 0x2064), (0x2066, 0x206F),
     (0x2071, 0x2071), (0x207F, 0x207F), (0x2090, 0x209C), (0x20D0, 0x20F0), (0x2C7C, 0x2C7D),
     (0x2CEF, 0x2CF1), (0x2D6F, 0x2D6F), (0x2D7F, 0x2D7F), (0x2DE0, 0x2DFF), (0x2E2F, 0x2E2F),
     (0x3005, 0x3005), (0x302A, 0x302D), (0x3031, 0x3035), (0x303B, 0x303B), (0x3099, 0x309E),
     (0x30FC, 0x30FE), (0xA015, 0xA015), (0xA4F8, 0xA4FD), (0xA60C, 0xA60C), (0xA66F, 0xA672),
     (0xA674, 0xA67D), (0xA67F, 0xA67F), (0xA69C, 0xA69F), (0xA6F0, 0xA6F1), (0xA700, 0xA721),
     (0xA770, 0xA770), (0xA788, 0xA78A), (0xA7F2, 0xA7F4), (0xA7F8, 0xA7F9), (0xA802, 0xA802),
     (0xA806, 0xA806), (0xA80B, 0xA80B), (0xA825, 0xA826), (0xA82C, 0xA82C), (0xA8C4, 0xA8C5),
     (0xA8E0, 0xA8F1), (0xA8FF, 0xA8FF), (0xA926, 0xA92D), (0xA947, 0xA951), (0xA980, 0xA982),
     (0xA9B3, 0xA9B3), (0xA9B6, 0xA9B9), (0xA9BC, 0xA9BD), (0xA9CF, 0xA9CF), (0xA9E5, 0xA9E6),
     (0xAA29, 0xAA2E), (0xAA31, 0xAA32), (0xAA35, 0xAA36), (0xAA43, 0xAA43), (0xAA4C, 0xAA4C),
     (0xAA70, 0xAA70), (0xAA7C, 0xAA7C), (0xAAB0, 0xAAB0), (0xAAB2, 0xAAB4), (0xAAB7, 0xAAB8),
     (0xAABE, 0xAABF), (0xAAC1, 0xAAC1), (0xAADD, 0xAADD), (0xAAEC, 0xAAED), (0xAAF3, 0xAAF4),
     (0xAAF6, 0xAAF6), (0xAB5B, 0xAB5F), (0xAB69, 0xAB6B), (0xABE5, 0xABE5), (0xABE8, 0xABE8),
     (0xABED, 0xABED), (0xFB1E, 0xFB1E), (0xFBB2, 0xFBC2), (0xFE00, 0xFE0F), (0xFE13, 0xFE13),
     (0xFE20, 0xFE2F), (0xFE52, 0xFE52), (0xFE55, 0xFE55), (0xFEFF, 0xFEFF), (0xFF07, 0xFF07),
     (0xFF0E, 0xFF0E), (0xFF1A, 0xFF1A), (0xFF3E, 0xFF3E), (0xFF40, 0xFF40), (0xFF70, 0xFF70),
     (0xFF9E, 0xFF9F), (0xFFE3, 0xFFE3), (0xFFF9, 0xFFFB), (0x101FD, 0x101FD), (0x102E0, 0x102E0),
     (0x10376, 0x1037A), (0x10780, 0x10785), (0x10787, 0x107B0), (0x107B2, 0x107BA), (0x10A01, 0x10A03),
     (0x10A05, 0x10A06), (0x10A0C, 0x10A0F), (0x10A38, 0x10A3A), (0x10A3F, 0x10A3F), (0x10AE5, 0x10AE6),
     (0x10D24, 0x10D27), (0x10EAB, 0x10EAC), (0x10F46, 0x10F50), (0x10F82, 0x10F85), (0x11001, 0x11001),
     (0x11038, 0x11046), (0x11070, 0x11070), (0x11073, 0x11074), (0x1107F, 0x11081), (0x110B3, 0x110B6),
     (0x110B9, 0x110BA), (0x110BD, 0x110BD), (0x110C2, 0x110C2), (0x110CD, 0x110CD), (0x11100, 0x11102),
     (0x11127, 0x1112B), (0x1112D, 0x11134), (0x11173, 0x11173), (0x11180, 0x11181), (0x111B6, 0x111BE),
     (0x111C9, 0x111CC), (0x111CF, 0x111CF), (0x1122F, 0x11231), (0x11234, 0x11234), (0x11236, 0x11237),
     (0x1123E, 0x1123E), (0x112DF, 0x112DF), (0x112E3, 0x112EA), (0x11300, 0x11301), (0x1133B, 0x1133C),
     (0x11340, 0x11340), (0x11366, 0x1136C), (0x11370, 0x11374), (0x11438, 0x1143F), (0x11442, 0x11444),
     (0x11446, 0x11446), (0x1145E, 0x1145E), (0x114B3, 0x114B8), (0x114BA, 0x114BA), (0x114BF, 0x114C0),
     (0x114C2, 0x114C3), (0x115B2, 0x115B5), (0x115BC, 0x115BD), (0x115BF, 0x115C0), (0x115DC, 0x115DD),
     (0x11633, 0x1163A), (0x1163D, 0x1163D), (0x1163F, 0x11640), (0x116AB, 0x116AB), (0x116AD, 0x116AD),
     (0x116B0, 0x116B5), (0x116B7, 0x116B7), (0x1171D, 0x1171F), (0x11722, 0x11725), (0x11727, 0x1172B),
     (0x1182F, 0x11837), (0x11839, 0x1183A), (0x1193B, 0x1193C), (0x1193E, 0x1193E), (0x11943, 0x11943),
     (0x119D4, 0x119D7), (0x119DA, 0x119DB), (0x119E0, 0x119E0), (0x11A01, 0x11A0A), (0x11A33, 0x11A38),
     (0x11A3B, 0x11A3E), (0x11A47, 0x11A47), (0x11A51, 0x11A56), (0x11A59, 0x11A5B), (0x11A8A, 0x11A96),
     (0x11A98, 0x11A99), (0x11C30, 0x11C36), (0x11C38, 0x11C3D), (0x11C3F, 0x11C3F), (0x11C92, 0x11CA7),
     (0x11CAA, 0x11CB0), (0x11CB2, 0x11CB3), (0x11CB5, 0x11CB6), (0x11D31, 0x11D36), (0x11D3A, 0x11D3A),
     (0x11D3C, 0x11D3D), (0x11D3F, 0x11D45), (0x11D47, 0x11D47), (0x11D90, 0x11D91), (0x11D95, 0x11D95),
     (0x11D97, 0x11D97), (0x11EF3, 0x11EF4), (0x13430, 0x13438), (0x16AF0, 0x16AF4), (0x16B30, 0x16B36),
     (0x16B40, 0x16B43), (0x16F4F, 0x16F4F), (0x16F8F, 0x16F9F), (0x16FE0, 0x16FE1), (0x16FE3, 0x16FE4),
     (0x1AFF0, 0x1AFF3), (0x1AFF5, 0x1AFFB), (0x1AFFD, 0x1AFFE), (0x1BC9D, 0x1BC9E), (0x1BCA0, 0x1BCA3),
     (0x1CF00, 0x1CF2D), (0x1CF30, 0x1CF46), (0x1D167, 0x1D169), (0x1D173, 0x1D182), (0x1D185, 0x1D18B),
     (0x1D1AA, 0x1D1AD), (0x1D242, 0x1D244), (0x1DA00, 0x1DA36), (0x1DA3B, 0x1DA6C), (0x1DA75, 0x1DA75),
     (0x1DA84, 0x1DA84), (0x1DA9B, 0x1DA9F), (0x1DAA1, 0x1DAAF), (0x1E000, 0x1E006), (0x1E008, 0x1E018),
     (0x1E01B, 0x1E021), (0x1E023, 0x1E024), (0x1E026, 0x1E02A), (0x1E130, 0x1E13D), (0x1E2AE, 0x1E2AE),
     (0x1E2EC, 0x1E2EF), (0x1E8D0, 0x1E8D6), (0x1E944, 0x1E94B), (0x1F3FB, 0x1F3FF), (0xE0001, 0xE0001),
     (0xE0020, 0xE007F), (0xE0100, 0xE01EF)]"

fun inRanges :: "(int \<times> int) list \<Rightarrow> int \<Rightarrow> bool" where
  "inRanges [] c = False"
| "inRanges ((lo, hi) # rs) c =
     (if c < lo then False else if c \<le> hi then True else inRanges rs c)"

definition isCased :: "int \<Rightarrow> bool" where
  "isCased c = inRanges casedRanges c"

definition isCaseIgnorable :: "int \<Rightarrow> bool" where
  "isCaseIgnorable c = inRanges caseIgnorableRanges c"

text \<open>
  The one mapping that depends on the context: the capital sigma U+03A3 becomes the final
  sigma U+03C2 when the nearest code point before it that is not case-ignorable is cased
  and the nearest such code point after it is not; otherwise it becomes U+03C3.
  \<open>before\<close> holds the code points already passed, the nearest first.
\<close>

definition nearestIsCased :: "int list \<Rightarrow> bool" where
  "nearestIsCased cs = (case dropWhile isCaseIgnorable cs of [] \<Rightarrow> False | c # _ \<Rightarrow> isCased c)"

definition finalSigma :: "int list \<Rightarrow> int list \<Rightarrow> bool" where
  "finalSigma before after \<longleftrightarrow> nearestIsCased before \<and> \<not> nearestIsCased after"

text \<open>U+0130 is the one code point whose lower case is two code points.\<close>

fun lowerCodePoints :: "int list \<Rightarrow> int list \<Rightarrow> int list" where
  "lowerCodePoints before [] = []"
| "lowerCodePoints before (c # after) =
     (if c = 0x3A3 then [if finalSigma before after then 0x3C2 else 0x3C3]
      else if c = 0x130 then [0x69, 0x307]
      else [simpleLower c])
     @ lowerCodePoints (c # before) after"

definition toLowerCase :: "jsstring \<Rightarrow> jsstring" where
  "toLowerCase s = concat (map codeUnits (lowerCodePoints [] (codePoints s)))"

subsection \<open>Matching with the flag \<open>i\<close>\<close>

text \<open>
  A regular expression with the flag \<open>i\<close> and without the flag \<open>u\<close> compares the canonical
  forms of the pattern character and of the text character. The canonical form of an
  ASCII letter is its capital, every other ASCII character is its own, and no code unit
  above 127 has an ASCII canonical form; the patterns of the program are ASCII, so a
  text character matches a pattern character when the two agree after \<open>asciiUpper\<close>.
\<close>

definition asciiUpper :: "int \<Rightarrow> int" where
  "asciiUpper c = (if 0x61 \<le> c \<and> c \<le> 0x7A then c - 0x20 else c)"

definition matchesIgnoreCase :: "jsstring \<Rightarrow> jsstring \<Rightarrow> bool" where
  "matchesIgnoreCase pattern s \<longleftrightarrow> map asciiUpper s = map asciiUpper pattern"

subsection \<open>startsWith and includes\<close>

fun startsWith :: "jsstring \<Rightarrow> jsstring \<Rightarrow> bool" where
  "startsWith s [] = True"
| "startsWith [] (p # ps) = False"
| "startsWith (c # cs) (p # ps) = (c = p \<and> startsWith cs ps)"

text \<open>\<open>jsIncludes s sub\<close> is \<open>s.includes(sub)\<close>: \<open>sub\<close> occurs in \<open>s\<close> as a contiguous run.\<close>

fun jsIncludes :: "jsstring \<Rightarrow> jsstring \<Rightarrow> bool" where
  "jsIncludes [] sub = (sub = [])"
| "jsIncludes (c # cs) sub = (startsWith (c # cs) sub \<or> jsIncludes cs sub)"

text \<open>A string is truthy when it is not empty.\<close>

definition truthy :: "jsstring option \<Rightarrow> bool" where
  "truthy v = (case v of None \<Rightarrow> False | Some s \<Rightarrow> s \<noteq> [])"

section \<open>constants.js\<close>

definition AMAZON_SELLER_NAMES :: "jsstring list" where
  "AMAZON_SELLER_NAMES =
    [str ''amazon'', str ''amazon.co.uk'', str ''amazon.de'', str ''amazon.fr'', str ''amazon.it'',
     str ''amazon.es'', str ''amazon.nl'', str ''amazon.pl'', str ''amazon.se'', str ''amazon.com.be'',
     str ''amazon.ie'', str ''amazon.ae'', str ''amazon.co.jp'', str ''amazon.sa'', str ''amazon.com.tr'',
     str ''amazon uk'', str ''amazon eu s.a.r.l.'', str ''amazon eu'', str ''amazon europe'']"

section \<open>isAmazonSeller\<close>

text \<open>
  \<^verbatim>\<open>if (!sellerName) return false;\<close> rejects an absent and an empty name; otherwise
  the name is lowercased, trimmed and compared with every listed name by containment
  in either direction.
\<close>

definition isAmazonSeller :: "jsstring option \<Rightarrow> bool" where
  "isAmazonSeller sellerName =
     (case sellerName of
        None \<Rightarrow> False
      | Some n \<Rightarrow>
          if n = [] then False
          else (let normalized = trim (toLowerCase n)
                in list_ex (\<lambda>name. jsIncludes normalized name \<or> jsIncludes name normalized)
                     AMAZON_SELLER_NAMES))"

section \<open>JavaScript values and objects\<close>

text \<open>
  The objects the scraper builds (\<^verbatim>\<open>const result = {}\<close>, the pushed records) are maps
  from property names to values; reading a missing property gives \<open>undefined\<close>.
  A number is a rational or \<open>NaN\<close>: the code never computes with the parsed numbers,
  it only tests them for truthiness and copies them.
\<close>

datatype jsval = JUndefined | JNull | JBool bool | JNaN | JNum rat | JStr jsstring

type_synonym jsobj = "string \<rightharpoonup> jsval"

definition getProp :: "jsobj \<Rightarrow> string \<Rightarrow> jsval" where
  "getProp obj k = (case obj k of None \<Rightarrow> JUndefined | Some v \<Rightarrow> v)"

fun truthyVal :: "jsval \<Rightarrow> bool" where
  "truthyVal JUndefined = False"
| "truthyVal JNull = False"
| "truthyVal (JBool b) = b"
| "truthyVal JNaN = False"
| "truthyVal (JNum n) = (n \<noteq> 0)"
| "truthyVal (JStr s) = (s \<noteq> [])"

text \<open>\<open>jsOr a b\<close> is \<^verbatim>\<open>a || b\<close>.\<close>

definition jsOr :: "jsval \<Rightarrow> jsval \<Rightarrow> jsval" where
  "jsOr a b = (if truthyVal a then a else b)"

section \<open>split, join and leftmost regular-expression search\<close>

fun splitOn :: "int \<Rightarrow> jsstring \<Rightarrow> jsstring list" where
  "splitOn sep [] = [[]]"
| "splitOn sep (c # cs) =
     (if c = sep then [] # splitOn sep cs
      else (case splitOn sep cs of
              [] \<Rightarrow> [[c]]
            | seg # segs \<Rightarrow> (c # seg) # segs))"

fun joinWith :: "jsstring \<Rightarrow> jsstring list \<Rightarrow> jsstring" where
  "joinWith sep [] = []"
| "joinWith sep [x] = x"
| "joinWith sep (x # y # ys) = x @ sep @ joinWith sep (y # ys)"

definition newline :: int where
  "newline = 0x0A"

text \<open>
  \<^verbatim>\<open>text.match(re)\<close> without the \<open>g\<close> flag tries every start position from the left
  and returns the first match; \<open>m\<close> is the match of the pattern anchored at a position.
\<close>

fun searchFrom :: "(jsstring \<Rightarrow> 'a option) \<Rightarrow> jsstring \<Rightarrow> 'a option" where
  "searchFrom m [] = m []"
| "searchFrom m (c # cs) = (case m (c # cs) of Some r \<Rightarrow> Some r | None \<Rightarrow> searchFrom m cs)"

subsection \<open>\<^verbatim>\<open>/Customer Service Phone[:\s]+([^\n]+)/i\<close>\<close>

definition isSepChar :: "int \<Rightarrow> bool" where
  "isSepChar c \<longleftrightarrow> c = of_char CHR '':'' \<or> isSpace c"

text \<open>
  After the label, \<^verbatim>\<open>[:\s]+\<close> is greedy and gives characters back one at a time:
  \<open>capturePhone rest n\<close> tries \<open>n\<close> separator characters, then \<open>n - 1\<close>, down to one;
  the group \<^verbatim>\<open>([^\n]+)\<close> takes the longest run without a line feed and needs one character.
\<close>

fun capturePhone :: "jsstring \<Rightarrow> nat \<Rightarrow> jsstring option" where
  "capturePhone rest 0 = None"
| "capturePhone rest (Suc j) =
     (case drop (Suc j) rest of
        [] \<Rightarrow> capturePhone rest j
      | c # cs \<Rightarrow> if c \<noteq> newline then Some (takeWhile (\<lambda>x. x \<noteq> newline) (c # cs))
                  else capturePhone rest j)"

definition csPhoneLabel :: jsstring where
  "csPhoneLabel = str ''Customer Service Phone''"

definition csPhoneAt :: "jsstring \<Rightarrow> jsstring option" where
  "csPhoneAt s =
     (if matchesIgnoreCase csPhoneLabel (take (length csPhoneLabel) s)
      then (let rest = drop (length csPhoneLabel) s
            in capturePhone rest (length (takeWhile isSepChar rest)))
      else None)"

text \<open>The value of \<^verbatim>\<open>csPhoneMatch[1]\<close>, or \<open>None\<close> when \<^verbatim>\<open>csPhoneMatch\<close> is null.\<close>

definition csPhoneMatch :: "jsstring \<Rightarrow> jsstring option" where
  "csPhoneMatch text = searchFrom csPhoneAt text"

section \<open>extractSellerInfo: the function evaluated in the page\<close>

text \<open>
  What the callback of \<^verbatim>\<open>page.evaluate\<close> reads from the document:
  the text of the first \<open>h1\<close>; \<^verbatim>\<open>document.body.innerText\<close> (\<open>None\<close> when the document
  has no body, where the property access throws); every \<open>h3\<close> in document order with its
  text and the \<^verbatim>\<open>innerText\<close> of the container found for it (\<open>None\<close> when neither
  \<^verbatim>\<open>closest(...)\<close> nor the grandparent exists); and the outcome of the three rating
  patterns on the text the version scans (\<open>None\<close> when the pattern does not match, else
  the value of \<^verbatim>\<open>parseFloat\<close> or \<^verbatim>\<open>parseInt\<close> on the capture).
  \<open>ratingBlockText\<close> is only read by src/scraper.js: the trimmed \<^verbatim>\<open>innerText\<close> of the
  \<open>div\<close> around the rating link, \<open>None\<close> without such a link or \<open>div\<close>.
\<close>

record profile_doc =
  h1Text :: "jsstring option"
  bodyInnerText :: "jsstring option"
  h3s :: "(jsstring \<times> jsstring option) list"
  ratingBlockText :: "jsstring option"
  parsedRating :: "jsval option"
  parsedPercent :: "jsval option"
  parsedCount :: "jsval option"

definition orNull :: "jsval option \<Rightarrow> jsval" where
  "orNull m = (case m of None \<Rightarrow> JNull | Some v \<Rightarrow> v)"

definition setRatings :: "profile_doc \<Rightarrow> jsobj \<Rightarrow> jsobj" where
  "setRatings doc result =
     result(''rating'' \<mapsto> orNull (parsedRating doc),
            ''positivePercent'' \<mapsto> orNull (parsedPercent doc),
            ''ratingCount'' \<mapsto> orNull (parsedCount doc))"

text \<open>\<^verbatim>\<open>result.sellerDisplayName = h1 ? h1.textContent.trim() : null\<close> on the empty object.\<close>

definition nameResult :: "profile_doc \<Rightarrow> jsobj" where
  "nameResult doc =
     Map.empty(''sellerDisplayName'' \<mapsto>
       (case h1Text doc of None \<Rightarrow> JNull | Some t \<Rightarrow> JStr (trim t)))"

text \<open>
  The rating block. In part_000 and part_001 it reads \<^verbatim>\<open>document.body.innerText\<close> inside
  its own \<^verbatim>\<open>try/catch\<close>, so a missing body leaves the three properties unset. In
  src/scraper.js it reads the block around the rating link, and only when that text is
  not empty.
\<close>

definition ratedResult :: "profile_doc \<Rightarrow> jsobj" where
  "ratedResult doc =
     (case bodyInnerText doc of
        None \<Rightarrow> nameResult doc
      | Some _ \<Rightarrow> setRatings doc (nameResult doc))"

definition ratedResult_scraper :: "profile_doc \<Rightarrow> jsobj" where
  "ratedResult_scraper doc =
     (case ratingBlockText doc of
        None \<Rightarrow> nameResult doc
      | Some t \<Rightarrow> if t \<noteq> [] then setRatings doc (nameResult doc) else nameResult doc)"

definition findDetailHeading :: "profile_doc \<Rightarrow> (jsstring \<times> jsstring option) option" where
  "findDetailHeading doc =
     find (\<lambda>h. jsIncludes (fst h) (str ''Detailed Seller Information'')) (h3s doc)"

definition blockLines :: "jsstring \<Rightarrow> jsstring list" where
  "blockLines allText = filter (\<lambda>l. l \<noteq> []) (map trim (splitOn newline allText))"

definition assignField :: "jsstring \<Rightarrow> jsstring \<Rightarrow> jsobj \<Rightarrow> jsobj" where
  "assignField keyLower v result =
     (if keyLower = str ''business name'' then result(''businessName'' \<mapsto> JStr v)
      else if keyLower = str ''business type'' then result(''businessType'' \<mapsto> JStr v)
      else if keyLower = str ''trade register number'' then result(''tradeRegisterNumber'' \<mapsto> JStr v)
      else if keyLower = str ''vat number'' then result(''vatNumber'' \<mapsto> JStr v)
      else if keyLower = str ''phone number'' then result(''phoneNumber'' \<mapsto> JStr v)
      else if keyLower = str ''email'' then result(''email'' \<mapsto> JStr v)
      else result)"

text \<open>The inner \<open>for\<close> loop: the lines after the label, up to the first line with a colon
  or with the phrase \<open>This seller\<close>.\<close>

definition isAddrStop :: "jsstring \<Rightarrow> bool" where
  "isAddrStop l \<longleftrightarrow> jsIncludes l (str '':'') \<or> jsIncludes l (str ''This seller'')"

definition collectAddrLines :: "jsstring list \<Rightarrow> jsstring list" where
  "collectAddrLines following = takeWhile (\<lambda>l. \<not> isAddrStop l) following"

text \<open>One pass of the outer \<open>for\<close> loop: \<open>line\<close> is \<^verbatim>\<open>lines[i]\<close> and \<open>following\<close> the lines
  after it.\<close>

definition parseLine :: "jsstring \<Rightarrow> jsstring list \<Rightarrow> jsobj \<Rightarrow> jsobj" where
  "parseLine line following result =
     (if \<not> jsIncludes line (str '':'') then result
      else (case splitOn (of_char CHR '':'') line of
              [] \<Rightarrow> result
            | rawKey # rest \<Rightarrow>
                (let key = trim rawKey; v = trim (joinWith (str '':'') rest)
                 in if v \<noteq> [] then assignField (toLowerCase key) v result
                    else if toLowerCase key = str ''business address''
                            \<or> toLowerCase key = str ''customer services address''
                    then (let addrLines = collectAddrLines following
                          in if toLowerCase key = str ''business address''
                             then result(''businessAddress'' \<mapsto> JStr (joinWith (str '', '') addrLines))
                             else result(''customerServiceAddress'' \<mapsto> JStr (joinWith (str '', '') addrLines)))
                    else result)))"

fun parseLines :: "jsstring list \<Rightarrow> jsobj \<Rightarrow> jsobj" where
  "parseLines [] result = result"
| "parseLines (line # following) result = parseLines following (parseLine line following result)"

definition bodyTypeError :: jsstring where
  "bodyTypeError = str ''Cannot read properties of null (reading innerText)''"

text \<open>
  part_000 and part_001 (the two files agree on \<^verbatim>\<open>extractSellerInfo\<close>). The reads of
  \<^verbatim>\<open>document.body.innerText\<close> after the rating block are not guarded and throw out of
  the callback (\<open>Inl\<close>) when the document has no body.
\<close>

definition pageExtract :: "profile_doc \<Rightarrow> jsstring + jsobj" where
  "pageExtract doc =
     (let r1 = ratedResult doc
      in case findDetailHeading doc of
           None \<Rightarrow>
             (let r2 = r1(''hasDetailedInfo'' \<mapsto> JBool False)
              in case bodyInnerText doc of
                   None \<Rightarrow> Inl bodyTypeError
                 | Some body \<Rightarrow>
                     (case csPhoneMatch body of
                        None \<Rightarrow> Inr r2
                      | Some g \<Rightarrow> Inr (r2(''phoneNumber'' \<mapsto> JStr (trim g),
                                          ''customerServicePhone'' \<mapsto> JStr (trim g)))))
         | Some h \<Rightarrow>
             (let r2 = r1(''hasDetailedInfo'' \<mapsto> JBool True)
              in case snd h of
                   None \<Rightarrow> Inr r2
                 | Some allText \<Rightarrow>
                     (let r3 = parseLines (blockLines allText) r2
                      in case bodyInnerText doc of
                           None \<Rightarrow> Inl bodyTypeError
                         | Some body \<Rightarrow>
                             (case csPhoneMatch body of
                                None \<Rightarrow> Inr r3
                              | Some g \<Rightarrow>
                                  (let r4 = r3(''customerServicePhone'' \<mapsto> JStr (trim g))
                                   in if \<not> truthyVal (getProp r4 ''phoneNumber'')
                                      then Inr (r4(''phoneNumber'' \<mapsto> JStr (trim g)))
                                      else Inr r4)))))"

text \<open>
  src/scraper.js. A page without the heading returns at once, before the search for
  \<open>Customer Service Phone\<close> is reached.
\<close>

definition pageExtract_scraper :: "profile_doc \<Rightarrow> jsstring + jsobj" where
  "pageExtract_scraper doc =
     (let r1 = ratedResult_scraper doc
      in case findDetailHeading doc of
           None \<Rightarrow> Inr (r1(''hasDetailedInfo'' \<mapsto> JBool False))
         | Some h \<Rightarrow>
             (let r2 = r1(''hasDetailedInfo'' \<mapsto> JBool True)
              in case snd h of
                   None \<Rightarrow> Inr r2
                 | Some allText \<Rightarrow>
                     (let r3 = parseLines (blockLines allText) r2
                      in case bodyInnerText doc of
                           None \<Rightarrow> Inl bodyTypeError
                         | Some body \<Rightarrow>
                             (case csPhoneMatch body of
                                None \<Rightarrow> Inr r3
                              | Some g \<Rightarrow>
                                  (let r4 = (if \<not> truthyVal (getProp r3 ''phoneNumber'')
                                             then r3(''phoneNumber'' \<mapsto> JStr (trim g))
                                             else r3)
                                   in Inr (r4(''customerServicePhone'' \<mapsto> JStr (trim g))))))))"

section \<open>extractSellerInfo\<close>

text \<open>
  A function that may throw returns \<open>string + 'a\<close>: \<open>Inl\<close> carries the message of the
  exception. A log entry is a severity and the pieces of the message (the parts of the
  template literal).
\<close>

datatype level = INFO | WARNING | ERROR

type_synonym log_entry = "level \<times> jsval list"

text \<open>
  What the browser does on \<^verbatim>\<open>page.goto(sellerUrl)\<close> and the following \<^verbatim>\<open>page.evaluate\<close>:
  the navigation may reject, the evaluation may reject for a reason of its own (a closed
  page, a destroyed context), otherwise the callback runs on the document.
\<close>

record profile_visit =
  gotoError :: "jsstring option"
  evaluateError :: "jsstring option"
  document :: profile_doc

definition infoLine :: "jsstring \<Rightarrow> jsobj \<Rightarrow> log_entry list" where
  "infoLine lead info =
     (if truthyVal (getProp info ''sellerDisplayName'')
      then [(INFO, [JStr lead, getProp info ''sellerDisplayName'',
                    JStr (str '' | Phone: ''), jsOr (getProp info ''phoneNumber'') (JStr (str ''N/A'')),
                    JStr (str '' | Email: ''), jsOr (getProp info ''email'') (JStr (str ''N/A''))])]
      else [])"

text \<open>The body of the \<^verbatim>\<open>try\<close> block, for a given function evaluated in the page.\<close>

definition tryExtract ::
  "(profile_doc \<Rightarrow> jsstring + jsobj) \<Rightarrow> jsstring \<Rightarrow> profile_visit \<Rightarrow> jsstring + (jsobj \<times> log_entry list)" where
  "tryExtract inPage lead v =
     (case gotoError v of
        Some e \<Rightarrow> Inl e
      | None \<Rightarrow>
          (case evaluateError v of
             Some e \<Rightarrow> Inl e
           | None \<Rightarrow>
               (case inPage (document v) of
                  Inl e \<Rightarrow> Inl e
                | Inr info \<Rightarrow> Inr (info, infoLine lead info))))"

text \<open>part_000 and part_001.\<close>

definition extractSellerInfo ::
  "(jsstring \<Rightarrow> profile_visit) \<Rightarrow> jsstring \<Rightarrow> jsstring + (jsobj \<times> log_entry list)" where
  "extractSellerInfo page sellerUrl =
     (case tryExtract pageExtract (str ''    '') (page sellerUrl) of
        Inr r \<Rightarrow> Inr r
      | Inl msg \<Rightarrow>
          Inr (Map.empty(''error'' \<mapsto> JStr msg),
               [(WARNING, [JStr (str ''    Failed to extract seller info: ''), JStr msg])]))"

text \<open>src/scraper.js.\<close>

definition extractSellerInfo_scraper ::
  "(jsstring \<Rightarrow> profile_visit) \<Rightarrow> jsstring \<Rightarrow> jsstring + (jsobj \<times> log_entry list)" where
  "extractSellerInfo_scraper page sellerUrl =
     (case tryExtract pageExtract_scraper (str ''    Seller: '') (page sellerUrl) of
        Inr r \<Rightarrow> Inr r
      | Inl msg \<Rightarrow>
          Inr (Map.empty(''error'' \<mapsto> JStr msg),
               [(WARNING, [JStr (str ''    Failed to extract seller info from ''), JStr sellerUrl,
                           JStr (str '': ''), JStr msg])]))"

section \<open>scrapeAsinOnMarketplace: visiting the profiles\<close>

record marketplace =
  code :: jsstring
  domain :: jsstring
  currency :: jsstring
  tld :: jsstring

text \<open>A discovered seller: \<^verbatim>\<open>{ name, sellerId, href, strategy }\<close>; part_000 and
  src/scraper.js set no \<open>strategy\<close>.\<close>

record seller_ref =
  name :: jsstring
  sellerId :: jsstring
  href :: jsstring
  strategy :: "jsstring option"

definition sellerProfileUrl :: "marketplace \<Rightarrow> seller_ref \<Rightarrow> jsstring \<Rightarrow> jsstring" where
  "sellerProfileUrl m seller asin =
     str ''https://www.'' @ domain m @ str ''/sp?seller='' @ sellerId seller @ str ''&asin='' @ asin"

text \<open>The object pushed to \<open>results\<close>; the three files build it with the same code.\<close>

definition mkRecord :: "jsstring \<Rightarrow> marketplace \<Rightarrow> seller_ref \<Rightarrow> jsobj \<Rightarrow> jsstring \<Rightarrow> jsobj" where
  "mkRecord asin m seller sellerInfo now =
     Map.empty(
       ''asin'' \<mapsto> JStr asin,
       ''marketplace'' \<mapsto> JStr (code m),
       ''marketplaceDomain'' \<mapsto> JStr (domain m),
       ''sellerName'' \<mapsto> JStr (name seller),
       ''sellerId'' \<mapsto> JStr (sellerId seller),
       ''sellerDisplayName'' \<mapsto> jsOr (getProp sellerInfo ''sellerDisplayName'') (JStr (name seller)),
       ''businessName'' \<mapsto> jsOr (getProp sellerInfo ''businessName'') JNull,
       ''businessType'' \<mapsto> jsOr (getProp sellerInfo ''businessType'') JNull,
       ''phoneNumber'' \<mapsto> jsOr (getProp sellerInfo ''phoneNumber'') JNull,
       ''customerServicePhone'' \<mapsto> jsOr (getProp sellerInfo ''customerServicePhone'') JNull,
       ''email'' \<mapsto> jsOr (getProp sellerInfo ''email'') JNull,
       ''vatNumber'' \<mapsto> jsOr (getProp sellerInfo ''vatNumber'') JNull,
       ''tradeRegisterNumber'' \<mapsto> jsOr (getProp sellerInfo ''tradeRegisterNumber'') JNull,
       ''businessAddress'' \<mapsto> jsOr (getProp sellerInfo ''businessAddress'') JNull,
       ''customerServiceAddress'' \<mapsto> jsOr (getProp sellerInfo ''customerServiceAddress'') JNull,
       ''rating'' \<mapsto> jsOr (getProp sellerInfo ''rating'') JNull,
       ''positivePercent'' \<mapsto> jsOr (getProp sellerInfo ''positivePercent'') JNull,
       ''ratingCount'' \<mapsto> jsOr (getProp sellerInfo ''ratingCount'') JNull,
       ''hasDetailedInfo'' \<mapsto> jsOr (getProp sellerInfo ''hasDetailedInfo'') (JBool False),
       ''scrapedAt'' \<mapsto> JStr now)"

text \<open>The properties of the record that fall back to \<open>null\<close>.\<close>

definition nullableFields :: "string list" where
  "nullableFields =
     [''businessName'', ''businessType'', ''phoneNumber'', ''customerServicePhone'', ''email'',
      ''vatNumber'', ''tradeRegisterNumber'', ''businessAddress'', ''customerServiceAddress'',
      ''rating'', ''positivePercent'', ''ratingCount'']"

text \<open>
  The loop \<^verbatim>\<open>for (const seller of sellersToVisit)\<close>, for a given \<^verbatim>\<open>extractSellerInfo\<close>.
  \<open>clock url\<close> is the time stamp taken after the visit of \<open>url\<close>.
\<close>

fun visitSellers ::
  "(jsstring \<Rightarrow> jsstring + (jsobj \<times> log_entry list)) \<Rightarrow> (jsstring \<Rightarrow> jsstring) \<Rightarrow> jsstring \<Rightarrow> marketplace
     \<Rightarrow> seller_ref list \<Rightarrow> jsstring + (jsobj list \<times> log_entry list)" where
  "visitSellers extract clock asin m [] = Inr ([], [])"
| "visitSellers extract clock asin m (seller # rest) =
     (let url = sellerProfileUrl m seller asin
      in case extract url of
           Inl e \<Rightarrow> Inl e
         | Inr (sellerInfo, lg) \<Rightarrow>
             (case visitSellers extract clock asin m rest of
                Inl e \<Rightarrow> Inl e
              | Inr (results, lg') \<Rightarrow>
                  Inr (mkRecord asin m seller sellerInfo (clock url) # results, lg @ lg')))"

section \<open>extractAllSellers\<close>

subsection \<open>The links of the offer page\<close>

text \<open>
  An \<open>a\<close> element as the extraction reads it: the \<open>href\<close> attribute as written (what the
  selectors \<^verbatim>\<open>a[href*="..."]\<close> test), the property \<^verbatim>\<open>a.href\<close> (the resolved URL, empty
  without the attribute), the query parameters of \<^verbatim>\<open>new URL(a.href)\<close> in order (\<open>None\<close>
  when the constructor throws), the text of the link, of its previous sibling and of its
  parent element (\<open>None\<close> when there is none).
\<close>

record anchor =
  hrefAttr :: "jsstring option"
  hrefProp :: jsstring
  searchParams :: "(jsstring \<times> jsstring) list option"
  textContent :: jsstring
  prevSiblingText :: "jsstring option"
  parentText :: "jsstring option"

definition attrContains :: "jsstring \<Rightarrow> anchor \<Rightarrow> bool" where
  "attrContains sub a = (case hrefAttr a of None \<Rightarrow> False | Some h \<Rightarrow> jsIncludes h sub)"

text \<open>The class \<^verbatim>\<open>[A-Z0-9]\<close>, and the same class under the flag \<open>i\<close>.\<close>

definition isUpperAlnum :: "int \<Rightarrow> bool" where
  "isUpperAlnum c \<longleftrightarrow> (0x41 \<le> c \<and> c \<le> 0x5A) \<or> (0x30 \<le> c \<and> c \<le> 0x39)"

definition isAlnumAnyCase :: "int \<Rightarrow> bool" where
  "isAlnumAnyCase c \<longleftrightarrow> isUpperAlnum (asciiUpper c)"

text \<open>\<^verbatim>\<open>/seller=([A-Z0-9]+)/\<close> at one position, with the flag \<open>i\<close> when \<open>ci\<close> holds.\<close>

definition sellerParamAt :: "bool \<Rightarrow> jsstring \<Rightarrow> jsstring option" where
  "sellerParamAt ci s =
     (let lit = take 7 s;
          run = takeWhile (if ci then isAlnumAnyCase else isUpperAlnum) (drop 7 s)
      in if (if ci then matchesIgnoreCase (str ''seller='') lit else lit = str ''seller='') \<and> run \<noteq> []
         then Some run else None)"

text \<open>\<^verbatim>\<open>/seller[=\/]([A-Z0-9]+)/i\<close> at one position.\<close>

definition sellerPathAt :: "jsstring \<Rightarrow> jsstring option" where
  "sellerPathAt s =
     (if matchesIgnoreCase (str ''seller'') (take 6 s)
      then (case drop 6 s of
              [] \<Rightarrow> None
            | c # cs \<Rightarrow>
                if (c = of_char CHR ''='' \<or> c = of_char CHR ''/'') \<and> takeWhile isAlnumAnyCase cs \<noteq> []
                then Some (takeWhile isAlnumAnyCase cs) else None)
      else None)"

subsection \<open>part_000: one selector, then a Map\<close>

definition extractSellerId_000 :: "anchor \<Rightarrow> jsstring option" where
  "extractSellerId_000 a =
     (case searchParams a of
        Some ps \<Rightarrow> map_of ps (str ''seller'')
      | None \<Rightarrow> searchFrom (sellerParamAt False) (hrefProp a))"

text \<open>\<^verbatim>\<open>links.map(...).filter(s => s && s.name && s.sellerId)\<close>, one link at a time.\<close>

definition linkSeller_000 :: "anchor \<Rightarrow> seller_ref option" where
  "linkSeller_000 a =
     (case extractSellerId_000 a of
        None \<Rightarrow> None
      | Some sid \<Rightarrow>
          if trim (textContent a) \<noteq> [] \<and> sid \<noteq> []
          then Some \<lparr>name = trim (textContent a), sellerId = sid, href = hrefProp a, strategy = None\<rparr>
          else None)"

definition linkSellers_000 :: "anchor list \<Rightarrow> seller_ref list" where
  "linkSellers_000 as = List.map_filter linkSeller_000 (filter (attrContains (str ''/gp/aag/main'')) as)"

text \<open>
  \<^verbatim>\<open>[...new Map(sellers.map(s => [s.sellerId, s])).values()]\<close>. A JavaScript Map keeps its
  keys in the order of their first insertion; setting a key that is present replaces the
  value in place.
\<close>

fun mapSet :: "('k \<times> 'v) list \<Rightarrow> 'k \<Rightarrow> 'v \<Rightarrow> ('k \<times> 'v) list" where
  "mapSet [] k v = [(k, v)]"
| "mapSet ((k', v') # es) k v = (if k' = k then (k, v) # es else (k', v') # mapSet es k v)"

definition newMap :: "('k \<times> 'v) list \<Rightarrow> ('k \<times> 'v) list" where
  "newMap entries = fold (\<lambda>e m. mapSet m (fst e) (snd e)) entries []"

definition uniqueBySellerId :: "seller_ref list \<Rightarrow> seller_ref list" where
  "uniqueBySellerId sellers = map snd (newMap (map (\<lambda>s. (sellerId s, s)) sellers))"

subsection \<open>part_001: three strategies over one list and one set of seen ids\<close>

definition extractSellerId :: "anchor \<Rightarrow> jsstring option" where
  "extractSellerId a =
     (if hrefProp a = [] then None
      else (case searchParams a of
              Some ps \<Rightarrow> (if truthy (map_of ps (str ''seller'')) then map_of ps (str ''seller'')
                          else map_of ps (str ''sellerID''))
            | None \<Rightarrow> searchFrom (sellerParamAt True) (hrefProp a)))"

type_synonym found_state = "seller_ref list \<times> jsstring set"

definition linkStep :: "jsstring \<Rightarrow> anchor \<Rightarrow> found_state \<Rightarrow> found_state" where
  "linkStep strat a st =
     (case extractSellerId a of
        None \<Rightarrow> st
      | Some sid \<Rightarrow>
          if sid \<noteq> [] \<and> trim (textContent a) \<noteq> [] \<and> sid \<notin> snd st
          then (fst st @ [\<lparr>name = trim (textContent a), sellerId = sid, href = hrefProp a,
                           strategy = Some strat\<rparr>],
                insert sid (snd st))
          else st)"

definition soldByContext :: "anchor \<Rightarrow> bool" where
  "soldByContext a =
     ((jsIncludes (toLowerCase (case prevSiblingText a of None \<Rightarrow> [] | Some t \<Rightarrow> t)) (str ''sold by'')
       \<or> jsIncludes (toLowerCase (case parentText a of None \<Rightarrow> [] | Some t \<Rightarrow> t)) (str ''sold by''))
      \<and> hrefProp a \<noteq> [] \<and> \<not> jsIncludes (hrefProp a) (str ''#''))"

definition soldByStep :: "anchor \<Rightarrow> found_state \<Rightarrow> found_state" where
  "soldByStep a st =
     (if soldByContext a
      then (let sid = extractSellerId a; nm = trim (textContent a)
            in if truthy sid \<and> nm \<noteq> [] \<and> (case sid of None \<Rightarrow> False | Some i \<Rightarrow> i \<notin> snd st)
               then (fst st @ [\<lparr>name = nm, sellerId = (case sid of None \<Rightarrow> [] | Some i \<Rightarrow> i),
                                href = hrefProp a, strategy = Some (str ''soldBy'')\<rparr>],
                     insert (case sid of None \<Rightarrow> [] | Some i \<Rightarrow> i) (snd st))
               else if nm \<noteq> [] \<and> \<not> truthy sid \<and> jsIncludes (hrefProp a) (str ''/sp'')
               then (case searchFrom sellerPathAt (hrefProp a) of
                       None \<Rightarrow> st
                     | Some i \<Rightarrow>
                         if i \<noteq> [] \<and> i \<notin> snd st
                         then (fst st @ [\<lparr>name = nm, sellerId = i, href = hrefProp a,
                                          strategy = Some (str ''soldByPath'')\<rparr>],
                               insert i (snd st))
                         else st)
               else st)
      else st)"

text \<open>The callback of \<^verbatim>\<open>page.evaluate\<close>: \<open>found\<close> and \<open>seenIds\<close> start empty and run
  through the three \<^verbatim>\<open>forEach\<close> loops in turn.\<close>

definition pageSellers :: "anchor list \<Rightarrow> seller_ref list" where
  "pageSellers as =
     fst (fold soldByStep as
           (fold (linkStep (str ''sellerParam'')) (filter (attrContains (str ''seller='')) as)
             (fold (linkStep (str ''aag'')) (filter (attrContains (str ''/gp/aag/main'')) as) ([], {}))))"

subsection \<open>The page and the two versions of the function\<close>

text \<open>
  The offer page after \<^verbatim>\<open>page.goto(offerUrl)\<close>: the error of the navigation if it
  rejected, and, on whatever page is then shown, the title and the CAPTCHA query (either
  may reject), the URL, the selectors \<^verbatim>\<open>waitForSelector\<close> finds within its timeout, the
  text of \<^verbatim>\<open>JSON.stringify(debugInfo)\<close>, and the links (\<open>None\<close> when the evaluation
  rejects, which the code turns into an empty list).
\<close>

record offer_page =
  navError :: "jsstring option"
  pageTitle :: "jsstring + jsstring"
  currentUrl :: jsstring
  captchaQuery :: "jsstring + bool"
  selectorAppears :: "jsstring \<Rightarrow> bool"
  debugJson :: jsstring
  anchors :: "anchor list option"

definition offerUrl :: "marketplace \<Rightarrow> jsstring \<Rightarrow> jsstring" where
  "offerUrl m asin =
     str ''https://www.'' @ domain m @ str ''/gp/offer-listing/'' @ asin @ str ''/ref=dp_olp_NEW_mbc?condition=NEW''"

definition tagged :: "level \<Rightarrow> marketplace \<Rightarrow> jsval list \<Rightarrow> log_entry" where
  "tagged lv m parts = (lv, [JStr (str ''[''), JStr (code m), JStr (str ''] '')] @ parts)"

definition loadingLine :: "marketplace \<Rightarrow> jsstring \<Rightarrow> log_entry" where
  "loadingLine m asin =
     (INFO, [JStr (newline # str ''[''), JStr (code m), JStr (str ''] Loading offers: ''), JStr (offerUrl m asin)])"

definition isNotFound :: "jsstring \<Rightarrow> jsstring \<Rightarrow> bool" where
  "isNotFound title url \<longleftrightarrow>
     jsIncludes title (str ''Page Not Found'') \<or> jsIncludes title (str ''404'')
     \<or> jsIncludes title (str ''Sorry'') \<or> jsIncludes url (str ''/errors/'')"

definition captchaLine :: "marketplace \<Rightarrow> log_entry" where
  "captchaLine m =
     tagged WARNING m [JStr (str ''CAPTCHA detected '' @ [0x2014] @ str '' skipping'')]"

text \<open>part_000: a failed navigation returns the empty list.\<close>

definition extractAllSellers_000 ::
  "(jsstring \<Rightarrow> offer_page) \<Rightarrow> jsstring \<Rightarrow> marketplace \<Rightarrow> (jsstring + seller_ref list) \<times> log_entry list" where
  "extractAllSellers_000 page asin m =
     (let p = page (offerUrl m asin); lg = [loadingLine m asin]
      in case navError p of
           Some e \<Rightarrow> (Inr [], lg @ [tagged WARNING m [JStr (str ''Failed to load offer page: ''), JStr e]])
         | None \<Rightarrow>
             (case pageTitle p of
                Inl e \<Rightarrow> (Inl e, lg)
              | Inr title \<Rightarrow>
                  if isNotFound title (currentUrl p)
                  then (Inr [], lg @ [tagged INFO m [JStr (str ''Product not found on this marketplace'')]])
                  else (case captchaQuery p of
                          Inl e \<Rightarrow> (Inl e, lg)
                        | Inr True \<Rightarrow> (Inr [], lg @ [captchaLine m])
                        | Inr False \<Rightarrow>
                            (let sellers = (case anchors p of None \<Rightarrow> [] | Some as \<Rightarrow> linkSellers_000 as);
                                 unique = uniqueBySellerId sellers
                             in (Inr unique,
                                 lg @ [tagged INFO m [JStr (str ''Found ''), JNum (of_nat (length unique)),
                                                      JStr (str '' seller(s)'')]])))))"

definition offerSelectors :: "jsstring list" where
  "offerSelectors =
     [str ''#aod-offer-list #aod-offer'', str ''#aod-offer'', str ''#all-offers-display'',
      str ''#olpOfferList'', str ''.olpOffer'', str ''#ppd'']"

definition waitLines :: "marketplace \<Rightarrow> offer_page \<Rightarrow> log_entry list" where
  "waitLines m p =
     (case find (selectorAppears p) offerSelectors of
        Some sel \<Rightarrow> [tagged INFO m [JStr (str ''Found offers with selector: ''), JStr sel]]
      | None \<Rightarrow> [tagged INFO m [JStr (str ''No offer container found, waiting 5s as fallback...'')]])"

definition foundLine :: "marketplace \<Rightarrow> seller_ref list \<Rightarrow> log_entry" where
  "foundLine m unique =
     tagged INFO m
       [JStr (str ''Found ''), JNum (of_nat (length unique)), JStr (str '' seller(s): ''),
        JStr (joinWith (str '', '')
               (map (\<lambda>s. name s @ str ''('' @ (case strategy s of None \<Rightarrow> str ''undefined'' | Some t \<Rightarrow> t) @ str '')'')
                    unique))]"

text \<open>part_001: a failed navigation is logged and the function goes on with the page as
  it is.\<close>

definition extractAllSellers ::
  "(jsstring \<Rightarrow> offer_page) \<Rightarrow> jsstring \<Rightarrow> marketplace \<Rightarrow> (jsstring + seller_ref list) \<times> log_entry list" where
  "extractAllSellers page asin m =
     (let p = page (offerUrl m asin);
          lg = loadingLine m asin #
               (case navError p of
                  None \<Rightarrow> []
                | Some e \<Rightarrow> [tagged WARNING m [JStr (str ''Page load timeout, continuing anyway: ''), JStr e]])
      in case pageTitle p of
           Inl e \<Rightarrow> (Inl e, lg)
         | Inr title \<Rightarrow>
             (let lg1 = lg @ [tagged INFO m [JStr (str ''Redirected to: ''), JStr (currentUrl p)],
                              tagged INFO m [JStr (str ''Page title: ''), JStr title]]
              in if isNotFound title (currentUrl p)
                 then (Inr [], lg1 @ [tagged INFO m [JStr (str ''Product not found on this marketplace'')]])
                 else (case captchaQuery p of
                         Inl e \<Rightarrow> (Inl e, lg1)
                       | Inr True \<Rightarrow> (Inr [], lg1 @ [captchaLine m])
                       | Inr False \<Rightarrow>
                           (let sellers = (case anchors p of None \<Rightarrow> [] | Some as \<Rightarrow> pageSellers as);
                                unique = uniqueBySellerId sellers
                            in (Inr unique,
                                lg1 @ waitLines m p @ [tagged INFO m [JStr (str ''Debug: ''), JStr (debugJson p)]]
                                    @ [foundLine m unique])))))"

subsection \<open>Deduplication as the specification words it\<close>

text \<open>
  These definitions follow the words of the specification, to be compared with
  \<open>pageSellers\<close>: the candidates of the three strategies in encounter order (strategy
  priority, then document order), a candidate being what a link yields when its id and
  its text are not empty, whether or not the id was met before; and the deduplication
  that keeps the first occurrence of every id.
\<close>

definition specLinkCandidate :: "jsstring \<Rightarrow> anchor \<Rightarrow> seller_ref option" where
  "specLinkCandidate strat a =
     (case extractSellerId a of
        None \<Rightarrow> None
      | Some sid \<Rightarrow>
          if sid \<noteq> [] \<and> trim (textContent a) \<noteq> []
          then Some \<lparr>name = trim (textContent a), sellerId = sid, href = hrefProp a,
                     strategy = Some strat\<rparr>
          else None)"

definition specSoldByCandidate :: "anchor \<Rightarrow> seller_ref option" where
  "specSoldByCandidate a =
     (if soldByContext a \<and> trim (textContent a) \<noteq> []
      then (case extractSellerId a of
              Some (c # cs) \<Rightarrow>
                Some \<lparr>name = trim (textContent a), sellerId = c # cs, href = hrefProp a,
                      strategy = Some (str ''soldBy'')\<rparr>
            | _ \<Rightarrow>
                if jsIncludes (hrefProp a) (str ''/sp'')
                then (case searchFrom sellerPathAt (hrefProp a) of
                        Some (c # cs) \<Rightarrow>
                          Some \<lparr>name = trim (textContent a), sellerId = c # cs, href = hrefProp a,
                                strategy = Some (str ''soldByPath'')\<rparr>
                      | _ \<Rightarrow> None)
                else None)
      else None)"

definition specCandidates :: "anchor list \<Rightarrow> seller_ref list" where
  "specCandidates as =
     List.map_filter (specLinkCandidate (str ''aag'')) (filter (attrContains (str ''/gp/aag/main'')) as)
     @ List.map_filter (specLinkCandidate (str ''sellerParam'')) (filter (attrContains (str ''seller='')) as)
     @ List.map_filter specSoldByCandidate as"

fun specKeepFirst :: "seller_ref list \<Rightarrow> seller_ref list" where
  "specKeepFirst [] = []"
| "specKeepFirst (c # cs) = c # specKeepFirst (filter (\<lambda>d. sellerId d \<noteq> sellerId c) cs)"

section \<open>scrapeAsinOnMarketplace (part_000 and part_001)\<close>

record browser =
  offerPages :: "jsstring \<Rightarrow> offer_page"
  profilePages :: "jsstring \<Rightarrow> profile_visit"
  clock :: "jsstring \<Rightarrow> jsstring"

text \<open>\<^verbatim>\<open>const sellersToVisit = skipAmazonSellers ? allSellers.filter(...) : allSellers\<close>.\<close>

definition sellersToVisit :: "bool \<Rightarrow> seller_ref list \<Rightarrow> seller_ref list" where
  "sellersToVisit skipAmazonSellers allSellers =
     (if skipAmazonSellers
      then filter (\<lambda>s. \<not> isAmazonSeller (Some (name s))) allSellers
      else allSellers)"

text \<open>The function for a given \<^verbatim>\<open>extractAllSellers\<close>; the two files differ in nothing
  else.\<close>

definition scrapeWith ::
  "((jsstring \<Rightarrow> offer_page) \<Rightarrow> jsstring \<Rightarrow> marketplace \<Rightarrow> (jsstring + seller_ref list) \<times> log_entry list)
     \<Rightarrow> browser \<Rightarrow> jsstring \<Rightarrow> marketplace \<Rightarrow> bool \<Rightarrow> (jsstring + jsobj list) \<times> log_entry list" where
  "scrapeWith extractAll b asin m skipAmazonSellers =
     (case extractAll (offerPages b) asin m of
        (Inl e, lg) \<Rightarrow> (Inl e, lg)
      | (Inr allSellers, lg) \<Rightarrow>
          (let toVisit = sellersToVisit skipAmazonSellers allSellers;
               lg1 = lg @ (if skipAmazonSellers
                           then map (\<lambda>s. tagged INFO m [JStr (str ''Skipping Amazon seller: ''), JStr (name s)])
                                  (filter (\<lambda>s. isAmazonSeller (Some (name s))) allSellers)
                           else [])
           in if toVisit = []
              then (Inr [], lg1 @ [tagged INFO m [JStr (str ''No third-party sellers to visit'')]])
              else (let lg2 = lg1 @ [tagged INFO m [JStr (str ''Visiting ''),
                                       JNum (of_nat (length toVisit)), JStr (str '' seller profile(s)...'')]]
                    in case visitSellers (extractSellerInfo (profilePages b)) (clock b) asin m toVisit of
                         Inl e \<Rightarrow> (Inl e, lg2)
                       | Inr (results, lg') \<Rightarrow> (Inr results, lg2 @ lg'))))"

definition scrapeAsinOnMarketplace ::
  "browser \<Rightarrow> jsstring \<Rightarrow> marketplace \<Rightarrow> bool \<Rightarrow> (jsstring + jsobj list) \<times> log_entry list" where
  "scrapeAsinOnMarketplace = scrapeWith extractAllSellers"

definition scrapeAsinOnMarketplace_000 ::
  "browser \<Rightarrow> jsstring \<Rightarrow> marketplace \<Rightarrow> bool \<Rightarrow> (jsstring + jsobj list) \<times> log_entry list" where
  "scrapeAsinOnMarketplace_000 = scrapeWith extractAllSellers_000"

section \<open>The scraping loop of the entry point (part_002)\<close>

text \<open>
  \<^verbatim>\<open>`${seller.sellerId}`\<close>: the string form of the property. No number is ever
  interpolated here (a seller id is a string, or missing), so the digits of a number are
  not modelled.
\<close>

fun templateStr :: "jsval \<Rightarrow> jsstring" where
  "templateStr (JStr s) = s"
| "templateStr JUndefined = str ''undefined''"
| "templateStr JNull = str ''null''"
| "templateStr (JBool b) = (if b then (str ''true'') else (str ''false''))"
| "templateStr JNaN = str ''NaN''"
| "templateStr (JNum n) = str ''[number]''"

definition dedupeKey :: "jsobj \<Rightarrow> jsstring" where
  "dedupeKey seller = templateStr (getProp seller ''sellerId'')"


text \<open>The annotation of one seller, before it is pushed: the map is read, and written
  when the key is new.\<close>

definition annotate :: "marketplace \<Rightarrow> jsobj \<Rightarrow> (jsstring \<rightharpoonup> jsstring) \<Rightarrow> jsobj \<times> (jsstring \<rightharpoonup> jsstring)" where
  "annotate m seller seen =
     (case seen (dedupeKey seller) of
        Some first \<Rightarrow>
          (seller(''firstSeenOnMarketplace'' \<mapsto> JStr first, ''isDuplicate'' \<mapsto> JBool True), seen)
      | None \<Rightarrow>
          (seller(''firstSeenOnMarketplace'' \<mapsto> JStr (code m), ''isDuplicate'' \<mapsto> JBool False),
           seen(dedupeKey seller \<mapsto> code m)))"









section \<open>Auxiliary notions for the proofs\<close>

text \<open>A property that is unset or holds a non-empty string.\<close>

definition filledOrAbsent :: "jsobj \<Rightarrow> string \<Rightarrow> bool" where
  "filledOrAbsent r k = (case r k of None \<Rightarrow> True | Some v \<Rightarrow> \<exists>s. v = JStr s \<and> s \<noteq> [])"

text \<open>The records of one marketplace with their annotations, and the map afterwards.\<close>

fun annotateAll ::
  "marketplace \<Rightarrow> jsobj list \<Rightarrow> (jsstring \<rightharpoonup> jsstring) \<Rightarrow> jsobj list \<times> (jsstring \<rightharpoonup> jsstring)" where
  "annotateAll m [] seen = ([], seen)"
| "annotateAll m (s # rest) seen =
     (fst (annotate m s seen) # fst (annotateAll m rest (snd (annotate m s seen))),
      snd (annotateAll m rest (snd (annotate m s seen))))"

text \<open>The common shape of the guarded push of the three strategies.\<close>

definition pushNew :: "seller_ref \<Rightarrow> found_state \<Rightarrow> found_state" where
  "pushNew c st =
     (if sellerId c \<in> snd st then st else (fst st @ [c], insert (sellerId c) (snd st)))"

text \<open>A visit of a profile page that fails with the message \<open>e\<close>: the navigation rejects,
  or the evaluation rejects, or the function evaluated in the page throws.\<close>

definition visitFails :: "(profile_doc \<Rightarrow> jsstring + jsobj) \<Rightarrow> profile_visit \<Rightarrow> jsstring \<Rightarrow> bool" where
  "visitFails inPage v e \<longleftrightarrow>
     gotoError v = Some e
     \<or> (gotoError v = None \<and> evaluateError v = Some e)
     \<or> (gotoError v = None \<and> evaluateError v = None \<and> inPage (document v) = Inl e)"

text \<open>Code units that \<^verbatim>\<open>toLowerCase\<close> maps one by one, whatever stands around them; the ASCII
  code units; and the rows of the table that map no code unit above 127 to an ASCII one,
  but for the Kelvin sign U+212A, whose lower case is the letter k.\<close>

definition contextFree :: "int \<Rightarrow> bool" where
  "contextFree c \<longleftrightarrow>
     \<not> isHighSurrogate c \<and> c \<noteq> 0x3A3 \<and> c \<noteq> 0x130 \<and> simpleLower c < 0x10000"

definition isAscii :: "int \<Rightarrow> bool" where
  "isAscii c \<longleftrightarrow> 0 \<le> c \<and> c < 128"

definition rowKeepsAscii :: "int \<times> int \<times> int \<times> int \<Rightarrow> bool" where
  "rowKeepsAscii row =
     (case row of (lo, hi, step, target) \<Rightarrow>
        (0 \<le> lo \<and> hi < 128) \<or> (lo = 0x212A \<and> hi = 0x212A) \<or> 128 \<le> target)"

section \<open>Facts about the string functions\<close>

lemma str_Nil [simp]: "str [] = []"
  by (simp add: str_def)

lemma str_eq_iff [simp]: "str a = str b \<longleftrightarrow> a = b"
proof
  assume "str a = str b"
  then have "map char_of (str a :: int list) = map char_of (str b)" by simp
  then show "a = b" by (simp add: str_def comp_def)
qed simp

lemma str_eq_Nil [simp]: "str s = [] \<longleftrightarrow> s = []"
  by (simp add: str_def)

lemma startsWith_iff: "startsWith s p \<longleftrightarrow> (\<exists>post. s = p @ post)"
  by (induction s p rule: startsWith.induct) auto

lemma includes_iff: "jsIncludes s sub \<longleftrightarrow> (\<exists>pre post. s = pre @ sub @ post)"
proof (induction s)
  case Nil
  then show ?case by auto
next
  case (Cons c cs)
  show ?case
  proof
    assume "jsIncludes (c # cs) sub"
    then consider "startsWith (c # cs) sub" | "jsIncludes cs sub" by auto
    then show "\<exists>pre post. c # cs = pre @ sub @ post"
    proof cases
      case 1
      then obtain post where "c # cs = sub @ post" by (auto simp: startsWith_iff)
      then have "c # cs = [] @ sub @ post" by simp
      then show ?thesis by blast
    next
      case 2
      then obtain pre post where "cs = pre @ sub @ post" using Cons.IH by blast
      then have "c # cs = (c # pre) @ sub @ post" by simp
      then show ?thesis by blast
    qed
  next
    assume "\<exists>pre post. c # cs = pre @ sub @ post"
    then obtain pre post where eq: "c # cs = pre @ sub @ post" by blast
    show "jsIncludes (c # cs) sub"
    proof (cases pre)
      case Nil
      with eq have "startsWith (c # cs) sub" by (auto simp: startsWith_iff)
      then show ?thesis by simp
    next
      case (Cons a pre')
      with eq have "cs = pre' @ sub @ post" by simp
      then have "jsIncludes cs sub" using Cons.IH by blast
      then show ?thesis by simp
    qed
  qed
qed

lemma includes_refl: "jsIncludes s s"
  unfolding includes_iff by (metis append_Nil append_Nil2)

lemma includes_Nil: "jsIncludes s []"
  unfolding includes_iff by (metis append_Nil)

lemma codePoints_plain: "\<forall>u\<in>set s. \<not> isHighSurrogate u \<Longrightarrow> codePoints s = s"
  by (induction s rule: codePoints.induct) auto

lemma lowerCodePoints_plain:
  "\<forall>c\<in>set s. c \<noteq> 0x3A3 \<and> c \<noteq> 0x130 \<Longrightarrow> lowerCodePoints b s = map simpleLower s"
  by (induction s arbitrary: b) auto

lemma codeUnits_plain: "\<forall>c\<in>set s. c < 0x10000 \<Longrightarrow> concat (map codeUnits s) = s"
  by (induction s) (auto simp: codeUnits_def)

lemma toLowerCase_contextFree:
  assumes "\<forall>c\<in>set s. contextFree c"
  shows "toLowerCase s = map simpleLower s"
proof -
  have 1: "codePoints s = s"
    using assms by (intro codePoints_plain) (simp add: contextFree_def)
  have 2: "lowerCodePoints [] s = map simpleLower s"
    using assms by (intro lowerCodePoints_plain) (simp add: contextFree_def)
  have 3: "concat (map codeUnits (map simpleLower s)) = map simpleLower s"
    using assms by (intro codeUnits_plain) (simp add: contextFree_def)
  show ?thesis unfolding toLowerCase_def 1 2 3 ..
qed

lemma whiteSpace_lower_all:
  "list_all (\<lambda>c. contextFree c \<and> simpleLower c = c) whiteSpace"
  by code_simp

lemma isSpace_lower: "isSpace c \<Longrightarrow> contextFree c \<and> simpleLower c = c"
  using whiteSpace_lower_all unfolding isSpace_def list_all_iff by blast

lemma ascii_lower_all:
  "list_all (\<lambda>c. contextFree c) [0..127]"
  by code_simp

lemma isAscii_contextFree: "isAscii c \<Longrightarrow> contextFree c"
  using ascii_lower_all unfolding list_all_iff isAscii_def by simp

lemma kelvin_contextFree: "contextFree 0x212A"
  by code_simp

lemma lowerRows_keep_ascii: "list_all rowKeepsAscii lowerRows"
  by code_simp

lemma lookupLower_ascii:
  "list_all rowKeepsAscii rows \<Longrightarrow> isAscii (lookupLower rows c) \<Longrightarrow> isAscii c \<or> c = 0x212A"
proof (induction rows)
  case Nil
  then show ?case by simp
next
  case (Cons row rows)
  obtain lo hi step target where row: "row = (lo, hi, step, target)" by (cases row)
  from Cons.prems(1) have "rowKeepsAscii row" and rest: "list_all rowKeepsAscii rows"
    by simp_all
  then have k: "(0 \<le> lo \<and> hi < 128) \<or> (lo = 0x212A \<and> hi = 0x212A) \<or> 128 \<le> target"
    by (simp add: row rowKeepsAscii_def)
  show ?case
  proof (cases "c < lo")
    case True
    with Cons.prems(2) show ?thesis by (simp add: row)
  next
    case False
    show ?thesis
    proof (cases "c \<le> hi \<and> (c - lo) mod step = 0")
      case True
      with False Cons.prems(2) have "isAscii (target + (c - lo))" by (simp add: row)
      with k False True show ?thesis by (auto simp: isAscii_def)
    next
      case False2: False
      with False Cons.prems(2) have "isAscii (lookupLower rows c)" by (auto simp: row)
      with rest Cons.IH show ?thesis by blast
    qed
  qed
qed

lemma simpleLower_ascii: "isAscii (simpleLower c) \<Longrightarrow> isAscii c \<or> c = 0x212A"
  unfolding simpleLower_def using lowerRows_keep_ascii by (rule lookupLower_ascii)

lemma codeUnits_ascii:
  "\<forall>u\<in>set (codeUnits cp). isAscii u \<Longrightarrow> codeUnits cp = [cp] \<and> isAscii cp"
  by (auto simp: codeUnits_def isAscii_def split: if_splits)

lemma lowerCodePoints_ascii:
  "\<forall>u\<in>set (concat (map codeUnits (lowerCodePoints b cs))). isAscii u
     \<Longrightarrow> \<forall>c\<in>set cs. isAscii c \<or> c = 0x212A"
proof (induction cs arbitrary: b)
  case Nil
  then show ?case by simp
next
  case (Cons c cs)
  have tl: "\<forall>u\<in>set (concat (map codeUnits (lowerCodePoints (c # b) cs))). isAscii u"
    using Cons.prems by simp
  have hd: "isAscii c \<or> c = 0x212A"
  proof (cases "c = 0x3A3")
    case True
    with Cons.prems show ?thesis by (simp add: codeUnits_def isAscii_def split: if_splits)
  next
    case False
    show ?thesis
    proof (cases "c = 0x130")
      case True
      with Cons.prems show ?thesis by (simp add: codeUnits_def isAscii_def)
    next
      case False3: False
      with False Cons.prems have "\<forall>u\<in>set (codeUnits (simpleLower c)). isAscii u" by simp
      then have "isAscii (simpleLower c)" using codeUnits_ascii by blast
      then show ?thesis by (rule simpleLower_ascii)
    qed
  qed
  from hd Cons.IH [OF tl] show ?case by simp
qed

lemma codePoints_units:
  "\<forall>c\<in>set (codePoints s). c < 0x10000 \<Longrightarrow> codePoints s = s"
proof (induction s rule: codePoints.induct)
  case (1 u v us)
  show ?case
  proof (cases "isHighSurrogate u \<and> isLowSurrogate v")
    case True
    then have "pairCodePoint u v \<ge> 0x10000"
      by (simp add: pairCodePoint_def isHighSurrogate_def isLowSurrogate_def)
    with True "1.prems" show ?thesis by simp
  next
    case False
    then have step: "codePoints (u # v # us) = u # codePoints (v # us)" by auto
    with "1.prems" have "\<forall>c\<in>set (codePoints (v # us)). c < 0x10000" by simp
    with False "1.IH"(2) have "codePoints (v # us) = v # us" by blast
    with step show ?thesis by simp
  qed
qed simp_all

lemma toLowerCase_ascii_source:
  assumes "\<forall>u\<in>set (toLowerCase n). isAscii u"
  shows "\<forall>u\<in>set n. contextFree u"
proof -
  have cps: "\<forall>c\<in>set (codePoints n). isAscii c \<or> c = 0x212A"
    using assms unfolding toLowerCase_def by (rule lowerCodePoints_ascii)
  then have "\<forall>c\<in>set (codePoints n). c < 0x10000" by (auto simp: isAscii_def)
  then have "codePoints n = n" by (rule codePoints_units)
  with cps have "\<forall>u\<in>set n. isAscii u \<or> u = 0x212A" by simp
  then show ?thesis using isAscii_contextFree kelvin_contextFree by auto
qed

lemma toLowerCase_Nil [simp]: "toLowerCase [] = []"
  by (simp add: toLowerCase_def)

lemma toLowerCase_spaces: "\<forall>c\<in>set s. isSpace c \<Longrightarrow> toLowerCase s = s"
proof -
  assume a: "\<forall>c\<in>set s. isSpace c"
  then have "toLowerCase s = map simpleLower s"
    by (intro toLowerCase_contextFree) (simp add: isSpace_lower)
  also have "\<dots> = s" using a by (induction s) (simp_all add: isSpace_lower)
  finally show ?thesis .
qed

lemma toLowerCase_padded:
  assumes n: "toLowerCase n = e" and e: "\<forall>u\<in>set e. isAscii u"
    and l: "\<forall>c\<in>set l. isSpace c" and r: "\<forall>c\<in>set r. isSpace c"
  shows "toLowerCase (l @ n @ r) = l @ e @ r"
proof -
  have cn: "\<forall>u\<in>set n. contextFree u"
    using n e by (intro toLowerCase_ascii_source) simp
  have all: "\<forall>u\<in>set (l @ n @ r). contextFree u"
    using cn l r isSpace_lower by auto
  have "toLowerCase (l @ n @ r) = map simpleLower l @ map simpleLower n @ map simpleLower r"
    using toLowerCase_contextFree [OF all] by simp
  moreover have "map simpleLower n = e"
    using toLowerCase_contextFree [OF cn] n by simp
  moreover have "map simpleLower l = l" using l by (induction l) (simp_all add: isSpace_lower)
  moreover have "map simpleLower r = r" using r by (induction r) (simp_all add: isSpace_lower)
  ultimately show ?thesis by simp
qed

text \<open>
  Some values of \<^verbatim>\<open>toLowerCase\<close>: ASCII letters; the Kelvin sign; the capital I with a dot;
  a capital sigma at the end of a word and inside one; a letter above U+FFFF, kept as a
  surrogate pair; a high surrogate on its own.
\<close>

lemma toLowerCase_examples:
  "toLowerCase (str ''AmaZon.CO.uk'') = str ''amazon.co.uk''"
  "toLowerCase [0x212A] = str ''k''"
  "toLowerCase [0x130] = [0x69, 0x307]"
  "toLowerCase [0x39F, 0x394, 0x39F, 0x3A3, 0x20, 0x39F, 0x3A3, 0x39F]
     = [0x3BF, 0x3B4, 0x3BF, 0x3C2, 0x20, 0x3BF, 0x3C3, 0x3BF]"
  "toLowerCase [0xD801, 0xDC00] = [0xD801, 0xDC28]"
  "toLowerCase [0xD801] = [0xD801]"
  by code_simp+

lemma dropWhile_spaces_append:
  "\<forall>c\<in>set l. isSpace c \<Longrightarrow> dropWhile isSpace (l @ s) = dropWhile isSpace s"
  by (induction l) auto

lemma trim_padded:
  assumes l: "\<forall>c\<in>set l. isSpace c" and r: "\<forall>c\<in>set r. isSpace c"
    and ne: "e \<noteq> []" and h: "\<not> isSpace (hd e)" and t: "\<not> isSpace (last e)"
  shows "trim (l @ e @ r) = e"
proof -
  have 1: "dropWhile isSpace (l @ e @ r) = e @ r"
    using l ne h by (cases e) (auto simp: dropWhile_spaces_append)
  have 2: "rev (e @ r) = rev r @ rev e" by simp
  have 3: "dropWhile isSpace (rev r @ rev e) = dropWhile isSpace (rev e)"
    using r by (simp add: dropWhile_spaces_append)
  have 4: "dropWhile isSpace (rev e) = rev e"
    using ne t by (cases "rev e") (auto simp: last_rev hd_rev)
  show ?thesis
    unfolding trim_def 1 2 3 4 by simp
qed

lemma dropWhile_spaces: "\<forall>c\<in>set s. isSpace c \<Longrightarrow> dropWhile isSpace s = []"
  by (induction s) auto

lemma trim_spaces: "\<forall>c\<in>set s. isSpace c \<Longrightarrow> trim s = []"
  by (simp add: trim_def dropWhile_spaces)

lemma names_shape_all:
  "list_all (\<lambda>e. e \<noteq> [] \<and> \<not> isSpace (hd e) \<and> \<not> isSpace (last e) \<and> list_all isAscii e)
     AMAZON_SELLER_NAMES"
  by code_simp

lemma names_shape:
  "e \<in> set AMAZON_SELLER_NAMES \<Longrightarrow> e \<noteq> [] \<and> \<not> isSpace (hd e) \<and> \<not> isSpace (last e)"
  using names_shape_all by (simp add: list_all_iff)

lemma names_ascii: "e \<in> set AMAZON_SELLER_NAMES \<Longrightarrow> \<forall>u\<in>set e. isAscii u"
  using names_shape_all by (simp add: list_all_iff)

section \<open>The first-party filter\<close>

lemma isAmazonSeller_Some:
  "n \<noteq> [] \<Longrightarrow>
   isAmazonSeller (Some n) \<longleftrightarrow>
     (\<exists>e\<in>set AMAZON_SELLER_NAMES.
        jsIncludes (trim (toLowerCase n)) e \<or> jsIncludes e (trim (toLowerCase n)))"
  by (simp add: isAmazonSeller_def list_ex_iff Let_def)

lemma normalized_padded:
  assumes e: "e \<in> set AMAZON_SELLER_NAMES" and n: "toLowerCase n = e"
    and l: "\<forall>c\<in>set l. isSpace c" and r: "\<forall>c\<in>set r. isSpace c"
  shows "trim (toLowerCase (l @ n @ r)) = e"
proof -
  have "toLowerCase (l @ n @ r) = l @ e @ r"
    using n names_ascii [OF e] l r by (rule toLowerCase_padded)
  moreover have "trim (l @ e @ r) = e"
    using names_shape [OF e] l r by (intro trim_padded) auto
  ultimately show ?thesis by simp
qed

text \<open>
  C6. \<open>isAmazonSeller\<close> is true for every name that is a listed first-party name in any
  letter case (\<^verbatim>\<open>toLowerCase\<close> turns it into the entry) padded on both sides by any white
  space; it is false for every name whose normalized form contains no listed entry and is
  contained in none; and it is false for an absent and for an empty name.
\<close>

theorem isAmazonSeller_first_party_filter:
  "(e \<in> set AMAZON_SELLER_NAMES \<and> toLowerCase n = e \<and>
      (\<forall>c\<in>set l. isSpace c) \<and> (\<forall>c\<in>set r. isSpace c)
      \<longrightarrow> isAmazonSeller (Some (l @ n @ r)))
   \<and> ((\<forall>x\<in>set AMAZON_SELLER_NAMES.
          (\<nexists>pre post. trim (toLowerCase m) = pre @ x @ post) \<and>
          (\<nexists>pre post. x = pre @ trim (toLowerCase m) @ post))
        \<longrightarrow> \<not> isAmazonSeller (Some m))
   \<and> \<not> isAmazonSeller None
   \<and> \<not> isAmazonSeller (Some [])"
proof (intro conjI impI)
  assume a: "e \<in> set AMAZON_SELLER_NAMES \<and> toLowerCase n = e \<and>
      (\<forall>c\<in>set l. isSpace c) \<and> (\<forall>c\<in>set r. isSpace c)"
  then have e: "e \<in> set AMAZON_SELLER_NAMES" and n: "toLowerCase n = e"
    and l: "\<forall>c\<in>set l. isSpace c" and r: "\<forall>c\<in>set r. isSpace c"
    by simp_all
  have norm: "trim (toLowerCase (l @ n @ r)) = e"
    using e n l r by (rule normalized_padded)
  have "toLowerCase n \<noteq> []" using names_shape [OF e] n by simp
  then have "n \<noteq> []" by auto
  then have ne: "l @ n @ r \<noteq> []" by simp
  have "jsIncludes e e" by (rule includes_refl)
  with e have "\<exists>x\<in>set AMAZON_SELLER_NAMES. jsIncludes e x \<or> jsIncludes x e"
    by (intro bexI [of _ e]) simp_all
  then show "isAmazonSeller (Some (l @ n @ r))"
    using isAmazonSeller_Some [OF ne] norm by simp
next
  assume a: "\<forall>x\<in>set AMAZON_SELLER_NAMES.
          (\<nexists>pre post. trim (toLowerCase m) = pre @ x @ post) \<and>
          (\<nexists>pre post. x = pre @ trim (toLowerCase m) @ post)"
  show "\<not> isAmazonSeller (Some m)"
  proof (cases "m = []")
    case True
    then show ?thesis by (simp add: isAmazonSeller_def)
  next
    case False
    then have "isAmazonSeller (Some m) \<longleftrightarrow>
       (\<exists>e\<in>set AMAZON_SELLER_NAMES.
          jsIncludes (trim (toLowerCase m)) e \<or> jsIncludes e (trim (toLowerCase m)))"
      by (rule isAmazonSeller_Some)
    then show ?thesis using a unfolding includes_iff by blast
  qed
next
  show "\<not> isAmazonSeller None" by (simp add: isAmazonSeller_def)
next
  show "\<not> isAmazonSeller (Some [])" by (simp add: isAmazonSeller_def)
qed

text \<open>
  The name \<open>AmaZon.CO.U\<close> followed by the Kelvin sign, between a tab and a no-break space
  on the left and an ideographic space and a byte order mark on the right; and a name
  that shares nothing with the list.
\<close>

theorem isAmazonSeller_first_party_filter_witness:
  "isAmazonSeller (Some ([0x09, 0xA0] @ (str ''AmaZon.CO.U'' @ [0x212A]) @ [0x3000, 0xFEFF]))
   \<and> \<not> isAmazonSeller (Some (str ''Acme Tools Ltd''))"
proof -
  have h1: "str ''amazon.co.uk'' \<in> set AMAZON_SELLER_NAMES
      \<and> toLowerCase (str ''AmaZon.CO.U'' @ [0x212A]) = str ''amazon.co.uk'' \<and>
      (\<forall>c\<in>set [0x09, 0xA0]. isSpace c) \<and> (\<forall>c\<in>set [0x3000, 0xFEFF]. isSpace c)"
    by code_simp
  have "\<forall>x\<in>set AMAZON_SELLER_NAMES.
          \<not> jsIncludes (trim (toLowerCase (str ''Acme Tools Ltd''))) x \<and>
          \<not> jsIncludes x (trim (toLowerCase (str ''Acme Tools Ltd'')))"
    by code_simp
  then have h2: "\<forall>x\<in>set AMAZON_SELLER_NAMES.
          (\<nexists>pre post. trim (toLowerCase (str ''Acme Tools Ltd'')) = pre @ x @ post) \<and>
          (\<nexists>pre post. x = pre @ trim (toLowerCase (str ''Acme Tools Ltd'')) @ post)"
    by (simp only: includes_iff)
  note t = isAmazonSeller_first_party_filter
         [of "str ''amazon.co.uk''" "str ''AmaZon.CO.U'' @ [0x212A]" "[0x09, 0xA0]" "[0x3000, 0xFEFF]"
             "str ''Acme Tools Ltd''"]
  have a: "isAmazonSeller (Some ([0x09, 0xA0] @ (str ''AmaZon.CO.U'' @ [0x212A]) @ [0x3000, 0xFEFF]))"
    by (rule t [THEN conjunct1, THEN mp, OF h1])
  have b: "\<not> isAmazonSeller (Some (str ''Acme Tools Ltd''))"
    by (rule t [THEN conjunct2, THEN conjunct1, THEN mp, OF h2])
  from a b show ?thesis by (rule conjI)
qed

text \<open>
  C9, as the code has it. \<open>isAmazonSeller\<close> is true for every non-empty name made of
  white space only, and for every non-empty name whose trimmed lowercase form occurs
  inside a listed name.
\<close>

theorem isAmazonSeller_reverse_containment:
  "(n \<noteq> [] \<and> (\<forall>c\<in>set n. isSpace c) \<longrightarrow> isAmazonSeller (Some n))
   \<and> (m \<noteq> [] \<and> e \<in> set AMAZON_SELLER_NAMES \<and>
        (\<exists>pre post. e = pre @ trim (toLowerCase m) @ post)
        \<longrightarrow> isAmazonSeller (Some m))"
proof (intro conjI impI)
  assume a: "n \<noteq> [] \<and> (\<forall>c\<in>set n. isSpace c)"
  then have ne: "n \<noteq> []" and sp: "\<forall>c\<in>set n. isSpace c" by simp_all
  have norm: "trim (toLowerCase n) = []"
    using sp by (simp add: toLowerCase_spaces trim_spaces)
  have mem: "str ''amazon'' \<in> set AMAZON_SELLER_NAMES"
    by (simp add: AMAZON_SELLER_NAMES_def)
  have "jsIncludes (str ''amazon'') []" by (rule includes_Nil)
  with mem have "\<exists>x\<in>set AMAZON_SELLER_NAMES. jsIncludes [] x \<or> jsIncludes x []"
    by (intro bexI [of _ "str ''amazon''"]) simp_all
  then show "isAmazonSeller (Some n)"
    using isAmazonSeller_Some [OF ne] norm by simp
next
  assume a: "m \<noteq> [] \<and> e \<in> set AMAZON_SELLER_NAMES \<and>
        (\<exists>pre post. e = pre @ trim (toLowerCase m) @ post)"
  then have ne: "m \<noteq> []" and e: "e \<in> set AMAZON_SELLER_NAMES"
    and sub: "\<exists>pre post. e = pre @ trim (toLowerCase m) @ post" by simp_all
  from sub have "jsIncludes e (trim (toLowerCase m))"
    by (simp only: includes_iff)
  with e have "\<exists>x\<in>set AMAZON_SELLER_NAMES.
      jsIncludes (trim (toLowerCase m)) x \<or> jsIncludes x (trim (toLowerCase m))"
    by (intro bexI [of _ e]) simp_all
  then show "isAmazonSeller (Some m)"
    using isAmazonSeller_Some [OF ne] by simp
qed

text \<open>A name that is one no-break space, and the name \<open>Zon\<close> after a no-break space.\<close>

theorem isAmazonSeller_reverse_containment_witness:
  "isAmazonSeller (Some [0xA0]) \<and> isAmazonSeller (Some (0xA0 # str ''Zon''))"
proof -
  have h1: "[0xA0] \<noteq> [] \<and> (\<forall>c\<in>set [0xA0]. isSpace c)"
    by code_simp
  have t: "trim (toLowerCase (0xA0 # str ''Zon'')) = str ''zon''"
    by code_simp
  have "str ''amazon'' = str ''ama'' @ str ''zon'' @ []"
    by code_simp
  then have "str ''amazon'' = str ''ama'' @ trim (toLowerCase (0xA0 # str ''Zon'')) @ []"
    unfolding t .
  then have ex: "\<exists>pre post. str ''amazon'' = pre @ trim (toLowerCase (0xA0 # str ''Zon'')) @ post"
    by (intro exI)
  have "0xA0 # str ''Zon'' \<noteq> [] \<and> str ''amazon'' \<in> set AMAZON_SELLER_NAMES"
    by code_simp
  with ex have h2: "0xA0 # str ''Zon'' \<noteq> [] \<and> str ''amazon'' \<in> set AMAZON_SELLER_NAMES \<and>
        (\<exists>pre post. str ''amazon'' = pre @ trim (toLowerCase (0xA0 # str ''Zon'')) @ post)"
    by (intro conjI) simp_all
  note t = isAmazonSeller_reverse_containment
         [of "[0xA0]" "0xA0 # str ''Zon''" "str ''amazon''"]
  have a: "isAmazonSeller (Some [0xA0])"
    by (rule t [THEN conjunct1, THEN mp, OF h1])
  have b: "isAmazonSeller (Some (0xA0 # str ''Zon''))"
    by (rule t [THEN conjunct2, THEN mp, OF h2])
  from a b show ?thesis by (rule conjI)
qed

text \<open>
  Against C9 as stated: the empty string has a trimmed lowercase form that occurs in a
  listed name, and \<open>isAmazonSeller\<close> rejects it before it is normalized.
\<close>

theorem isAmazonSeller_empty_counterexample:
  "str ''amazon'' \<in> set AMAZON_SELLER_NAMES
   \<and> (\<exists>pre post. str ''amazon'' = pre @ trim (toLowerCase []) @ post)
   \<and> \<not> isAmazonSeller (Some [])"
proof -
  have 1: "str ''amazon'' \<in> set AMAZON_SELLER_NAMES" by (simp add: AMAZON_SELLER_NAMES_def)
  have "trim (toLowerCase []) = []" by (simp add: trim_def)
  then have "str ''amazon'' = [] @ trim (toLowerCase []) @ str ''amazon''" by simp
  then have 2: "\<exists>pre post. str ''amazon'' = pre @ trim (toLowerCase []) @ post" by (intro exI)
  have 3: "\<not> isAmazonSeller (Some [])" by (simp add: isAmazonSeller_def)
  from 1 2 3 show ?thesis by (intro conjI)
qed

section \<open>The label and value parser\<close>

lemma collectAddrLines_stop:
  "\<forall>x\<in>set xs. \<not> isAddrStop x \<Longrightarrow> isAddrStop l \<Longrightarrow> collectAddrLines (xs @ l # ys) = xs"
  by (simp add: collectAddrLines_def takeWhile_append2)

lemma collectAddrLines_all:
  "\<forall>x\<in>set xs. \<not> isAddrStop x \<Longrightarrow> collectAddrLines xs = xs"
  by (simp add: collectAddrLines_def)

lemma parseLine_business_address:
  "parseLine (str ''Business Address:'') following result =
     result(''businessAddress'' \<mapsto> JStr (joinWith (str '', '') (collectAddrLines following)))"
proof -
  have 1: "jsIncludes (str ''Business Address:'') (str '':'')" by code_simp
  have 2: "splitOn (of_char CHR '':'') (str ''Business Address:'') = [str ''Business Address'', []]" by code_simp
  have 3: "trim (joinWith (str '':'') [[]]) = []" by code_simp
  have 4: "toLowerCase (trim (str ''Business Address'')) = str ''business address''" by code_simp
  show ?thesis
    unfolding parseLine_def by (simp only: 1 2 3 4 Let_def list.case if_True if_False not_True_eq_False simp_thms)
qed

text \<open>
  C4, as the code has it. A label line needs its colon: for the lines \<open>Business Address:\<close>,
  \<open>12 High Street\<close>, \<open>London, EC1 1AA\<close>, \<open>United Kingdom\<close>, \<open>VAT Number: GB123456789\<close> the
  parser yields the business address \<open>12 High Street, London, EC1 1AA, United Kingdom\<close> and
  the VAT number \<open>GB123456789\<close>. After the label the address is the following lines joined
  by a comma and a space, and the collection stops exactly at the first following line
  that contains a colon or the phrase \<open>This seller\<close> (or at the end of the block).
\<close>

theorem parseLines_address_continuation:
  "getProp (parseLines [str ''Business Address:'', str ''12 High Street'', str ''London, EC1 1AA'',
                        str ''United Kingdom'', str ''VAT Number: GB123456789''] Map.empty)
       ''businessAddress'' = JStr (str ''12 High Street, London, EC1 1AA, United Kingdom'')
   \<and> getProp (parseLines [str ''Business Address:'', str ''12 High Street'', str ''London, EC1 1AA'',
                        str ''United Kingdom'', str ''VAT Number: GB123456789''] Map.empty)
       ''vatNumber'' = JStr (str ''GB123456789'')
   \<and> parseLine (str ''Business Address:'') following result =
       result(''businessAddress'' \<mapsto> JStr (joinWith (str '', '') (collectAddrLines following)))
   \<and> ((\<forall>x\<in>set xs. \<not> jsIncludes x (str '':'') \<and> \<not> jsIncludes x (str ''This seller''))
        \<and> (jsIncludes l (str '':'') \<or> jsIncludes l (str ''This seller''))
        \<longrightarrow> collectAddrLines (xs @ l # ys) = xs)
   \<and> ((\<forall>x\<in>set xs. \<not> jsIncludes x (str '':'') \<and> \<not> jsIncludes x (str ''This seller''))
        \<longrightarrow> collectAddrLines xs = xs)"
proof (intro conjI impI)
  show "getProp (parseLines [str ''Business Address:'', str ''12 High Street'', str ''London, EC1 1AA'',
                        str ''United Kingdom'', str ''VAT Number: GB123456789''] Map.empty)
       ''businessAddress'' = JStr (str ''12 High Street, London, EC1 1AA, United Kingdom'')"
    by code_simp
  show "getProp (parseLines [str ''Business Address:'', str ''12 High Street'', str ''London, EC1 1AA'',
                        str ''United Kingdom'', str ''VAT Number: GB123456789''] Map.empty)
       ''vatNumber'' = JStr (str ''GB123456789'')"
    by code_simp
  show "parseLine (str ''Business Address:'') following result =
       result(''businessAddress'' \<mapsto> JStr (joinWith (str '', '') (collectAddrLines following)))"
    by (rule parseLine_business_address)
next
  assume "(\<forall>x\<in>set xs. \<not> jsIncludes x (str '':'') \<and> \<not> jsIncludes x (str ''This seller''))
        \<and> (jsIncludes l (str '':'') \<or> jsIncludes l (str ''This seller''))"
  then show "collectAddrLines (xs @ l # ys) = xs"
    by (intro collectAddrLines_stop) (simp_all add: isAddrStop_def)
next
  assume "\<forall>x\<in>set xs. \<not> jsIncludes x (str '':'') \<and> \<not> jsIncludes x (str ''This seller'')"
  then show "collectAddrLines xs = xs"
    by (intro collectAddrLines_all) (simp add: isAddrStop_def)
qed

theorem parseLines_address_continuation_witness:
  "collectAddrLines ([str ''12 High Street'', str ''London, EC1 1AA'', str ''United Kingdom'']
                      @ str ''VAT Number: GB123456789'' # [str ''This seller is a business''])
     = [str ''12 High Street'', str ''London, EC1 1AA'', str ''United Kingdom'']
   \<and> collectAddrLines [str ''1 Main Road'', str ''Leeds''] = [str ''1 Main Road'', str ''Leeds'']"
proof -
  have h1: "(\<forall>x\<in>set [str ''12 High Street'', str ''London, EC1 1AA'', str ''United Kingdom''].
               \<not> jsIncludes x (str '':'') \<and> \<not> jsIncludes x (str ''This seller''))
            \<and> (jsIncludes (str ''VAT Number: GB123456789'') (str '':'')
                \<or> jsIncludes (str ''VAT Number: GB123456789'') (str ''This seller''))"
    by code_simp
  have h2: "\<forall>x\<in>set [str ''1 Main Road'', str ''Leeds''].
               \<not> jsIncludes x (str '':'') \<and> \<not> jsIncludes x (str ''This seller'')"
    by code_simp
  note t1 = parseLines_address_continuation
              [where xs = "[str ''12 High Street'', str ''London, EC1 1AA'', str ''United Kingdom'']"
                 and l = "str ''VAT Number: GB123456789''" and ys = "[str ''This seller is a business'']"
                 and following = "[]" and result = Map.empty]
  note t2 = parseLines_address_continuation
              [where xs = "[str ''1 Main Road'', str ''Leeds'']" and l = "[]" and ys = "[]"
                 and following = "[]" and result = Map.empty]
  have a: "collectAddrLines ([str ''12 High Street'', str ''London, EC1 1AA'', str ''United Kingdom'']
                      @ str ''VAT Number: GB123456789'' # [str ''This seller is a business''])
     = [str ''12 High Street'', str ''London, EC1 1AA'', str ''United Kingdom'']"
    by (rule t1 [THEN conjunct2, THEN conjunct2, THEN conjunct2, THEN conjunct1, THEN mp, OF h1])
  have b: "collectAddrLines [str ''1 Main Road'', str ''Leeds''] = [str ''1 Main Road'', str ''Leeds'']"
    by (rule t2 [THEN conjunct2, THEN conjunct2, THEN conjunct2, THEN conjunct2, THEN mp, OF h2])
  from a b show ?thesis by (rule conjI)
qed

text \<open>
  The lines of C4 as the claim gives them, with no colon after \<open>Business Address\<close>: the
  label line is skipped by \<^verbatim>\<open>if (!line.includes(':')) continue;\<close> and no business address
  is set.
\<close>

theorem parseLines_spec_example_counterexample:
  "getProp (parseLines [str ''Business Address'', str ''12 High Street'', str ''London, EC1 1AA'',
                        str ''United Kingdom'', str ''VAT Number: GB123456789''] Map.empty)
       ''businessAddress'' = JUndefined
   \<and> getProp (parseLines [str ''Business Address'', str ''12 High Street'', str ''London, EC1 1AA'',
                        str ''United Kingdom'', str ''VAT Number: GB123456789''] Map.empty)
       ''businessAddress'' \<noteq> JStr (str ''12 High Street, London, EC1 1AA, United Kingdom'')"
  by code_simp

section \<open>The profile extraction\<close>

lemma assignField_add: "assignField k v r = r ++ assignField k v Map.empty"
  by (simp add: assignField_def)

lemma parseLine_add: "parseLine l f r = r ++ parseLine l f Map.empty"
  by (simp add: parseLine_def Let_def assignField_add [of _ _ r] split: list.splits)

lemma parseLines_add: "parseLines ls r = r ++ parseLines ls Map.empty"
proof (induction ls arbitrary: r)
  case Nil
  then show ?case by simp
next
  case (Cons l f)
  have "parseLines (l # f) r = parseLine l f r ++ parseLines f Map.empty"
    using Cons.IH [of "parseLine l f r"] by simp
  also have "\<dots> = r ++ (parseLine l f Map.empty ++ parseLines f Map.empty)"
    using parseLine_add [of l f r] by simp
  also have "parseLine l f Map.empty ++ parseLines f Map.empty = parseLines (l # f) Map.empty"
    using Cons.IH [of "parseLine l f Map.empty"] by simp
  finally show ?case .
qed

text \<open>A value that the parser stores for a \<open>label: value\<close> line is a non-empty string.\<close>

lemma assignField_phone:
  "v \<noteq> [] \<Longrightarrow> filledOrAbsent (assignField k v Map.empty) ''phoneNumber''"
  by (simp add: assignField_def filledOrAbsent_def)

lemma parseLine_phone: "filledOrAbsent (parseLine l f Map.empty) ''phoneNumber''"
  by (simp add: parseLine_def Let_def assignField_phone split: list.splits)
     (simp add: filledOrAbsent_def)

lemma parseLines_phone: "filledOrAbsent (parseLines ls Map.empty) ''phoneNumber''"
proof (induction ls)
  case Nil
  then show ?case by (simp add: filledOrAbsent_def)
next
  case (Cons l f)
  have "parseLines (l # f) Map.empty = parseLine l f Map.empty ++ parseLines f Map.empty"
    using parseLines_add [of f "parseLine l f Map.empty"] by simp
  then show ?case
    using Cons.IH parseLine_phone [of l f]
    by (auto simp: filledOrAbsent_def map_add_def split: option.splits)
qed

lemma getProp_upd: "getProp (r(k \<mapsto> v)) j = (if j = k then v else getProp r j)"
  by (simp add: getProp_def)

lemma getProp_parsed_phone:
  "getProp (r ++ parseLines ls Map.empty) ''phoneNumber'' =
     (case parseLines ls Map.empty ''phoneNumber'' of None \<Rightarrow> getProp r ''phoneNumber'' | Some p \<Rightarrow> p)"
  by (simp add: getProp_def map_add_def split: option.splits)

lemma truthy_parsed_phone:
  "parseLines ls Map.empty ''phoneNumber'' = Some p \<Longrightarrow> truthyVal p"
  using parseLines_phone [of ls] by (auto simp: filledOrAbsent_def)

text \<open>The object before the lines are parsed holds no phone number.\<close>

lemma ratedResult_phone:
  "getProp ((ratedResult doc)(''hasDetailedInfo'' \<mapsto> b)) ''phoneNumber'' = JUndefined"
  by (simp add: ratedResult_def nameResult_def setRatings_def getProp_def split: option.splits)

lemma ratedResult_scraper_phone:
  "getProp ((ratedResult_scraper doc)(''hasDetailedInfo'' \<mapsto> b)) ''phoneNumber'' = JUndefined"
  by (simp add: ratedResult_scraper_def nameResult_def setRatings_def getProp_def split: option.splits)

lemma pageExtract_block:
  assumes h: "findDetailHeading doc = Some (t, Some allText)"
    and b: "bodyInnerText doc = Some body" and g: "csPhoneMatch body = Some g"
  shows "\<exists>r. pageExtract doc = Inr r
           \<and> getProp r ''customerServicePhone'' = JStr (trim g)
           \<and> getProp r ''phoneNumber'' =
               (case parseLines (blockLines allText) Map.empty ''phoneNumber'' of
                  None \<Rightarrow> JStr (trim g) | Some p \<Rightarrow> p)"
proof -
  define r2 where "r2 = (ratedResult doc)(''hasDetailedInfo'' \<mapsto> JBool True)"
  define P where "P = parseLines (blockLines allText) Map.empty"
  have r3: "parseLines (blockLines allText) r2 = r2 ++ P"
    unfolding P_def by (rule parseLines_add)
  have r2p: "getProp r2 ''phoneNumber'' = JUndefined"
    by (simp add: r2_def ratedResult_phone)
  show ?thesis
  proof (cases "P ''phoneNumber''")
    case None
    then have "\<not> truthyVal (getProp ((r2 ++ P)(''customerServicePhone'' \<mapsto> JStr (trim g))) ''phoneNumber'')"
      using r2p by (simp add: getProp_def map_add_def)
    then have "pageExtract doc = Inr ((r2 ++ P)(''customerServicePhone'' \<mapsto> JStr (trim g),
                                                ''phoneNumber'' \<mapsto> JStr (trim g)))"
      using h b g r3 by (simp add: pageExtract_def Let_def r2_def)
    then show ?thesis using None by (auto simp: getProp_def P_def)
  next
    case (Some p)
    then have tp: "truthyVal p" unfolding P_def by (rule truthy_parsed_phone)
    then have "truthyVal (getProp ((r2 ++ P)(''customerServicePhone'' \<mapsto> JStr (trim g))) ''phoneNumber'')"
      using Some by (simp add: getProp_def map_add_def)
    then have "pageExtract doc = Inr ((r2 ++ P)(''customerServicePhone'' \<mapsto> JStr (trim g)))"
      using h b g r3 by (simp add: pageExtract_def Let_def r2_def)
    then show ?thesis using Some by (auto simp: getProp_def P_def map_add_def)
  qed
qed


lemma pageExtract_scraper_block:
  assumes h: "findDetailHeading doc = Some (t, Some allText)"
    and b: "bodyInnerText doc = Some body" and g: "csPhoneMatch body = Some g"
  shows "\<exists>r. pageExtract_scraper doc = Inr r
           \<and> getProp r ''customerServicePhone'' = JStr (trim g)
           \<and> getProp r ''phoneNumber'' =
               (case parseLines (blockLines allText) Map.empty ''phoneNumber'' of
                  None \<Rightarrow> JStr (trim g) | Some p \<Rightarrow> p)"
proof -
  define r2 where "r2 = (ratedResult_scraper doc)(''hasDetailedInfo'' \<mapsto> JBool True)"
  define P where "P = parseLines (blockLines allText) Map.empty"
  have r3: "parseLines (blockLines allText) r2 = r2 ++ P"
    unfolding P_def by (rule parseLines_add)
  have r2p: "getProp r2 ''phoneNumber'' = JUndefined"
    by (simp add: r2_def ratedResult_scraper_phone)
  have "pageExtract_scraper doc =
          Inr ((if \<not> truthyVal (getProp (parseLines (blockLines allText) r2) ''phoneNumber'')
                then (parseLines (blockLines allText) r2)(''phoneNumber'' \<mapsto> JStr (trim g))
                else parseLines (blockLines allText) r2)
               (''customerServicePhone'' \<mapsto> JStr (trim g)))"
    using h b g by (simp add: pageExtract_scraper_def Let_def r2_def)
  then have step: "pageExtract_scraper doc =
          Inr ((if \<not> truthyVal (getProp (r2 ++ P) ''phoneNumber'')
                then (r2 ++ P)(''phoneNumber'' \<mapsto> JStr (trim g))
                else r2 ++ P)
               (''customerServicePhone'' \<mapsto> JStr (trim g)))"
    unfolding r3 .
  show ?thesis
  proof (cases "P ''phoneNumber''")
    case None
    then have "\<not> truthyVal (getProp (r2 ++ P) ''phoneNumber'')"
      using r2p by (simp add: getProp_def map_add_def)
    with step have "pageExtract_scraper doc = Inr ((r2 ++ P)(''phoneNumber'' \<mapsto> JStr (trim g),
                                                ''customerServicePhone'' \<mapsto> JStr (trim g)))"
      by simp
    then show ?thesis using None by (auto simp: getProp_def P_def)
  next
    case (Some p)
    then have tp: "truthyVal p" unfolding P_def by (rule truthy_parsed_phone)
    then have "truthyVal (getProp (r2 ++ P) ''phoneNumber'')"
      using Some by (simp add: getProp_def map_add_def)
    with step have "pageExtract_scraper doc = Inr ((r2 ++ P)(''customerServicePhone'' \<mapsto> JStr (trim g)))"
      by simp
    then show ?thesis using Some by (auto simp: getProp_def P_def map_add_def)
  qed
qed

text \<open>Without the heading, part_000 and part_001 return the name, the ratings, the flag
  and the two phone properties, and nothing else.\<close>

lemma pageExtract_no_heading:
  assumes h: "findDetailHeading doc = None"
    and b: "bodyInnerText doc = Some body" and g: "csPhoneMatch body = Some g"
  shows "pageExtract doc =
           Inr ((setRatings doc (nameResult doc))
                (''hasDetailedInfo'' \<mapsto> JBool False,
                 ''phoneNumber'' \<mapsto> JStr (trim g),
                 ''customerServicePhone'' \<mapsto> JStr (trim g)))"
  using h b g by (simp add: pageExtract_def Let_def ratedResult_def)

lemma pageExtract_no_heading_fields:
  assumes h: "findDetailHeading doc = None"
    and b: "bodyInnerText doc = Some body" and g: "csPhoneMatch body = Some g"
  shows "\<exists>r. pageExtract doc = Inr r
           \<and> getProp r ''hasDetailedInfo'' = JBool False
           \<and> getProp r ''phoneNumber'' = JStr (trim g)
           \<and> getProp r ''customerServicePhone'' = JStr (trim g)
           \<and> (\<forall>k\<in>set [''businessName'', ''businessType'', ''vatNumber'', ''tradeRegisterNumber'',
                         ''email'', ''businessAddress'', ''customerServiceAddress''].
                 getProp r k = JUndefined)"
  unfolding pageExtract_no_heading [OF h b g]
  by (simp add: getProp_def setRatings_def nameResult_def)

lemma pageExtract_scraper_no_heading:
  assumes h: "findDetailHeading doc = None"
  shows "\<exists>r. pageExtract_scraper doc = Inr r
           \<and> getProp r ''hasDetailedInfo'' = JBool False
           \<and> getProp r ''phoneNumber'' = JUndefined
           \<and> getProp r ''customerServicePhone'' = JUndefined"
  using h by (simp add: pageExtract_scraper_def Let_def getProp_def setRatings_def
      ratedResult_scraper_def nameResult_def split: option.splits)

subsection \<open>The pattern for the customer service phone\<close>

lemma searchFrom_hit: "m s = Some r \<Longrightarrow> searchFrom m s = Some r"
  by (cases s) simp_all

lemma searchFrom_skip:
  "(\<forall>i<length pre. m (drop i (pre @ s)) = None) \<Longrightarrow> searchFrom m (pre @ s) = searchFrom m s"
proof (induction pre)
  case Nil
  then show ?case by simp
next
  case (Cons c pre)
  from Cons.prems have 0: "m ((c # pre) @ s) = None" by force
  have "\<forall>i<length pre. m (drop i (pre @ s)) = None"
  proof (intro allI impI)
    fix i assume "i < length pre"
    then have "Suc i < length (c # pre)" by simp
    with Cons.prems have "m (drop (Suc i) ((c # pre) @ s)) = None" by blast
    then show "m (drop i (pre @ s)) = None" by simp
  qed
  with Cons.IH have "searchFrom m (pre @ s) = searchFrom m s" by blast
  with 0 show ?case by simp
qed

lemma takeWhile_line:
  assumes v: "newline \<notin> set v" and post: "post = [] \<or> hd post = newline"
  shows "takeWhile (\<lambda>x. x \<noteq> newline) (v @ post) = v"
proof -
  have "takeWhile (\<lambda>x. x \<noteq> newline) post = []"
    using post by (cases post) auto
  moreover have "\<forall>x\<in>set v. x \<noteq> newline" using v by auto
  ultimately show ?thesis by (simp add: takeWhile_append2)
qed

lemma phoneLine_label: "str ''Customer Service Phone: '' = csPhoneLabel @ [0x3A, 0x20]"
  by code_simp

lemma csPhoneAt_line:
  assumes ne: "v \<noteq> []" and sep: "\<not> isSepChar (hd v)" and nl: "newline \<notin> set v"
    and post: "post = [] \<or> hd post = newline"
  shows "csPhoneAt (str ''Customer Service Phone: '' @ v @ post) = Some v"
proof -
  obtain c cs where v: "v = c # cs" using ne by (cases v) auto
  have lbl: "matchesIgnoreCase csPhoneLabel
               (take (length csPhoneLabel) (csPhoneLabel @ [0x3A, 0x20] @ v @ post))"
    by (simp add: matchesIgnoreCase_def)
  have rest: "drop (length csPhoneLabel) (csPhoneLabel @ [0x3A, 0x20] @ v @ post)
                = [0x3A, 0x20] @ v @ post"
    by simp
  have s1: "isSepChar 0x3A" and s2: "isSepChar 0x20" by code_simp+
  have run: "takeWhile isSepChar ([0x3A, 0x20] @ v @ post) = [0x3A, 0x20]"
    using sep s1 s2 by (simp add: v)
  have cn: "c \<noteq> newline" using nl v by auto
  have line: "takeWhile (\<lambda>x. x \<noteq> newline) (v @ post) = v"
    by (rule takeWhile_line [OF nl post])
  have "drop (Suc (Suc 0)) ([0x3A, 0x20] @ v @ post) = c # (cs @ post)"
    by (simp add: v)
  then have cap: "capturePhone ([0x3A, 0x20] @ v @ post) (Suc (Suc 0)) = Some v"
    using cn line by (simp add: v)
  have len: "length [0x3A, 0x20 :: int] = Suc (Suc 0)" by simp
  have "csPhoneAt (csPhoneLabel @ [0x3A, 0x20] @ v @ post) = Some v"
    unfolding csPhoneAt_def rest Let_def run len cap using lbl by simp
  then show ?thesis by (simp add: phoneLine_label)
qed

lemma csPhoneMatch_line:
  assumes first: "\<forall>i<length pre. csPhoneAt (drop i (pre @ str ''Customer Service Phone: '' @ v @ post)) = None"
    and ne: "v \<noteq> []" and sep: "\<not> isSepChar (hd v)" and nl: "newline \<notin> set v"
    and post: "post = [] \<or> hd post = newline"
  shows "csPhoneMatch (pre @ str ''Customer Service Phone: '' @ v @ post) = Some v"
  unfolding csPhoneMatch_def
  using searchFrom_skip [OF first]
    searchFrom_hit [of csPhoneAt "str ''Customer Service Phone: '' @ v @ post" v,
                    OF csPhoneAt_line [OF ne sep nl post]]
  by simp

section \<open>The emitted record\<close>

lemma mkRecord_nullable_all:
  "list_all (\<lambda>k. getProp (mkRecord asin m seller info now) k = jsOr (getProp info k) JNull)
     nullableFields"
  by (simp add: nullableFields_def mkRecord_def getProp_def)

lemma mkRecord_nullable:
  "k \<in> set nullableFields \<Longrightarrow>
   getProp (mkRecord asin m seller info now) k = jsOr (getProp info k) JNull"
  using mkRecord_nullable_all [of asin m seller info now] by (simp add: list_all_iff)

lemma nullable_not_error: "k \<in> set nullableFields \<Longrightarrow> k \<noteq> ''error''"
  by (auto simp: nullableFields_def)

lemma mkRecord_displayName:
  "getProp (mkRecord asin m seller info now) ''sellerDisplayName''
     = jsOr (getProp info ''sellerDisplayName'') (JStr (name seller))"
  by (simp add: mkRecord_def getProp_def)

lemma mkRecord_hasDetailedInfo:
  "getProp (mkRecord asin m seller info now) ''hasDetailedInfo''
     = jsOr (getProp info ''hasDetailedInfo'') (JBool False)"
  by (simp add: mkRecord_def getProp_def)

lemma mkRecord_sellerId:
  "getProp (mkRecord asin m seller info now) ''sellerId'' = JStr (sellerId seller)"
  by (simp add: mkRecord_def getProp_def)

lemma errorOnly_props:
  "k \<noteq> ''error'' \<Longrightarrow> getProp (Map.empty(''error'' \<mapsto> JStr e)) k = JUndefined"
  by (simp add: getProp_def)

lemma extractSellerInfo_returns: "\<exists>r. extractSellerInfo page url = Inr r"
  by (simp add: extractSellerInfo_def split: sum.splits)

lemma extractSellerInfo_scraper_returns: "\<exists>r. extractSellerInfo_scraper page url = Inr r"
  by (simp add: extractSellerInfo_scraper_def split: sum.splits)

lemma tryExtract_fails: "visitFails inPage v e \<Longrightarrow> tryExtract inPage lead v = Inl e"
  by (auto simp: visitFails_def tryExtract_def)

lemma extractSellerInfo_error:
  "visitFails pageExtract (page url) e
     \<Longrightarrow> \<exists>lg. extractSellerInfo page url = Inr (Map.empty(''error'' \<mapsto> JStr e), lg)"
  by (simp add: extractSellerInfo_def tryExtract_fails)

lemma extractSellerInfo_scraper_error:
  "visitFails pageExtract_scraper (page url) e
     \<Longrightarrow> \<exists>lg. extractSellerInfo_scraper page url = Inr (Map.empty(''error'' \<mapsto> JStr e), lg)"
  by (simp add: extractSellerInfo_scraper_def tryExtract_fails)

lemma errorOnly_record:
  "k \<in> set nullableFields \<Longrightarrow>
   getProp (mkRecord asin m seller (Map.empty(''error'' \<mapsto> JStr e)) now) k = JNull"
  using nullable_not_error [of k]
  by (simp add: mkRecord_nullable errorOnly_props jsOr_def)

text \<open>The loop over the sellers returns, for every seller in turn, the record built from
  what \<^verbatim>\<open>extractSellerInfo\<close> returned for the profile of that seller.\<close>

lemma visitSellers_records:
  assumes total: "\<And>u. \<exists>r. ext u = Inr r"
  shows "\<exists>results lg. visitSellers ext clk asin m sellers = Inr (results, lg)
           \<and> length results = length sellers
           \<and> (\<forall>i<length sellers. \<exists>info l.
                 ext (sellerProfileUrl m (sellers ! i) asin) = Inr (info, l)
                 \<and> results ! i = mkRecord asin m (sellers ! i) info
                                   (clk (sellerProfileUrl m (sellers ! i) asin)))"
proof (induction sellers)
  case Nil
  then show ?case by simp
next
  case (Cons s rest)
  obtain info lg where e: "ext (sellerProfileUrl m s asin) = Inr (info, lg)"
    using total [of "sellerProfileUrl m s asin"] by (cases "ext (sellerProfileUrl m s asin)") auto
  from Cons.IH obtain results lg' where
    r: "visitSellers ext clk asin m rest = Inr (results, lg')"
    and l: "length results = length rest"
    and each: "\<forall>i<length rest. \<exists>info l.
                 ext (sellerProfileUrl m (rest ! i) asin) = Inr (info, l)
                 \<and> results ! i = mkRecord asin m (rest ! i) info
                                   (clk (sellerProfileUrl m (rest ! i) asin))"
    by blast
  let ?rec = "mkRecord asin m s info (clk (sellerProfileUrl m s asin))"
  have run: "visitSellers ext clk asin m (s # rest) = Inr (?rec # results, lg @ lg')"
    using e r by (simp add: Let_def)
  have "\<forall>i<length (s # rest). \<exists>info l.
          ext (sellerProfileUrl m ((s # rest) ! i) asin) = Inr (info, l)
          \<and> (?rec # results) ! i = mkRecord asin m ((s # rest) ! i) info
                                     (clk (sellerProfileUrl m ((s # rest) ! i) asin))"
  proof (intro allI impI)
    fix i assume i: "i < length (s # rest)"
    show "\<exists>info l.
          ext (sellerProfileUrl m ((s # rest) ! i) asin) = Inr (info, l)
          \<and> (?rec # results) ! i = mkRecord asin m ((s # rest) ! i) info
                                     (clk (sellerProfileUrl m ((s # rest) ! i) asin))"
    proof (cases i)
      case 0
      then show ?thesis using e by simp
    next
      case (Suc j)
      with i have "j < length rest" by simp
      with each Suc show ?thesis by simp
    qed
  qed
  with run l show ?case by simp
qed

lemma visitSellers_failed:
  assumes total: "\<And>u. \<exists>r. ext u = Inr r"
    and fails: "\<And>u x. visitFails inPage (page u) x \<Longrightarrow> \<exists>lg. ext u = Inr (Map.empty(''error'' \<mapsto> JStr x), lg)"
  shows "\<exists>results lg.
           visitSellers ext clk asin m sellers = Inr (results, lg)
           \<and> length results = length sellers
           \<and> (\<forall>i<length sellers. \<forall>x.
                 visitFails inPage (page (sellerProfileUrl m (sellers ! i) asin)) x \<longrightarrow>
                   results ! i = mkRecord asin m (sellers ! i) (Map.empty(''error'' \<mapsto> JStr x))
                                   (clk (sellerProfileUrl m (sellers ! i) asin))
                   \<and> (\<forall>k\<in>set nullableFields. getProp (results ! i) k = JNull)
                   \<and> getProp (results ! i) ''sellerDisplayName'' = JStr (name (sellers ! i))
                   \<and> getProp (results ! i) ''hasDetailedInfo'' = JBool False)"
proof -
  from visitSellers_records [of ext clk asin m sellers, OF total]
  obtain results lg where
    r: "visitSellers ext clk asin m sellers = Inr (results, lg)"
    and l: "length results = length sellers"
    and each: "\<forall>i<length sellers. \<exists>info l.
                 ext (sellerProfileUrl m (sellers ! i) asin) = Inr (info, l)
                 \<and> results ! i = mkRecord asin m (sellers ! i) info
                                   (clk (sellerProfileUrl m (sellers ! i) asin))"
    by blast
  have "\<forall>i<length sellers. \<forall>x.
          visitFails inPage (page (sellerProfileUrl m (sellers ! i) asin)) x \<longrightarrow>
            results ! i = mkRecord asin m (sellers ! i) (Map.empty(''error'' \<mapsto> JStr x))
                            (clk (sellerProfileUrl m (sellers ! i) asin))
            \<and> (\<forall>k\<in>set nullableFields. getProp (results ! i) k = JNull)
            \<and> getProp (results ! i) ''sellerDisplayName'' = JStr (name (sellers ! i))
            \<and> getProp (results ! i) ''hasDetailedInfo'' = JBool False"
  proof (intro allI impI)
    fix i x
    assume i: "i < length sellers"
      and f: "visitFails inPage (page (sellerProfileUrl m (sellers ! i) asin)) x"
    let ?u = "sellerProfileUrl m (sellers ! i) asin"
    from each i obtain info l' where
      e: "ext ?u = Inr (info, l')" and rec: "results ! i = mkRecord asin m (sellers ! i) info (clk ?u)"
      by blast
    from fails [OF f] e have info: "info = Map.empty(''error'' \<mapsto> JStr x)" by auto
    have 1: "results ! i = mkRecord asin m (sellers ! i) (Map.empty(''error'' \<mapsto> JStr x)) (clk ?u)"
      using rec info by simp
    have 2: "\<forall>k\<in>set nullableFields. getProp (results ! i) k = JNull"
      unfolding 1 by (intro ballI) (rule errorOnly_record)
    have 3: "getProp (results ! i) ''sellerDisplayName'' = JStr (name (sellers ! i))"
      unfolding 1 by (simp add: mkRecord_displayName errorOnly_props jsOr_def)
    have 4: "getProp (results ! i) ''hasDetailedInfo'' = JBool False"
      unfolding 1 by (simp add: mkRecord_hasDetailedInfo errorOnly_props jsOr_def)
    from 1 2 3 4
    show "results ! i = mkRecord asin m (sellers ! i) (Map.empty(''error'' \<mapsto> JStr x)) (clk ?u)
            \<and> (\<forall>k\<in>set nullableFields. getProp (results ! i) k = JNull)
            \<and> getProp (results ! i) ''sellerDisplayName'' = JStr (name (sellers ! i))
            \<and> getProp (results ! i) ''hasDetailedInfo'' = JBool False"
      by (intro conjI)
  qed
  with r l show ?thesis by blast
qed

text \<open>\<^verbatim>\<open>scrapeAsinOnMarketplace\<close> returns whenever \<^verbatim>\<open>extractAllSellers\<close> does: one record
  for every seller to visit, in order, with the id of that seller.\<close>

lemma visitSellers_ids:
  assumes total: "\<And>u. \<exists>r. ext u = Inr r"
  shows "\<exists>results lg. visitSellers ext clk asin m sellers = Inr (results, lg)
           \<and> map (\<lambda>r. getProp r ''sellerId'') results = map (\<lambda>s. JStr (sellerId s)) sellers"
proof (induction sellers)
  case Nil
  then show ?case by simp
next
  case (Cons s rest)
  obtain info lg where e: "ext (sellerProfileUrl m s asin) = Inr (info, lg)"
    using total [of "sellerProfileUrl m s asin"] by (cases "ext (sellerProfileUrl m s asin)") auto
  from Cons.IH obtain results lg' where
    r: "visitSellers ext clk asin m rest = Inr (results, lg')"
    and ids: "map (\<lambda>r. getProp r ''sellerId'') results = map (\<lambda>s. JStr (sellerId s)) rest"
    by blast
  show ?case using e r ids by (simp add: Let_def mkRecord_sellerId)
qed


lemma scrapeWith_visits:
  assumes found: "fst (extractAll (offerPages b) asin m) = Inr found"
  shows "\<exists>records lg.
           visitSellers (extractSellerInfo (profilePages b)) (clock b) asin m (sellersToVisit skip found)
             = Inr (records, lg)
           \<and> fst (scrapeWith extractAll b asin m skip) = Inr records"
proof -
  obtain lg where ex: "extractAll (offerPages b) asin m = (Inr found, lg)"
    using found by (cases "extractAll (offerPages b) asin m") auto
  from visitSellers_ids [of "extractSellerInfo (profilePages b)" "clock b" asin m "sellersToVisit skip found",
                         OF extractSellerInfo_returns]
  obtain records lg' where
    r: "visitSellers (extractSellerInfo (profilePages b)) (clock b) asin m (sellersToVisit skip found)
          = Inr (records, lg')"
    by blast
  show ?thesis
  proof (cases "sellersToVisit skip found = []")
    case True
    then show ?thesis using ex by (simp add: scrapeWith_def Let_def)
  next
    case False
    then have "fst (scrapeWith extractAll b asin m skip) = Inr records"
      using ex r by (simp add: scrapeWith_def Let_def)
    with r show ?thesis by blast
  qed
qed

lemma scrapeWith_failed:
  assumes found: "fst (extractAll (offerPages b) asin m) = Inr found"
  shows "\<exists>records. fst (scrapeWith extractAll b asin m skip) = Inr records
          \<and> length records = length (sellersToVisit skip found)
          \<and> (\<forall>i<length (sellersToVisit skip found). \<forall>x.
                visitFails pageExtract
                  (profilePages b (sellerProfileUrl m (sellersToVisit skip found ! i) asin)) x \<longrightarrow>
                  records ! i = mkRecord asin m (sellersToVisit skip found ! i)
                                  (Map.empty(''error'' \<mapsto> JStr x))
                                  (clock b (sellerProfileUrl m (sellersToVisit skip found ! i) asin))
                  \<and> (\<forall>k\<in>set nullableFields. getProp (records ! i) k = JNull)
                  \<and> getProp (records ! i) ''sellerDisplayName''
                      = JStr (name (sellersToVisit skip found ! i))
                  \<and> getProp (records ! i) ''hasDetailedInfo'' = JBool False)"
proof -
  define toVisit where "toVisit = sellersToVisit skip found"
  from scrapeWith_visits [of extractAll b asin m found skip, OF found]
  obtain records lg where
    v: "visitSellers (extractSellerInfo (profilePages b)) (clock b) asin m toVisit = Inr (records, lg)"
    and s: "fst (scrapeWith extractAll b asin m skip) = Inr records"
    unfolding toVisit_def by blast
  from visitSellers_failed [where ext = "extractSellerInfo (profilePages b)" and inPage = pageExtract
                              and page = "profilePages b" and clk = "clock b" and asin = asin
                              and m = m and sellers = toVisit,
                            OF extractSellerInfo_returns extractSellerInfo_error]
  obtain results lg' where
    v': "visitSellers (extractSellerInfo (profilePages b)) (clock b) asin m toVisit = Inr (results, lg')"
    and rest: "length results = length toVisit
           \<and> (\<forall>i<length toVisit. \<forall>x.
                 visitFails pageExtract (profilePages b (sellerProfileUrl m (toVisit ! i) asin)) x \<longrightarrow>
                   results ! i = mkRecord asin m (toVisit ! i) (Map.empty(''error'' \<mapsto> JStr x))
                                   (clock b (sellerProfileUrl m (toVisit ! i) asin))
                   \<and> (\<forall>k\<in>set nullableFields. getProp (results ! i) k = JNull)
                   \<and> getProp (results ! i) ''sellerDisplayName'' = JStr (name (toVisit ! i))
                   \<and> getProp (results ! i) ''hasDetailedInfo'' = JBool False)"
    by blast
  from v v' have "results = records" by simp
  with rest s show ?thesis unfolding toVisit_def by blast
qed

text \<open>
  C8. \<open>extractSellerInfo\<close> always returns (both versions). When the visit of the profile
  fails (the navigation rejects, the evaluation rejects, or the function evaluated in the
  page throws), the value returned is the object whose only property is \<open>error\<close>. The
  loop of the caller returns one record for every seller, in order; the record of a
  seller whose visit failed is the one built from that object: its twelve business,
  contact and rating properties are null, its display name is the text of the discovered
  link and its \<open>hasDetailedInfo\<close> is false. So \<^verbatim>\<open>scrapeAsinOnMarketplace\<close> returns
  whenever the discovery does, with one record for every seller to visit, and that record
  is the one with the null properties for every seller whose visit failed.
\<close>

theorem extractSellerInfo_never_throws:
  "(\<exists>info lg. extractSellerInfo page url = Inr (info, lg))
   \<and> (\<exists>info lg. extractSellerInfo_scraper page url = Inr (info, lg))
   \<and> (visitFails pageExtract (page url) e
        \<longrightarrow> (\<exists>lg. extractSellerInfo page url = Inr (Map.empty(''error'' \<mapsto> JStr e), lg)))
   \<and> (visitFails pageExtract_scraper (page url) e
        \<longrightarrow> (\<exists>lg. extractSellerInfo_scraper page url = Inr (Map.empty(''error'' \<mapsto> JStr e), lg)))
   \<and> (\<exists>results lg.
         visitSellers (extractSellerInfo page) clk asin m sellers = Inr (results, lg)
         \<and> length results = length sellers
         \<and> (\<forall>i<length sellers. \<forall>x.
               visitFails pageExtract (page (sellerProfileUrl m (sellers ! i) asin)) x \<longrightarrow>
                 results ! i = mkRecord asin m (sellers ! i) (Map.empty(''error'' \<mapsto> JStr x))
                                 (clk (sellerProfileUrl m (sellers ! i) asin))
                 \<and> (\<forall>k\<in>set nullableFields. getProp (results ! i) k = JNull)
                 \<and> getProp (results ! i) ''sellerDisplayName'' = JStr (name (sellers ! i))
                 \<and> getProp (results ! i) ''hasDetailedInfo'' = JBool False))
   \<and> (\<exists>results lg.
         visitSellers (extractSellerInfo_scraper page) clk asin m sellers = Inr (results, lg)
         \<and> length results = length sellers
         \<and> (\<forall>i<length sellers. \<forall>x.
               visitFails pageExtract_scraper (page (sellerProfileUrl m (sellers ! i) asin)) x \<longrightarrow>
                 results ! i = mkRecord asin m (sellers ! i) (Map.empty(''error'' \<mapsto> JStr x))
                                 (clk (sellerProfileUrl m (sellers ! i) asin))
                 \<and> (\<forall>k\<in>set nullableFields. getProp (results ! i) k = JNull)
                 \<and> getProp (results ! i) ''sellerDisplayName'' = JStr (name (sellers ! i))
                 \<and> getProp (results ! i) ''hasDetailedInfo'' = JBool False))
   \<and> (fst (extractAll (offerPages b) asin m) = Inr found
        \<longrightarrow> (\<exists>records. fst (scrapeWith extractAll b asin m skip) = Inr records
          \<and> length records = length (sellersToVisit skip found)
          \<and> (\<forall>i<length (sellersToVisit skip found). \<forall>x.
                visitFails pageExtract
                  (profilePages b (sellerProfileUrl m (sellersToVisit skip found ! i) asin)) x \<longrightarrow>
                  records ! i = mkRecord asin m (sellersToVisit skip found ! i)
                                  (Map.empty(''error'' \<mapsto> JStr x))
                                  (clock b (sellerProfileUrl m (sellersToVisit skip found ! i) asin))
                  \<and> (\<forall>k\<in>set nullableFields. getProp (records ! i) k = JNull)
                  \<and> getProp (records ! i) ''sellerDisplayName''
                      = JStr (name (sellersToVisit skip found ! i))
                  \<and> getProp (records ! i) ''hasDetailedInfo'' = JBool False)))"
proof (intro conjI impI)
  show "\<exists>info lg. extractSellerInfo page url = Inr (info, lg)"
    using extractSellerInfo_returns [of page url] by auto
  show "\<exists>info lg. extractSellerInfo_scraper page url = Inr (info, lg)"
    using extractSellerInfo_scraper_returns [of page url] by auto
next
  assume "visitFails pageExtract (page url) e"
  then show "\<exists>lg. extractSellerInfo page url = Inr (Map.empty(''error'' \<mapsto> JStr e), lg)"
    by (rule extractSellerInfo_error)
next
  assume "visitFails pageExtract_scraper (page url) e"
  then show "\<exists>lg. extractSellerInfo_scraper page url = Inr (Map.empty(''error'' \<mapsto> JStr e), lg)"
    by (rule extractSellerInfo_scraper_error)
next
  show "\<exists>results lg.
         visitSellers (extractSellerInfo page) clk asin m sellers = Inr (results, lg)
         \<and> length results = length sellers
         \<and> (\<forall>i<length sellers. \<forall>x.
               visitFails pageExtract (page (sellerProfileUrl m (sellers ! i) asin)) x \<longrightarrow>
                 results ! i = mkRecord asin m (sellers ! i) (Map.empty(''error'' \<mapsto> JStr x))
                                 (clk (sellerProfileUrl m (sellers ! i) asin))
                 \<and> (\<forall>k\<in>set nullableFields. getProp (results ! i) k = JNull)
                 \<and> getProp (results ! i) ''sellerDisplayName'' = JStr (name (sellers ! i))
                 \<and> getProp (results ! i) ''hasDetailedInfo'' = JBool False)"
    by (rule visitSellers_failed [where ext = "extractSellerInfo page" and inPage = pageExtract])
       (rule extractSellerInfo_returns, rule extractSellerInfo_error)
  show "\<exists>results lg.
         visitSellers (extractSellerInfo_scraper page) clk asin m sellers = Inr (results, lg)
         \<and> length results = length sellers
         \<and> (\<forall>i<length sellers. \<forall>x.
               visitFails pageExtract_scraper (page (sellerProfileUrl m (sellers ! i) asin)) x \<longrightarrow>
                 results ! i = mkRecord asin m (sellers ! i) (Map.empty(''error'' \<mapsto> JStr x))
                                 (clk (sellerProfileUrl m (sellers ! i) asin))
                 \<and> (\<forall>k\<in>set nullableFields. getProp (results ! i) k = JNull)
                 \<and> getProp (results ! i) ''sellerDisplayName'' = JStr (name (sellers ! i))
                 \<and> getProp (results ! i) ''hasDetailedInfo'' = JBool False)"
    by (rule visitSellers_failed [where ext = "extractSellerInfo_scraper page"
                                     and inPage = pageExtract_scraper])
       (rule extractSellerInfo_scraper_returns, rule extractSellerInfo_scraper_error)
next
  assume "fst (extractAll (offerPages b) asin m) = Inr found"
  then show "\<exists>records. fst (scrapeWith extractAll b asin m skip) = Inr records
       \<and> length records = length (sellersToVisit skip found)
       \<and> (\<forall>i<length (sellersToVisit skip found). \<forall>x.
             visitFails pageExtract
               (profilePages b (sellerProfileUrl m (sellersToVisit skip found ! i) asin)) x \<longrightarrow>
               records ! i = mkRecord asin m (sellersToVisit skip found ! i)
                               (Map.empty(''error'' \<mapsto> JStr x))
                               (clock b (sellerProfileUrl m (sellersToVisit skip found ! i) asin))
               \<and> (\<forall>k\<in>set nullableFields. getProp (records ! i) k = JNull)
               \<and> getProp (records ! i) ''sellerDisplayName''
                   = JStr (name (sellersToVisit skip found ! i))
               \<and> getProp (records ! i) ''hasDetailedInfo'' = JBool False)"
    by (rule scrapeWith_failed)
qed

text \<open>One seller, whose profile page does not load.\<close>

theorem extractSellerInfo_never_throws_witness:
  "\<exists>results lg.
     visitSellers
       (extractSellerInfo
          (\<lambda>u. \<lparr>gotoError = Some (str ''Timeout 30000ms exceeded''), evaluateError = None,
                 document = \<lparr>h1Text = None, bodyInnerText = None, h3s = [], ratingBlockText = None,
                             parsedRating = None, parsedPercent = None, parsedCount = None\<rparr>\<rparr>))
       (\<lambda>u. str ''2026-01-01T00:00:00.000Z'') (str ''B07YDVWL4J'')
       \<lparr>code = str ''AE'', domain = str ''amazon.ae'', currency = str ''AED'', tld = str ''ae''\<rparr>
       [\<lparr>name = str ''Gulf Traders'', sellerId = str ''A1XYZ'', href = [], strategy = None\<rparr>]
       = Inr (results, lg)
     \<and> length results = 1
     \<and> getProp (results ! 0) ''phoneNumber'' = JNull
     \<and> getProp (results ! 0) ''sellerDisplayName'' = JStr (str ''Gulf Traders'')
     \<and> getProp (results ! 0) ''hasDetailedInfo'' = JBool False"
proof -
  define page :: "jsstring \<Rightarrow> profile_visit" where
    "page = (\<lambda>u. \<lparr>gotoError = Some (str ''Timeout 30000ms exceeded''), evaluateError = None,
                 document = \<lparr>h1Text = None, bodyInnerText = None, h3s = [], ratingBlockText = None,
                             parsedRating = None, parsedPercent = None, parsedCount = None\<rparr>\<rparr>)"
  define clk :: "jsstring \<Rightarrow> jsstring" where "clk = (\<lambda>u. str ''2026-01-01T00:00:00.000Z'')"
  define AE where "AE = \<lparr>code = str ''AE'', domain = str ''amazon.ae'', currency = str ''AED'', tld = str ''ae''\<rparr>"
  define S where "S = \<lparr>name = str ''Gulf Traders'', sellerId = str ''A1XYZ'', href = [], strategy = None\<rparr>"
  note t = extractSellerInfo_never_throws
             [where page = page and clk = clk and asin = "str ''B07YDVWL4J''" and m = AE
                and sellers = "[S]"]
  from t [THEN conjunct2, THEN conjunct2, THEN conjunct2, THEN conjunct2, THEN conjunct1]
  obtain results lg where
    big: "visitSellers (extractSellerInfo page) clk (str ''B07YDVWL4J'') AE [S] = Inr (results, lg)
         \<and> length results = length [S]
         \<and> (\<forall>i<length [S]. \<forall>x.
               visitFails pageExtract (page (sellerProfileUrl AE ([S] ! i) (str ''B07YDVWL4J''))) x \<longrightarrow>
                 results ! i = mkRecord (str ''B07YDVWL4J'') AE ([S] ! i) (Map.empty(''error'' \<mapsto> JStr x))
                                 (clk (sellerProfileUrl AE ([S] ! i) (str ''B07YDVWL4J'')))
                 \<and> (\<forall>k\<in>set nullableFields. getProp (results ! i) k = JNull)
                 \<and> getProp (results ! i) ''sellerDisplayName'' = JStr (name ([S] ! i))
                 \<and> getProp (results ! i) ''hasDetailedInfo'' = JBool False)"
    by (elim exE) (rule that)
  have i: "0 < length [S]" by simp
  have f: "visitFails pageExtract (page (sellerProfileUrl AE ([S] ! 0) (str ''B07YDVWL4J'')))
             (str ''Timeout 30000ms exceeded'')"
    by (simp add: visitFails_def page_def)
  note at0 = big [THEN conjunct2, THEN conjunct2, THEN spec, THEN mp, OF i, THEN spec, THEN mp, OF f]
  have k: "''phoneNumber'' \<in> set nullableFields" by (simp add: nullableFields_def)
  have 1: "length results = 1" using big [THEN conjunct2, THEN conjunct1] by simp
  have 2: "getProp (results ! 0) ''phoneNumber'' = JNull"
    by (rule at0 [THEN conjunct2, THEN conjunct1, THEN bspec, OF k])
  have 3: "getProp (results ! 0) ''sellerDisplayName'' = JStr (str ''Gulf Traders'')"
    using at0 [THEN conjunct2, THEN conjunct2, THEN conjunct1] by (simp add: S_def)
  have 4: "getProp (results ! 0) ''hasDetailedInfo'' = JBool False"
    by (rule at0 [THEN conjunct2, THEN conjunct2, THEN conjunct2])
  have "visitSellers (extractSellerInfo page) clk (str ''B07YDVWL4J'') AE [S] = Inr (results, lg)
     \<and> length results = 1
     \<and> getProp (results ! 0) ''phoneNumber'' = JNull
     \<and> getProp (results ! 0) ''sellerDisplayName'' = JStr (str ''Gulf Traders'')
     \<and> getProp (results ! 0) ''hasDetailedInfo'' = JBool False"
    using big [THEN conjunct1] 1 2 3 4 by (intro conjI)
  then show ?thesis
    unfolding page_def clk_def AE_def S_def by (intro exI)
qed

text \<open>
  C10, as the code has it. In the emitted record each of the twelve properties that fall
  back to \<open>null\<close> is the extracted value when that value is truthy and \<open>null\<close>
  otherwise; so a rating, a percentage or a count of 0 is emitted as \<open>null\<close>, like an
  absent one. The two other profile properties do not become \<open>null\<close>: a falsy display
  name is replaced by the text of the discovered link, and a falsy \<open>hasDetailedInfo\<close> by
  \<open>false\<close>.
\<close>

theorem mkRecord_falsy_coercion:
  "(\<forall>k\<in>set nullableFields.
      getProp (mkRecord asin m seller info now) k
        = (if truthyVal (getProp info k) then getProp info k else JNull))
   \<and> (\<forall>k\<in>set [''rating'', ''positivePercent'', ''ratingCount''].
         getProp info k = JNum 0 \<longrightarrow> getProp (mkRecord asin m seller info now) k = JNull)
   \<and> (\<not> truthyVal (getProp info ''sellerDisplayName'')
        \<longrightarrow> getProp (mkRecord asin m seller info now) ''sellerDisplayName'' = JStr (name seller))
   \<and> (\<not> truthyVal (getProp info ''hasDetailedInfo'')
        \<longrightarrow> getProp (mkRecord asin m seller info now) ''hasDetailedInfo'' = JBool False)"
proof (intro conjI impI ballI)
  fix k assume "k \<in> set nullableFields"
  then show "getProp (mkRecord asin m seller info now) k
        = (if truthyVal (getProp info k) then getProp info k else JNull)"
    by (simp add: mkRecord_nullable jsOr_def)
next
  fix k assume k: "k \<in> set [''rating'', ''positivePercent'', ''ratingCount'']"
    and z: "getProp info k = JNum 0"
  from k have "k \<in> set nullableFields" by (auto simp: nullableFields_def)
  then show "getProp (mkRecord asin m seller info now) k = JNull"
    using z by (simp add: mkRecord_nullable jsOr_def)
next
  assume "\<not> truthyVal (getProp info ''sellerDisplayName'')"
  then show "getProp (mkRecord asin m seller info now) ''sellerDisplayName'' = JStr (name seller)"
    by (simp add: mkRecord_displayName jsOr_def)
next
  assume "\<not> truthyVal (getProp info ''hasDetailedInfo'')"
  then show "getProp (mkRecord asin m seller info now) ''hasDetailedInfo'' = JBool False"
    by (simp add: mkRecord_hasDetailedInfo jsOr_def)
qed

theorem mkRecord_falsy_coercion_witness:
  "getProp (mkRecord (str ''B07YDVWL4J'')
              \<lparr>code = str ''UK'', domain = str ''amazon.co.uk'', currency = str ''GBP'', tld = str ''co.uk''\<rparr>
              \<lparr>name = str ''Acme'', sellerId = str ''A1XYZ'', href = [], strategy = None\<rparr>
              (Map.empty(''rating'' \<mapsto> JNum 0, ''ratingCount'' \<mapsto> JNum 0))
              (str ''2026-01-01T00:00:00.000Z'')) ''rating'' = JNull
   \<and> getProp (mkRecord (str ''B07YDVWL4J'')
              \<lparr>code = str ''UK'', domain = str ''amazon.co.uk'', currency = str ''GBP'', tld = str ''co.uk''\<rparr>
              \<lparr>name = str ''Acme'', sellerId = str ''A1XYZ'', href = [], strategy = None\<rparr>
              (Map.empty(''rating'' \<mapsto> JNum 0, ''ratingCount'' \<mapsto> JNum 0))
              (str ''2026-01-01T00:00:00.000Z'')) ''sellerDisplayName'' = JStr (str ''Acme'')"
proof -
  let ?info = "Map.empty(''rating'' \<mapsto> JNum 0, ''ratingCount'' \<mapsto> JNum 0)"
  note t = mkRecord_falsy_coercion
             [where info = ?info and asin = "str ''B07YDVWL4J''"
                and m = "\<lparr>code = str ''UK'', domain = str ''amazon.co.uk'', currency = str ''GBP'', tld = str ''co.uk''\<rparr>"
                and seller = "\<lparr>name = str ''Acme'', sellerId = str ''A1XYZ'', href = [], strategy = None\<rparr>"
                and now = "str ''2026-01-01T00:00:00.000Z''"]
  have k: "''rating'' \<in> set [''rating'', ''positivePercent'', ''ratingCount'']" by simp
  have z: "getProp ?info ''rating'' = JNum 0" by (simp add: getProp_def)
  have n: "\<not> truthyVal (getProp ?info ''sellerDisplayName'')" by (simp add: getProp_def)
  have a: "getProp (mkRecord (str ''B07YDVWL4J'')
              \<lparr>code = str ''UK'', domain = str ''amazon.co.uk'', currency = str ''GBP'', tld = str ''co.uk''\<rparr>
              \<lparr>name = str ''Acme'', sellerId = str ''A1XYZ'', href = [], strategy = None\<rparr>
              ?info (str ''2026-01-01T00:00:00.000Z'')) ''rating'' = JNull"
    by (rule t [THEN conjunct2, THEN conjunct1, THEN bspec, OF k, THEN mp, OF z])
  have b: "getProp (mkRecord (str ''B07YDVWL4J'')
              \<lparr>code = str ''UK'', domain = str ''amazon.co.uk'', currency = str ''GBP'', tld = str ''co.uk''\<rparr>
              \<lparr>name = str ''Acme'', sellerId = str ''A1XYZ'', href = [], strategy = None\<rparr>
              ?info (str ''2026-01-01T00:00:00.000Z'')) ''sellerDisplayName'' = JStr (name \<lparr>name = str ''Acme'', sellerId = str ''A1XYZ'', href = [], strategy = None\<rparr>)"
    by (rule t [THEN conjunct2, THEN conjunct2, THEN conjunct1, THEN mp, OF n])
  from a b show ?thesis by simp
qed

text \<open>
  Against C10 as stated: on a page with no \<open>h1\<close> and no detail heading the extracted
  display name and \<open>hasDetailedInfo\<close> are falsy, and the record carries the link text and
  \<open>false\<close> for them, not \<open>null\<close>.
\<close>

theorem mkRecord_falsy_not_null_counterexample:
  "(case pageExtract \<lparr>h1Text = None, bodyInnerText = Some (str ''No seller information''), h3s = [],
                      ratingBlockText = None, parsedRating = None, parsedPercent = None,
                      parsedCount = None\<rparr> of
      Inl e \<Rightarrow> False
    | Inr info \<Rightarrow>
        \<not> truthyVal (getProp info ''hasDetailedInfo'')
        \<and> getProp (mkRecord (str ''B07YDVWL4J'')
                     \<lparr>code = str ''UK'', domain = str ''amazon.co.uk'', currency = str ''GBP'', tld = str ''co.uk''\<rparr>
                     \<lparr>name = str ''Acme'', sellerId = str ''A1XYZ'', href = [], strategy = None\<rparr>
                     info (str ''2026-01-01T00:00:00.000Z'')) ''hasDetailedInfo'' \<noteq> JNull
        \<and> \<not> truthyVal (getProp info ''sellerDisplayName'')
        \<and> getProp (mkRecord (str ''B07YDVWL4J'')
                     \<lparr>code = str ''UK'', domain = str ''amazon.co.uk'', currency = str ''GBP'', tld = str ''co.uk''\<rparr>
                     \<lparr>name = str ''Acme'', sellerId = str ''A1XYZ'', href = [], strategy = None\<rparr>
                     info (str ''2026-01-01T00:00:00.000Z'')) ''sellerDisplayName'' \<noteq> JNull)"
  by code_simp

text \<open>
  The claim of C7 where it holds. When the detailed block was found and the page text
  matches the fallback pattern with the capture \<open>g\<close>, the three files return an object
  whose \<open>customerServicePhone\<close> is the trimmed capture and whose \<open>phoneNumber\<close> is the phone
  number parsed from the detailed block when the block has one, and the trimmed capture
  otherwise. In part_000 and part_001 the fallback also sets both properties when the
  heading is absent.
\<close>

lemma customerServicePhone_fallback:
  "(findDetailHeading doc = Some (t, Some allText) \<and> bodyInnerText doc = Some body
      \<and> csPhoneMatch body = Some g
      \<longrightarrow> (\<exists>r. pageExtract doc = Inr r
                \<and> getProp r ''customerServicePhone'' = JStr (trim g)
                \<and> getProp r ''phoneNumber'' =
                    (case parseLines (blockLines allText) Map.empty ''phoneNumber'' of
                       None \<Rightarrow> JStr (trim g) | Some p \<Rightarrow> p))
          \<and> (\<exists>r. pageExtract_scraper doc = Inr r
                \<and> getProp r ''customerServicePhone'' = JStr (trim g)
                \<and> getProp r ''phoneNumber'' =
                    (case parseLines (blockLines allText) Map.empty ''phoneNumber'' of
                       None \<Rightarrow> JStr (trim g) | Some p \<Rightarrow> p)))
   \<and> (findDetailHeading doc = None \<and> bodyInnerText doc = Some body
      \<and> csPhoneMatch body = Some g
      \<longrightarrow> (\<exists>r. pageExtract doc = Inr r
                \<and> getProp r ''customerServicePhone'' = JStr (trim g)
                \<and> getProp r ''phoneNumber'' = JStr (trim g)))"
proof (intro conjI impI)
  assume a: "findDetailHeading doc = Some (t, Some allText) \<and> bodyInnerText doc = Some body
      \<and> csPhoneMatch body = Some g"
  then have h: "findDetailHeading doc = Some (t, Some allText)"
    and b: "bodyInnerText doc = Some body" and g: "csPhoneMatch body = Some g"
    by simp_all
  show "\<exists>r. pageExtract doc = Inr r
                \<and> getProp r ''customerServicePhone'' = JStr (trim g)
                \<and> getProp r ''phoneNumber'' =
                    (case parseLines (blockLines allText) Map.empty ''phoneNumber'' of
                       None \<Rightarrow> JStr (trim g) | Some p \<Rightarrow> p)"
    using h b g by (rule pageExtract_block)
  show "\<exists>r. pageExtract_scraper doc = Inr r
                \<and> getProp r ''customerServicePhone'' = JStr (trim g)
                \<and> getProp r ''phoneNumber'' =
                    (case parseLines (blockLines allText) Map.empty ''phoneNumber'' of
                       None \<Rightarrow> JStr (trim g) | Some p \<Rightarrow> p)"
    using h b g by (rule pageExtract_scraper_block)
next
  assume a: "findDetailHeading doc = None \<and> bodyInnerText doc = Some body
      \<and> csPhoneMatch body = Some g"
  then have h: "findDetailHeading doc = None"
    and b: "bodyInnerText doc = Some body" and g: "csPhoneMatch body = Some g"
    by simp_all
  from pageExtract_no_heading_fields [OF h b g]
  show "\<exists>r. pageExtract doc = Inr r
                \<and> getProp r ''customerServicePhone'' = JStr (trim g)
                \<and> getProp r ''phoneNumber'' = JStr (trim g)"
    by blast
qed

text \<open>
  C7 on the two versions, for a page without the heading whose text has the line
  \<open>customer service phone:\<close>, a no-break space and \<open>0800 555 0199\<close>. The pattern matches
  the page text. part_000 and part_001 set \<open>customerServicePhone\<close> and \<open>phoneNumber\<close> to
  the number; src/scraper.js has returned before it searches the text, and sets neither.
\<close>

theorem customerServicePhone_skipped_without_heading:
  "csPhoneMatch (str ''Northwind Traders'' @ newline # str ''customer service phone:'' @ [0xA0]
                   @ str ''0800 555 0199 '' @ newline # str ''Shipping rates'')
     = Some (str ''0800 555 0199 '')
   \<and> (case pageExtract_scraper
            \<lparr>h1Text = Some (str ''Northwind Traders''),
             bodyInnerText = Some (str ''Northwind Traders'' @ newline # str ''customer service phone:''
                                     @ [0xA0] @ str ''0800 555 0199 '' @ newline # str ''Shipping rates''),
             h3s = [(str ''About Seller'', Some (str ''Since 2019''))],
             ratingBlockText = None, parsedRating = None, parsedPercent = None, parsedCount = None\<rparr> of
         Inl e \<Rightarrow> False
       | Inr r \<Rightarrow> getProp r ''customerServicePhone'' = JUndefined
                  \<and> getProp r ''phoneNumber'' = JUndefined)
   \<and> (case pageExtract
            \<lparr>h1Text = Some (str ''Northwind Traders''),
             bodyInnerText = Some (str ''Northwind Traders'' @ newline # str ''customer service phone:''
                                     @ [0xA0] @ str ''0800 555 0199 '' @ newline # str ''Shipping rates''),
             h3s = [(str ''About Seller'', Some (str ''Since 2019''))],
             ratingBlockText = None, parsedRating = None, parsedPercent = None, parsedCount = None\<rparr> of
         Inl e \<Rightarrow> False
       | Inr r \<Rightarrow> getProp r ''customerServicePhone'' = JStr (str ''0800 555 0199'')
                  \<and> getProp r ''phoneNumber'' = JStr (str ''0800 555 0199''))"
  by code_simp

text \<open>
  C2 on the two versions, for a page without the heading whose text has the line
  \<open>Customer Service Phone: +44 20 7946 0958\<close>. src/scraper.js returns before it looks for
  the line, so neither phone property is set; part_000 and part_001 set both.
\<close>

theorem extractSellerInfo_scraper_skips_fallback:
  "(case extractSellerInfo_scraper
          (\<lambda>u. \<lparr>gotoError = None, evaluateError = None,
                 document = \<lparr>h1Text = Some (str ''Gulf Traders''),
                   bodyInnerText = Some (str ''Gulf Traders'' @ newline
                       # str ''Customer Service Phone: +44 20 7946 0958'' @ newline # str ''Returns and Refunds''),
                   h3s = [(str ''Feedback'', None)], ratingBlockText = None,
                   parsedRating = None, parsedPercent = None, parsedCount = None\<rparr>\<rparr>)
          (str ''https://www.amazon.ae/sp?seller=A1XYZ&asin=B07YDVWL4J'') of
      Inl e \<Rightarrow> False
    | Inr r \<Rightarrow> getProp (fst r) ''hasDetailedInfo'' = JBool False
               \<and> getProp (fst r) ''phoneNumber'' = JUndefined
               \<and> getProp (fst r) ''customerServicePhone'' = JUndefined)
   \<and> (case extractSellerInfo
          (\<lambda>u. \<lparr>gotoError = None, evaluateError = None,
                 document = \<lparr>h1Text = Some (str ''Gulf Traders''),
                   bodyInnerText = Some (str ''Gulf Traders'' @ newline
                       # str ''Customer Service Phone: +44 20 7946 0958'' @ newline # str ''Returns and Refunds''),
                   h3s = [(str ''Feedback'', None)], ratingBlockText = None,
                   parsedRating = None, parsedPercent = None, parsedCount = None\<rparr>\<rparr>)
          (str ''https://www.amazon.ae/sp?seller=A1XYZ&asin=B07YDVWL4J'') of
      Inl e \<Rightarrow> False
    | Inr r \<Rightarrow> getProp (fst r) ''hasDetailedInfo'' = JBool False
               \<and> getProp (fst r) ''phoneNumber'' = JStr (str ''+44 20 7946 0958'')
               \<and> getProp (fst r) ''customerServicePhone'' = JStr (str ''+44 20 7946 0958''))"
  by code_simp

text \<open>
  The claim of C2 on part_000 and part_001, in general: without the heading, a page whose
  text has the line \<open>Customer Service Phone: v\<close> (and no match of the pattern before it)
  gives \<open>hasDetailedInfo = false\<close>, both phone properties equal to \<open>v\<close>, and none of the
  business properties.
\<close>

lemma pageExtract_fallback_line:
  assumes h: "findDetailHeading doc = None"
    and b: "bodyInnerText doc = Some (pre @ str ''Customer Service Phone: '' @ v @ post)"
    and first: "\<forall>i<length pre. csPhoneAt (drop i (pre @ str ''Customer Service Phone: '' @ v @ post)) = None"
    and ne: "v \<noteq> []" and nl: "newline \<notin> set v"
    and edges: "\<not> isSepChar (hd v)" "\<not> isSpace (last v)"
    and post: "post = [] \<or> hd post = newline"
  shows "\<exists>r. pageExtract doc = Inr r
           \<and> getProp r ''hasDetailedInfo'' = JBool False
           \<and> getProp r ''phoneNumber'' = JStr v
           \<and> getProp r ''customerServicePhone'' = JStr v
           \<and> (\<forall>k\<in>set [''businessName'', ''businessType'', ''vatNumber'', ''tradeRegisterNumber'',
                         ''email'', ''businessAddress'', ''customerServiceAddress''].
                 getProp r k = JUndefined)"
proof -
  have g: "csPhoneMatch (pre @ str ''Customer Service Phone: '' @ v @ post) = Some v"
    using first ne edges(1) nl post by (rule csPhoneMatch_line)
  have "\<not> isSpace (hd v)" using edges(1) by (simp add: isSepChar_def)
  then have "trim ([] @ v @ []) = v"
    using ne edges(2) by (intro trim_padded) auto
  then have tr: "trim v = v" by simp
  from pageExtract_no_heading_fields [OF h b g] show ?thesis unfolding tr .
qed

section \<open>Deduplication of the discovered sellers\<close>

subsection \<open>The Map\<close>

lemma mapSet_keys: "set (map fst (mapSet es k v)) = insert k (set (map fst es))"
proof (induction es)
  case Nil
  then show ?case by simp
next
  case (Cons e es)
  obtain k' v' where e: "e = (k', v')" by (cases e)
  show ?case
  proof (cases "k' = k")
    case True
    then show ?thesis by (simp add: e)
  next
    case False
    then show ?thesis using Cons.IH by (simp add: e insert_commute)
  qed
qed

lemma mapSet_distinct: "distinct (map fst es) \<Longrightarrow> distinct (map fst (mapSet es k v))"
proof (induction es)
  case Nil
  then show ?case by simp
next
  case (Cons e es)
  obtain k' v' where e: "e = (k', v')" by (cases e)
  show ?case
  proof (cases "k' = k")
    case True
    with Cons.prems e show ?thesis by simp
  next
    case False
    with Cons e show ?thesis using mapSet_keys [of es k v] by auto
  qed
qed

lemma mapSet_fresh: "k \<notin> set (map fst es) \<Longrightarrow> mapSet es k v = es @ [(k, v)]"
  by (induction es) auto

lemma mapSet_values:
  "\<forall>e\<in>set es. P (fst e) (snd e) \<Longrightarrow> P k v \<Longrightarrow> \<forall>e\<in>set (mapSet es k v). P (fst e) (snd e)"
proof (induction es)
  case Nil
  then show ?case by simp
next
  case (Cons e es)
  obtain k' v' where e: "e = (k', v')" by (cases e)
  have tl: "\<forall>x\<in>set es. P (fst x) (snd x)" and hd: "P k' v'"
    using Cons.prems(1) by (simp_all add: e)
  show ?case
  proof (cases "k' = k")
    case True
    then show ?thesis using tl Cons.prems(2) by (simp add: e)
  next
    case False
    then show ?thesis using Cons.IH [OF tl Cons.prems(2)] hd by (simp add: e)
  qed
qed

lemma fold_mapSet_distinct:
  "distinct (map fst acc) \<Longrightarrow>
   distinct (map fst (fold (\<lambda>e m. mapSet m (fst e) (snd e)) es acc))"
  by (induction es arbitrary: acc) (simp_all add: mapSet_distinct)

lemma fold_mapSet_values:
  "\<forall>e\<in>set acc. P (fst e) (snd e) \<Longrightarrow> \<forall>e\<in>set es. P (fst e) (snd e) \<Longrightarrow>
   \<forall>e\<in>set (fold (\<lambda>e m. mapSet m (fst e) (snd e)) es acc). P (fst e) (snd e)"
proof (induction es arbitrary: acc)
  case Nil
  then show ?case by simp
next
  case (Cons e es)
  have "\<forall>x\<in>set (mapSet acc (fst e) (snd e)). P (fst x) (snd x)"
    using Cons.prems by (intro mapSet_values) simp_all
  then show ?case using Cons.IH Cons.prems(2) by simp
qed

lemma fold_mapSet_fresh:
  "distinct (map fst (acc @ es)) \<Longrightarrow> fold (\<lambda>e m. mapSet m (fst e) (snd e)) es acc = acc @ es"
proof (induction es arbitrary: acc)
  case Nil
  then show ?case by simp
next
  case (Cons e es)
  from Cons.prems have "fst e \<notin> set (map fst acc)" by auto
  then have "mapSet acc (fst e) (snd e) = acc @ [e]" by (simp add: mapSet_fresh)
  moreover from Cons.prems have "distinct (map fst ((acc @ [e]) @ es))" by simp
  ultimately show ?case using Cons.IH [of "acc @ [e]"] by simp
qed



lemma uniqueBySellerId_id:
  "distinct (map sellerId sellers) \<Longrightarrow> uniqueBySellerId sellers = sellers"
proof -
  assume d: "distinct (map sellerId sellers)"
  have "map fst ([] @ map (\<lambda>s. (sellerId s, s)) sellers) = map sellerId sellers"
    by (simp add: comp_def)
  with d have "distinct (map fst ([] @ map (\<lambda>s. (sellerId s, s)) sellers))" by (simp only:)
  then have "newMap (map (\<lambda>s. (sellerId s, s)) sellers) = [] @ map (\<lambda>s. (sellerId s, s)) sellers"
    unfolding newMap_def by (rule fold_mapSet_fresh)
  then show ?thesis by (simp add: uniqueBySellerId_def comp_def)
qed

subsection \<open>Keeping the first occurrence\<close>

lemma keepFirst_subset: "set (specKeepFirst cs) \<subseteq> set cs"
proof (induction cs rule: specKeepFirst.induct)
  case 1
  then show ?case by simp
next
  case (2 c cs)
  then show ?case by auto
qed

lemma keepFirst_distinct: "distinct (map sellerId (specKeepFirst cs))"
proof (induction cs rule: specKeepFirst.induct)
  case 1
  then show ?case by simp
next
  case (2 c cs)
  have "sellerId c \<notin> sellerId ` set (specKeepFirst (filter (\<lambda>d. sellerId d \<noteq> sellerId c) cs))"
    using keepFirst_subset [of "filter (\<lambda>d. sellerId d \<noteq> sellerId c) cs"] by auto
  with 2 show ?case by simp
qed

lemma find_filter_other:
  "sellerId r \<noteq> k \<Longrightarrow>
   find (\<lambda>c. sellerId c = sellerId r) (filter (\<lambda>d. sellerId d \<noteq> k) cs)
     = find (\<lambda>c. sellerId c = sellerId r) cs"
  by (induction cs) auto

lemma keepFirst_first:
  "r \<in> set (specKeepFirst cs) \<Longrightarrow> find (\<lambda>c. sellerId c = sellerId r) cs = Some r"
proof (induction cs rule: specKeepFirst.induct)
  case 1
  then show ?case by simp
next
  case (2 c cs)
  show ?case
  proof (cases "r = c")
    case True
    then show ?thesis by simp
  next
    case False
    with "2.prems" have r: "r \<in> set (specKeepFirst (filter (\<lambda>d. sellerId d \<noteq> sellerId c) cs))" by simp
    then have "r \<in> set (filter (\<lambda>d. sellerId d \<noteq> sellerId c) cs)"
      using keepFirst_subset by blast
    then have ne: "sellerId r \<noteq> sellerId c" by simp
    from "2.IH" [OF r] have "find (\<lambda>x. sellerId x = sellerId r) cs = Some r"
      using find_filter_other [OF ne, of cs] by simp
    with ne show ?thesis by auto
  qed
qed

lemma keepFirst_covers: "sellerId ` set (specKeepFirst cs) = sellerId ` set cs"
proof (induction cs rule: specKeepFirst.induct)
  case 1
  then show ?case by simp
next
  case (2 c cs)
  have "sellerId ` set (filter (\<lambda>d. sellerId d \<noteq> sellerId c) cs) = sellerId ` set cs - {sellerId c}"
    by auto
  with 2 show ?case by auto
qed

subsection \<open>The three loops of part_001\<close>

lemma linkStep_pushNew:
  "linkStep strat a st = (case specLinkCandidate strat a of None \<Rightarrow> st | Some c \<Rightarrow> pushNew c st)"
  by (auto simp: linkStep_def specLinkCandidate_def pushNew_def split: option.splits)

lemma soldByStep_pushNew:
  "soldByStep a st = (case specSoldByCandidate a of None \<Rightarrow> st | Some c \<Rightarrow> pushNew c st)"
  by (auto simp: soldByStep_def specSoldByCandidate_def pushNew_def truthy_def Let_def
           split: option.splits list.splits)

lemma fold_candidates:
  "fold (\<lambda>a st. case cand a of None \<Rightarrow> st | Some c \<Rightarrow> pushNew c st) as st
     = fold pushNew (List.map_filter cand as) st"
proof (induction as arbitrary: st)
  case Nil
  then show ?case by (simp add: List.map_filter_simps)
next
  case (Cons a as)
  show ?case
    by (cases "cand a") (simp_all add: Cons.IH List.map_filter_simps)
qed

lemma linkStep_fold:
  "fold (linkStep strat) as st = fold pushNew (List.map_filter (specLinkCandidate strat) as) st"
proof -
  have eq: "linkStep strat = (\<lambda>a st. case specLinkCandidate strat a of None \<Rightarrow> st | Some c \<Rightarrow> pushNew c st)"
    by (intro ext) (rule linkStep_pushNew)
  show ?thesis unfolding eq by (rule fold_candidates)
qed

lemma soldByStep_fold:
  "fold soldByStep as st = fold pushNew (List.map_filter specSoldByCandidate as) st"
proof -
  have eq: "soldByStep = (\<lambda>a st. case specSoldByCandidate a of None \<Rightarrow> st | Some c \<Rightarrow> pushNew c st)"
    by (intro ext) (rule soldByStep_pushNew)
  show ?thesis unfolding eq by (rule fold_candidates)
qed

lemma fold_pushNew:
  "fst (fold pushNew cs st) = fst st @ specKeepFirst (filter (\<lambda>c. sellerId c \<notin> snd st) cs)"
proof (induction cs arbitrary: st)
  case Nil
  then show ?case by simp
next
  case (Cons c cs)
  show ?case
  proof (cases "sellerId c \<in> snd st")
    case True
    then show ?thesis using Cons.IH [of st] by (simp add: pushNew_def)
  next
    case False
    have "filter (\<lambda>d. sellerId d \<noteq> sellerId c) (filter (\<lambda>d. sellerId d \<notin> snd st) cs)
            = filter (\<lambda>d. sellerId d \<notin> insert (sellerId c) (snd st)) cs"
      by (induction cs) auto
    with False show ?thesis
      using Cons.IH [of "(fst st @ [c], insert (sellerId c) (snd st))"]
      by (simp add: pushNew_def)
  qed
qed

text \<open>The extraction of part_001 refines the specification's deduplication.\<close>

lemma pageSellers_keepFirst: "pageSellers as = specKeepFirst (specCandidates as)"
proof -
  have "pageSellers as = fst (fold pushNew (specCandidates as) ([], {}))"
    unfolding pageSellers_def specCandidates_def
    by (simp add: linkStep_fold soldByStep_fold)
  then show ?thesis by (simp add: fold_pushNew)
qed

lemma pageSellers_unique: "uniqueBySellerId (pageSellers as) = specKeepFirst (specCandidates as)"
  unfolding pageSellers_keepFirst by (rule uniqueBySellerId_id) (rule keepFirst_distinct)

subsection \<open>What the Map keeps for a repeated key\<close>

lemma map_of_mapSet: "map_of (mapSet es k v) = (map_of es)(k \<mapsto> v)"
proof (induction es)
  case Nil
  then show ?case by simp
next
  case (Cons e es)
  obtain k' v' where e: "e = (k', v')" by (cases e)
  show ?case
  proof (cases "k' = k")
    case True
    then show ?thesis by (auto simp: e fun_eq_iff)
  next
    case False
    then show ?thesis using Cons.IH by (auto simp: e fun_eq_iff)
  qed
qed

lemma map_of_fold_mapSet:
  "map_of (fold (\<lambda>e m. mapSet m (fst e) (snd e)) es acc) = map_of acc ++ map_of (rev es)"
proof (induction es arbitrary: acc)
  case Nil
  then show ?case by simp
next
  case (Cons e es)
  have "map_of (mapSet acc (fst e) (snd e)) ++ map_of (rev es)
          = map_of acc ++ ([fst e \<mapsto> snd e] ++ map_of (rev es))"
    by (auto simp: map_of_mapSet map_add_def fun_eq_iff split: option.splits)
  then show ?case using Cons.IH [of "mapSet acc (fst e) (snd e)"]
    by (simp add: map_of_append)
qed

lemma map_of_by_id:
  "map_of (map (\<lambda>s. (sellerId s, s)) cs) k = find (\<lambda>c. sellerId c = k) cs"
  by (induction cs) auto

text \<open>In part_000 a seller id that several links carry comes out with the name and the
  link of the last of them.\<close>

lemma uniqueBySellerId_last:
  assumes "r \<in> set (uniqueBySellerId sellers)"
  shows "find (\<lambda>c. sellerId c = sellerId r) (rev sellers) = Some r"
proof -
  let ?m = "newMap (map (\<lambda>s. (sellerId s, s)) sellers)"
  from assms obtain e where e: "e \<in> set ?m" "snd e = r"
    by (auto simp: uniqueBySellerId_def)
  have "\<forall>e\<in>set ?m. sellerId (snd e) = fst e"
    unfolding newMap_def
    by (rule fold_mapSet_values [where P = "\<lambda>k v. sellerId v = k"]) simp_all
  with e have k: "fst e = sellerId r" by auto
  have "distinct (map fst ?m)"
    unfolding newMap_def by (rule fold_mapSet_distinct) simp
  with e have "map_of ?m (fst e) = Some (snd e)"
    by (metis map_of_eq_Some_iff prod.collapse)
  with k e(2) have "map_of ?m (sellerId r) = Some r" by simp
  then have "map_of (rev (map (\<lambda>s. (sellerId s, s)) sellers)) (sellerId r) = Some r"
    unfolding newMap_def by (simp add: map_of_fold_mapSet)
  then show ?thesis by (simp add: rev_map map_of_by_id)
qed

subsection \<open>The whole function\<close>



text \<open>
  The claim of C1 on part_001: when the page passes the checks, the list returned is the
  candidates of the three strategies, in encounter order, with the first occurrence of
  every seller id kept; it repeats no id, and each seller in it is the first candidate
  with its id.
\<close>

lemma extractAllSellers_first_occurrence:
  assumes t: "pageTitle (page (offerUrl m asin)) = Inr title"
    and nf: "\<not> isNotFound title (currentUrl (page (offerUrl m asin)))"
    and c: "captchaQuery (page (offerUrl m asin)) = Inr False"
    and as: "anchors (page (offerUrl m asin)) = Some as"
  shows "fst (extractAllSellers page asin m) = Inr (specKeepFirst (specCandidates as))"
    and "distinct (map sellerId (specKeepFirst (specCandidates as)))"
    and "\<forall>r\<in>set (specKeepFirst (specCandidates as)).
           find (\<lambda>c. sellerId c = sellerId r) (specCandidates as) = Some r"
    and "sellerId ` set (specKeepFirst (specCandidates as)) = sellerId ` set (specCandidates as)"
proof -
  show "fst (extractAllSellers page asin m) = Inr (specKeepFirst (specCandidates as))"
    using t nf c as by (simp add: extractAllSellers_def Let_def pageSellers_unique)
  show "distinct (map sellerId (specKeepFirst (specCandidates as)))"
    by (rule keepFirst_distinct)
  show "\<forall>r\<in>set (specKeepFirst (specCandidates as)).
           find (\<lambda>c. sellerId c = sellerId r) (specCandidates as) = Some r"
    using keepFirst_first by blast
  show "sellerId ` set (specKeepFirst (specCandidates as)) = sellerId ` set (specCandidates as)"
    by (rule keepFirst_covers)
qed

text \<open>
  C1 on the two versions, for a page with two links to the storefront of the seller
  \<open>A1XYZ\<close>, the first with the text \<open>Acme Outlet\<close>, the second with the text
  \<open>Acme Outlet GmbH\<close>. part_000 returns one seller with the name and the link of the
  second; part_001 returns one seller with the name and the link of the first, found by
  the first strategy.
\<close>

theorem extractAllSellers_000_keeps_last:
  "fst (extractAllSellers_000
         (\<lambda>u. \<lparr>navError = None, pageTitle = Inr (str ''Amazon.de''),
                currentUrl = str ''https://www.amazon.de/dp/B07YDVWL4J'', captchaQuery = Inr False,
                selectorAppears = (\<lambda>s. False), debugJson = str ''{}'',
                anchors = Some
                  [\<lparr>hrefAttr = Some (str ''/gp/aag/main?seller=A1XYZ&ref=olp1''),
                    hrefProp = str ''https://www.amazon.de/gp/aag/main?seller=A1XYZ&ref=olp1'',
                    searchParams = Some [(str ''seller'', str ''A1XYZ''), (str ''ref'', str ''olp1'')],
                    textContent = str ''Acme Outlet'', prevSiblingText = None,
                    parentText = Some (str ''Sold by Acme Outlet'')\<rparr>,
                   \<lparr>hrefAttr = Some (str ''/gp/aag/main?seller=A1XYZ&ref=olp2''),
                    hrefProp = str ''https://www.amazon.de/gp/aag/main?seller=A1XYZ&ref=olp2'',
                    searchParams = Some [(str ''seller'', str ''A1XYZ''), (str ''ref'', str ''olp2'')],
                    textContent = str ''Acme Outlet GmbH'', prevSiblingText = None,
                    parentText = Some (str ''Sold by Acme Outlet GmbH'')\<rparr>]\<rparr>)
         (str ''B07YDVWL4J'')
         \<lparr>code = str ''DE'', domain = str ''amazon.de'', currency = str ''EUR'', tld = str ''de''\<rparr>)
     = Inr [\<lparr>name = str ''Acme Outlet GmbH'', sellerId = str ''A1XYZ'',
             href = str ''https://www.amazon.de/gp/aag/main?seller=A1XYZ&ref=olp2'', strategy = None\<rparr>]
   \<and> fst (extractAllSellers
         (\<lambda>u. \<lparr>navError = None, pageTitle = Inr (str ''Amazon.de''),
                currentUrl = str ''https://www.amazon.de/dp/B07YDVWL4J'', captchaQuery = Inr False,
                selectorAppears = (\<lambda>s. False), debugJson = str ''{}'',
                anchors = Some
                  [\<lparr>hrefAttr = Some (str ''/gp/aag/main?seller=A1XYZ&ref=olp1''),
                    hrefProp = str ''https://www.amazon.de/gp/aag/main?seller=A1XYZ&ref=olp1'',
                    searchParams = Some [(str ''seller'', str ''A1XYZ''), (str ''ref'', str ''olp1'')],
                    textContent = str ''Acme Outlet'', prevSiblingText = None,
                    parentText = Some (str ''Sold by Acme Outlet'')\<rparr>,
                   \<lparr>hrefAttr = Some (str ''/gp/aag/main?seller=A1XYZ&ref=olp2''),
                    hrefProp = str ''https://www.amazon.de/gp/aag/main?seller=A1XYZ&ref=olp2'',
                    searchParams = Some [(str ''seller'', str ''A1XYZ''), (str ''ref'', str ''olp2'')],
                    textContent = str ''Acme Outlet GmbH'', prevSiblingText = None,
                    parentText = Some (str ''Sold by Acme Outlet GmbH'')\<rparr>]\<rparr>)
         (str ''B07YDVWL4J'')
         \<lparr>code = str ''DE'', domain = str ''amazon.de'', currency = str ''EUR'', tld = str ''de''\<rparr>)
     = Inr [\<lparr>name = str ''Acme Outlet'', sellerId = str ''A1XYZ'',
             href = str ''https://www.amazon.de/gp/aag/main?seller=A1XYZ&ref=olp1'',
             strategy = Some (str ''aag'')\<rparr>]"
  by code_simp

section \<open>Provenance across marketplaces\<close>



lemma annotate_seen_keeps: "seen k = Some c \<Longrightarrow> snd (annotate m s seen) k = Some c"
  by (auto simp: annotate_def split: option.splits)


lemma annotate_known:
  "seen (dedupeKey s) = Some c \<Longrightarrow>
   getProp (fst (annotate m s seen)) ''isDuplicate'' = JBool True
   \<and> getProp (fst (annotate m s seen)) ''firstSeenOnMarketplace'' = JStr c"
  by (simp add: annotate_def getProp_def)

lemma annotate_new:
  "seen (dedupeKey s) = None \<Longrightarrow>
   getProp (fst (annotate m s seen)) ''isDuplicate'' = JBool False
   \<and> getProp (fst (annotate m s seen)) ''firstSeenOnMarketplace'' = JStr (code m)
   \<and> snd (annotate m s seen) (dedupeKey s) = Some (code m)"
  by (simp add: annotate_def getProp_def)

lemma annotate_recorded:
  "\<exists>c. snd (annotate m s seen) (dedupeKey s) = Some c
       \<and> getProp (fst (annotate m s seen)) ''firstSeenOnMarketplace'' = JStr c"
  by (cases "seen (dedupeKey s)") (simp_all add: annotate_known annotate_new annotate_seen_keeps)



lemma annotateAll_seen_keeps: "seen k = Some c \<Longrightarrow> snd (annotateAll m ss seen) k = Some c"
  by (induction ss arbitrary: seen) (simp_all add: annotate_seen_keeps)



lemma annotateAll_marks:
  "s \<in> set ss \<Longrightarrow> \<exists>c. snd (annotateAll m ss seen) (dedupeKey s) = Some c"
proof (induction ss arbitrary: seen)
  case Nil
  then show ?case by simp
next
  case (Cons a rest)
  show ?case
  proof (cases "s = a")
    case True
    obtain c where "snd (annotate m a seen) (dedupeKey a) = Some c"
      using annotate_recorded [of m a seen] by blast
    then have "snd (annotateAll m rest (snd (annotate m a seen))) (dedupeKey a) = Some c"
      by (rule annotateAll_seen_keeps)
    with True show ?thesis by simp
  next
    case False
    with Cons.prems have "s \<in> set rest" by simp
    from Cons.IH [OF this] show ?thesis by simp
  qed
qed


















section \<open>A failed navigation to the offer listing\<close>

lemma extractAllSellers_000_nav_failure:
  "navError (page (offerUrl m asin)) = Some e \<Longrightarrow>
   extractAllSellers_000 page asin m
     = (Inr [], [loadingLine m asin,
                 tagged WARNING m [JStr (str ''Failed to load offer page: ''), JStr e]])"
  by (simp add: extractAllSellers_000_def Let_def)

lemma extractAllSellers_nav_warning:
  "navError (page (offerUrl m asin)) = Some e \<Longrightarrow>
   tagged WARNING m [JStr (str ''Page load timeout, continuing anyway: ''), JStr e]
     \<in> set (snd (extractAllSellers page asin m))"
  by (simp add: extractAllSellers_def Let_def split: sum.splits bool.splits)

lemma extractAllSellers_nav_ignored:
  "fst (extractAllSellers page asin m)
     = fst (extractAllSellers (\<lambda>u. (page u)\<lparr>navError := None\<rparr>) asin m)"
  by (simp add: extractAllSellers_def Let_def split: sum.splits bool.splits)

text \<open>
  C3, as the code has it. When the navigation to the offer listing fails, a warning is
  recorded. part_000 then returns the empty list and looks at nothing else. part_001
  goes on: what it returns is what the checks and the extraction give on the page as it
  stands, the same as if the navigation had not failed.
\<close>

theorem extractAllSellers_navigation_failure:
  "navError (page (offerUrl m asin)) = Some e \<longrightarrow>
     extractAllSellers_000 page asin m
       = (Inr [], [loadingLine m asin,
                   tagged WARNING m [JStr (str ''Failed to load offer page: ''), JStr e]])
     \<and> tagged WARNING m [JStr (str ''Page load timeout, continuing anyway: ''), JStr e]
         \<in> set (snd (extractAllSellers page asin m))
     \<and> fst (extractAllSellers page asin m)
         = fst (extractAllSellers (\<lambda>u. (page u)\<lparr>navError := None\<rparr>) asin m)"
  using extractAllSellers_000_nav_failure [of page m asin e]
    extractAllSellers_nav_warning [of page m asin e]
    extractAllSellers_nav_ignored [of page asin m]
  by (intro impI conjI)

theorem extractAllSellers_navigation_failure_witness:
  "fst (extractAllSellers_000
         (\<lambda>u. \<lparr>navError = Some (str ''Timeout 30000ms exceeded''), pageTitle = Inr (str ''Amazon.de''),
                currentUrl = str ''https://www.amazon.de/dp/B07YDVWL4J'', captchaQuery = Inr False,
                selectorAppears = (\<lambda>s. False), debugJson = str ''{}'', anchors = Some []\<rparr>)
         (str ''B07YDVWL4J'')
         \<lparr>code = str ''DE'', domain = str ''amazon.de'', currency = str ''EUR'', tld = str ''de''\<rparr>) = Inr []
   \<and> (WARNING, [JStr (str ''[''), JStr (str ''DE''), JStr (str ''] ''), JStr (str ''Page load timeout, continuing anyway: ''),
                 JStr (str ''Timeout 30000ms exceeded'')])
       \<in> set (snd (extractAllSellers
         (\<lambda>u. \<lparr>navError = Some (str ''Timeout 30000ms exceeded''), pageTitle = Inr (str ''Amazon.de''),
                currentUrl = str ''https://www.amazon.de/dp/B07YDVWL4J'', captchaQuery = Inr False,
                selectorAppears = (\<lambda>s. False), debugJson = str ''{}'', anchors = Some []\<rparr>)
         (str ''B07YDVWL4J'')
         \<lparr>code = str ''DE'', domain = str ''amazon.de'', currency = str ''EUR'', tld = str ''de''\<rparr>))"
proof -
  define page :: "jsstring \<Rightarrow> offer_page" where
    "page = (\<lambda>u. \<lparr>navError = Some (str ''Timeout 30000ms exceeded''), pageTitle = Inr (str ''Amazon.de''),
                currentUrl = str ''https://www.amazon.de/dp/B07YDVWL4J'', captchaQuery = Inr False,
                selectorAppears = (\<lambda>s. False), debugJson = str ''{}'', anchors = Some []\<rparr>)"
  define DE where "DE = \<lparr>code = str ''DE'', domain = str ''amazon.de'', currency = str ''EUR'', tld = str ''de''\<rparr>"
  have h: "navError (page (offerUrl DE (str ''B07YDVWL4J''))) = Some (str ''Timeout 30000ms exceeded'')"
    by (simp add: page_def)
  note t = extractAllSellers_navigation_failure
             [of page DE "str ''B07YDVWL4J''" "str ''Timeout 30000ms exceeded''", THEN mp, OF h]
  have a: "fst (extractAllSellers_000 page (str ''B07YDVWL4J'') DE) = Inr []"
    using t [THEN conjunct1] by simp
  have w: "tagged WARNING DE [JStr (str ''Page load timeout, continuing anyway: ''),
                              JStr (str ''Timeout 30000ms exceeded'')]
       = (WARNING, [JStr (str ''[''), JStr (str ''DE''), JStr (str ''] ''), JStr (str ''Page load timeout, continuing anyway: ''),
                 JStr (str ''Timeout 30000ms exceeded'')])"
    by (simp add: tagged_def DE_def)
  have b: "(WARNING, [JStr (str ''[''), JStr (str ''DE''), JStr (str ''] ''), JStr (str ''Page load timeout, continuing anyway: ''),
                 JStr (str ''Timeout 30000ms exceeded'')])
       \<in> set (snd (extractAllSellers page (str ''B07YDVWL4J'') DE))"
    using t [THEN conjunct2, THEN conjunct1] unfolding w .
  from a b show ?thesis unfolding page_def DE_def by (rule conjI)
qed

text \<open>
  Against C3 as stated: in part_001 the navigation fails, the page that remains shows a
  link to a storefront, and the seller behind it is returned.
\<close>

theorem extractAllSellers_continues_counterexample:
  "fst (extractAllSellers
         (\<lambda>u. \<lparr>navError = Some (str ''Timeout 45000ms exceeded''), pageTitle = Inr (str ''Amazon.de''),
                currentUrl = str ''https://www.amazon.de/dp/B07YDVWL4J'', captchaQuery = Inr False,
                selectorAppears = (\<lambda>s. False), debugJson = str ''{}'',
                anchors = Some
                  [\<lparr>hrefAttr = Some (str ''/gp/aag/main?seller=A1XYZ''),
                    hrefProp = str ''https://www.amazon.de/gp/aag/main?seller=A1XYZ'',
                    searchParams = Some [(str ''seller'', str ''A1XYZ'')],
                    textContent = str ''Acme Outlet'', prevSiblingText = None,
                    parentText = None\<rparr>]\<rparr>)
         (str ''B07YDVWL4J'')
         \<lparr>code = str ''DE'', domain = str ''amazon.de'', currency = str ''EUR'', tld = str ''de''\<rparr>)
     = Inr [\<lparr>name = str ''Acme Outlet'', sellerId = str ''A1XYZ'',
             href = str ''https://www.amazon.de/gp/aag/main?seller=A1XYZ'', strategy = Some (str ''aag'')\<rparr>]"
  by code_simp

end
